theory Spec2Isabelle
  imports Main
begin

section \<open>JavaScript values and strings\<close>

text \<open>
  The examples of the repository are TypeScript scripts. A value obtained from
  \<^verbatim>\<open>JSON.parse\<close> is a \<open>json\<close>; \<^verbatim>\<open>undefined\<close> is \<open>None\<close> of \<open>json option\<close>.
  Strings are kept as their UTF-8 bytes, so the Cyrillic literals of the source are
  written byte by byte. Numbers are integers: the code never computes with
  fractions. Output written with \<^verbatim>\<open>console.log\<close> is not part of the model, but the
  exceptions that computing a printed line can throw are.
\<close>

datatype json =
    JNull
  | JBool bool
  | JNum int
  | JStr string
  | JArr "json list"
  | JObj "(string \<times> json) list"

text \<open>Exceptions that no handler catches, and the error object a failing system call throws.\<close>

datatype js_error = SyntaxError | TypeError | ServiceError

record exn =
  e_message :: string
  e_stderr :: "string option"

text \<open>\<^verbatim>\<open>args.key\<close>, for the keys that the code reads (none of them is a member of a
  prototype): reading a property of \<^verbatim>\<open>null\<close> throws; a primitive or an array has none of
  these properties.\<close>

fun get_prop :: "json \<Rightarrow> string \<Rightarrow> js_error + json option" where
  "get_prop JNull k = Inl TypeError"
| "get_prop (JObj kvs) k = Inr (map_of kvs k)"
| "get_prop j k = Inr None"

fun digit :: "nat \<Rightarrow> char" where
  "digit n = char_of (48 + n)"

fun show_nat :: "nat \<Rightarrow> string" where
  "show_nat n = (if n < 10 then [digit n] else show_nat (n div 10) @ [digit (n mod 10)])"

declare show_nat.simps [simp del]

definition show_int :: "int \<Rightarrow> string" where
  "show_int i = (if i < 0 then CHR ''-'' # show_nat (nat (- i)) else show_nat (nat i))"

fun js_join :: "string \<Rightarrow> string list \<Rightarrow> string" where
  "js_join sep [] = []"
| "js_join sep [x] = x"
| "js_join sep (x # y # ys) = x @ sep @ js_join sep (y # ys)"

text \<open>
  String conversion, as a template literal, a property key or \<^verbatim>\<open>Array.prototype.join\<close>
  performs it. An array is the join of its elements, where \<^verbatim>\<open>null\<close> counts as the empty
  string. An object is converted by its \<^verbatim>\<open>toString\<close> method: the inherited one gives
  \<^verbatim>\<open>[object Object]\<close>; when the object has a key \<^verbatim>\<open>toString\<close> of its own, that value
  is no function, \<^verbatim>\<open>valueOf\<close> gives no primitive either, and the conversion throws.
\<close>

fun to_string :: "json \<Rightarrow> js_error + string"
  and strings_of :: "json list \<Rightarrow> js_error + string list" where
  "to_string JNull = Inr ''null''"
| "to_string (JBool b) = Inr (if b then ''true'' else ''false'')"
| "to_string (JNum n) = Inr (show_int n)"
| "to_string (JStr s) = Inr s"
| "to_string (JArr xs) =
     (case strings_of xs of Inl e \<Rightarrow> Inl e | Inr ss \<Rightarrow> Inr (js_join '','' ss))"
| "to_string (JObj kvs) =
     (if map_of kvs ''toString'' = None then Inr ''[object Object]'' else Inl TypeError)"
| "strings_of [] = Inr []"
| "strings_of (x # xs) =
     (case (if x = JNull then Inr [] else to_string x) of
        Inl e \<Rightarrow> Inl e
      | Inr s \<Rightarrow> (case strings_of xs of Inl e \<Rightarrow> Inl e | Inr ss \<Rightarrow> Inr (s # ss)))"

text \<open>\<^verbatim>\<open>xs.join(sep)\<close> for an array \<open>xs\<close>, and \<^verbatim>\<open>`${v}`\<close> for a value that may be
  \<^verbatim>\<open>undefined\<close>.\<close>

definition array_join :: "string \<Rightarrow> json list \<Rightarrow> js_error + string" where
  "array_join sep xs =
     (case strings_of xs of Inl e \<Rightarrow> Inl e | Inr ss \<Rightarrow> Inr (js_join sep ss))"

definition template :: "json option \<Rightarrow> js_error + string" where
  "template v = (case v of None \<Rightarrow> Inr ''undefined'' | Some j \<Rightarrow> to_string j)"

text \<open>\<^verbatim>\<open>s.length\<close> counts UTF-16 code units: one for each UTF-8 sequence, two for a
  four-byte sequence.\<close>

definition utf16_length :: "string \<Rightarrow> nat" where
  "utf16_length s =
     length (filter (\<lambda>c. \<not> (128 \<le> (of_char c :: nat) \<and> (of_char c :: nat) < 192)) s)
     + length (filter (\<lambda>c. 240 \<le> (of_char c :: nat)) s)"

text \<open>The type errors whose message the code puts into a text: reading \<^verbatim>\<open>length\<close> of
  \<^verbatim>\<open>undefined\<close> or of \<^verbatim>\<open>null\<close>, and converting an object that has no primitive value.\<close>

datatype fault = LengthOfUndefined | LengthOfNull | NoPrimitive

text \<open>\<^verbatim>\<open>v.length\<close> for a value \<open>v\<close>.\<close>

fun js_length :: "json option \<Rightarrow> fault + json option" where
  "js_length None = Inl LengthOfUndefined"
| "js_length (Some JNull) = Inl LengthOfNull"
| "js_length (Some (JStr s)) = Inr (Some (JNum (int (utf16_length s))))"
| "js_length (Some (JArr xs)) = Inr (Some (JNum (int (length xs))))"
| "js_length (Some (JObj kvs)) = Inr (map_of kvs ''length'')"
| "js_length (Some j) = Inr None"

text \<open>\<^verbatim>\<open>String.prototype.trim\<close>: the white space and line terminators of ECMAScript, in UTF-8.\<close>

definition js_whitespace :: "string list" where
  "js_whitespace =
     [[CHR 0x09], [CHR 0x0A], [CHR 0x0B], [CHR 0x0C], [CHR 0x0D], [CHR 0x20],
      [CHR 0xC2, CHR 0xA0], [CHR 0xE1, CHR 0x9A, CHR 0x80],
      [CHR 0xE2, CHR 0x80, CHR 0x80], [CHR 0xE2, CHR 0x80, CHR 0x81],
      [CHR 0xE2, CHR 0x80, CHR 0x82], [CHR 0xE2, CHR 0x80, CHR 0x83],
      [CHR 0xE2, CHR 0x80, CHR 0x84], [CHR 0xE2, CHR 0x80, CHR 0x85],
      [CHR 0xE2, CHR 0x80, CHR 0x86], [CHR 0xE2, CHR 0x80, CHR 0x87],
      [CHR 0xE2, CHR 0x80, CHR 0x88], [CHR 0xE2, CHR 0x80, CHR 0x89],
      [CHR 0xE2, CHR 0x80, CHR 0x8A], [CHR 0xE2, CHR 0x80, CHR 0xA8],
      [CHR 0xE2, CHR 0x80, CHR 0xA9], [CHR 0xE2, CHR 0x80, CHR 0xAF],
      [CHR 0xE2, CHR 0x81, CHR 0x9F], [CHR 0xE3, CHR 0x80, CHR 0x80],
      [CHR 0xEF, CHR 0xBB, CHR 0xBF]]"

function strip_front :: "string list \<Rightarrow> string \<Rightarrow> string" where
  "strip_front ws s =
     (case find (\<lambda>p. p \<noteq> [] \<and> take (length p) s = p) ws of
        None \<Rightarrow> s
      | Some p \<Rightarrow> strip_front ws (drop (length p) s))"
  by pat_completeness auto
termination
proof (relation "measure (\<lambda>(ws, s). length s)")
  show "wf (measure (\<lambda>(ws, s). length s))" by simp
next
  fix ws :: "string list" and s p :: string
  assume "find (\<lambda>p. p \<noteq> [] \<and> take (length p) s = p) ws = Some p"
  then have p: "p \<noteq> []" "take (length p) s = p"
    by (auto simp: find_Some_iff)
  then have "s \<noteq> []" by auto
  with p show "((ws, drop (length p) s), (ws, s)) \<in> measure (\<lambda>(ws, s). length s)"
    by (cases p) auto
qed

declare strip_front.simps [simp del]

definition trim :: "string \<Rightarrow> string" where
  "trim s = rev (strip_front (map rev js_whitespace) (rev (strip_front js_whitespace s)))"

text \<open>
  A handler, a call of a built-in function and a property of an object literal can
  give more than the values of JSON: \<^verbatim>\<open>undefined\<close>; the wrapper object that
  \<^verbatim>\<open>Object\<close> makes of a string, a number or a boolean; the table of handlers
  itself; the member of \<^verbatim>\<open>Object.prototype\<close> with a given name (a function, and for
  \<^verbatim>\<open>__proto__\<close> the prototype object); the getter and the setter of \<^verbatim>\<open>__proto__\<close>.
\<close>

datatype js_value =
    Undefined
  | Json json
  | Boxed json
  | Table
  | Member string
  | Getter
  | Setter

abbreviation Str :: "string \<Rightarrow> js_value" where
  "Str s \<equiv> Json (JStr s)"

text \<open>\<^verbatim>\<open>v ?? text\<close>\<close>

definition defaulted :: "js_value \<Rightarrow> string \<Rightarrow> js_value" where
  "defaulted v text = (if v = Undefined \<or> v = Json JNull then Str text else v)"

text \<open>
  What printing \<^verbatim>\<open>`${result.slice(0, n)}`\<close> throws. A string has \<^verbatim>\<open>slice\<close>, and so has
  the wrapper of a string; an array has it too, and the first \<open>n\<close> elements are
  then converted to a string. Any other value has no function \<^verbatim>\<open>slice\<close> (the handler
  tables of these files have no member of that name), so the call throws.
\<close>

fun sliced :: "nat \<Rightarrow> js_value \<Rightarrow> js_error option" where
  "sliced n (Json (JStr t)) = None"
| "sliced n (Json (JArr xs)) =
     (case strings_of (take n xs) of Inl e \<Rightarrow> Some e | Inr ss \<Rightarrow> None)"
| "sliced n (Boxed (JStr t)) = None"
| "sliced n v = Some TypeError"

text \<open>What printing \<^verbatim>\<open>`${result}`\<close> throws: only the conversion of an array or an object
  can fail.\<close>

fun shown :: "js_value \<Rightarrow> js_error option" where
  "shown (Json j) = (case to_string j of Inl e \<Rightarrow> Some e | Inr t \<Rightarrow> None)"
| "shown v = None"

section \<open>Members inherited from \<^verbatim>\<open>Object.prototype\<close>\<close>

text \<open>
  Every handler table of the repository is an object literal, so \<^verbatim>\<open>toolHandlers[name]\<close>
  finds the handlers of the literal and, for the names below, the members that the
  literal inherits from \<^verbatim>\<open>Object.prototype\<close> (ECMAScript, with the legacy members that
  Node has). \<open>inherited own name args\<close> is the call \<^verbatim>\<open>toolHandlers[name](args)\<close> of such a
  member, as a method of the table, where \<open>own\<close> tells the keys of the literal itself:
  \<^verbatim>\<open>constructor\<close> is \<^verbatim>\<open>Object\<close>, which returns an object or array as it is, wraps a
  primitive and makes a new object of \<^verbatim>\<open>null\<close>; \<^verbatim>\<open>toString\<close> and \<^verbatim>\<open>toLocaleString\<close> give
  \<^verbatim>\<open>[object Object]\<close> (no table has a handler named \<^verbatim>\<open>toString\<close>); \<^verbatim>\<open>valueOf\<close> returns the
  table; \<^verbatim>\<open>isPrototypeOf\<close> is false of every parsed value; \<^verbatim>\<open>hasOwnProperty\<close> and
  \<^verbatim>\<open>propertyIsEnumerable\<close> convert the argument to a key and test the literal;
  \<^verbatim>\<open>__lookupGetter__\<close> and \<^verbatim>\<open>__lookupSetter__\<close> convert the argument to a key and find an
  accessor only for \<^verbatim>\<open>__proto__\<close>; \<^verbatim>\<open>__defineGetter__\<close> and \<^verbatim>\<open>__defineSetter__\<close> throw
  because no function is passed; \<^verbatim>\<open>__proto__\<close> is an object, and calling it throws.

  \<open>detached name args\<close> is the call \<^verbatim>\<open>handler(args)\<close> after
  \<^verbatim>\<open>const handler = toolHandlers[name]\<close>: the member then runs with \<^verbatim>\<open>this\<close> undefined.
  \<^verbatim>\<open>Object\<close> does not use \<^verbatim>\<open>this\<close>; \<^verbatim>\<open>toString\<close> gives \<^verbatim>\<open>[object Undefined]\<close>;
  \<^verbatim>\<open>isPrototypeOf\<close> is false of a primitive before it looks at \<^verbatim>\<open>this\<close>; every other
  member throws, most of them when they convert \<^verbatim>\<open>this\<close> to an object.
\<close>

definition object_prototype :: "string list" where
  "object_prototype =
     [''constructor'', ''__defineGetter__'', ''__defineSetter__'', ''hasOwnProperty'',
      ''__lookupGetter__'', ''__lookupSetter__'', ''isPrototypeOf'', ''propertyIsEnumerable'',
      ''toString'', ''valueOf'', ''__proto__'', ''toLocaleString'']"

fun to_object :: "json \<Rightarrow> js_value" where
  "to_object JNull = Json (JObj [])"
| "to_object (JArr xs) = Json (JArr xs)"
| "to_object (JObj kvs) = Json (JObj kvs)"
| "to_object j = Boxed j"

definition inherited :: "(string \<Rightarrow> bool) \<Rightarrow> string \<Rightarrow> json \<Rightarrow> js_error + js_value" where
  "inherited own name args =
     (if name = ''constructor'' then Inr (to_object args)
      else if name = ''toString'' \<or> name = ''toLocaleString'' then Inr (Str ''[object Object]'')
      else if name = ''valueOf'' then Inr Table
      else if name = ''isPrototypeOf'' then Inr (Json (JBool False))
      else if name = ''hasOwnProperty'' \<or> name = ''propertyIsEnumerable'' then
        (case to_string args of Inl e \<Rightarrow> Inl e | Inr key \<Rightarrow> Inr (Json (JBool (own key))))
      else if name = ''__lookupGetter__'' then
        (case to_string args of
           Inl e \<Rightarrow> Inl e
         | Inr key \<Rightarrow> Inr (if key = ''__proto__'' \<and> \<not> own key then Getter else Undefined))
      else if name = ''__lookupSetter__'' then
        (case to_string args of
           Inl e \<Rightarrow> Inl e
         | Inr key \<Rightarrow> Inr (if key = ''__proto__'' \<and> \<not> own key then Setter else Undefined))
      else Inl TypeError)"

definition detached :: "string \<Rightarrow> json \<Rightarrow> js_error + js_value" where
  "detached name args =
     (if name = ''constructor'' then Inr (to_object args)
      else if name = ''toString'' then Inr (Str ''[object Undefined]'')
      else if name = ''isPrototypeOf'' then
        (case args of
           JArr xs \<Rightarrow> Inl TypeError
         | JObj kvs \<Rightarrow> Inl TypeError
         | _ \<Rightarrow> Inr (Json (JBool False)))
      else Inl TypeError)"

section \<open>Transcript, reasoning service and system calls\<close>

text \<open>
  A tool call of an assistant message carries its identifier, the name of the
  requested tool and the argument payload as the text the service sent; the loops
  parse it with \<^verbatim>\<open>JSON.parse\<close>. The content of a tool message is the value that the loop
  pushes, a string in all ordinary cases. The fixed instruction texts of the
  examples are constructors of \<open>prompt\<close>, carrying the parts computed at run time.
\<close>

record tool_call =
  tc_id :: string
  tc_name :: string
  tc_arguments :: string

record reply =
  r_content :: "string option"
  r_tool_calls :: "tool_call list"

datatype prompt =
    AssistantPrompt03
  | AssistantPrompt04
  | SkillsPrompt05 "(string \<times> string) list"
  | PlanningPrompt06
  | ExecutionPrompt06 json
  | PlannerPrompt07 "(json \<times> string \<times> string) option"
  | ExecutorPrompt07 json
  | WizardPrompt08
  | CustomPrompt string

datatype message =
    System prompt
  | User string
  | Assistant reply
  | Tool string js_value

text \<open>
  Everything outside the scripts is a field of \<open>sys\<close>, acting on a world \<open>'w\<close>:
  \<open>create\<close> is \<^verbatim>\<open>client.chat.completions.create\<close> followed by \<^verbatim>\<open>choices[0].message\<close>
  (its second argument lists the names of the tools offered), \<open>JSON_parse\<close> returns
  \<open>None\<close> where \<^verbatim>\<open>JSON.parse\<close> throws, the three \<^verbatim>\<open>Sync\<close> calls are those of Node,
  \<open>toLocaleTimeString\<close> reads the clock, \<open>question\<close> is \<^verbatim>\<open>rl.question\<close> and
  \<open>fault_message\<close> is the message that the engine gives to a type error.
\<close>

record 'w sys =
  create :: "message list \<Rightarrow> string list \<Rightarrow> 'w \<Rightarrow> (js_error + reply) \<times> 'w"
  JSON_parse :: "string \<Rightarrow> json option"
  execSync :: "json option \<Rightarrow> nat \<Rightarrow> 'w \<Rightarrow> (exn + string) \<times> 'w"
  readFileSync :: "json option \<Rightarrow> 'w \<Rightarrow> (exn + string) \<times> 'w"
  writeFileSync :: "json option \<Rightarrow> json option \<Rightarrow> 'w \<Rightarrow> (exn + unit) \<times> 'w"
  toLocaleTimeString :: "'w \<Rightarrow> string \<times> 'w"
  question :: "string \<Rightarrow> 'w \<Rightarrow> string \<times> 'w"
  fault_message :: "fault \<Rightarrow> string"

text \<open>
  A handler receives the parsed arguments and returns a value; it can change the
  world, and it throws where destructuring its parameter throws. The state of a
  run is its transcript and the world, together with \<open>invoked\<close>, the list of
  handler applications made so far (name and arguments, in order).
\<close>

type_synonym 'w handler = "json \<Rightarrow> 'w \<Rightarrow> (js_error + js_value) \<times> 'w"

record 'w exec =
  messages :: "message list"
  world :: 'w
  invoked :: "(string \<times> json) list"

definition push :: "message \<Rightarrow> 'w exec \<Rightarrow> 'w exec" where
  "push m s = s\<lparr>messages := messages s @ [m]\<rparr>"

text \<open>
  The application of a handler of the table, and the two ways in which the loops
  call what they find under a name, for a table whose literal has the handlers
  \<open>H\<close>. \<^verbatim>\<open>toolHandlers[name]?.(args)\<close> applies the handler of that name if the literal
  has one, calls the inherited member of that name otherwise, and is \<^verbatim>\<open>undefined\<close>
  only when there is neither. \<^verbatim>\<open>handler ? handler(args) : text\<close>, for
  \<^verbatim>\<open>handler = toolHandlers[name]\<close>, does the same with the member detached (handlers
  and inherited members are all truthy), and gives the text when there is neither.
\<close>

definition apply_handler ::
  "'w handler \<Rightarrow> string \<Rightarrow> json \<Rightarrow> 'w exec \<Rightarrow> (js_error + js_value) \<times> 'w exec" where
  "apply_handler h name args s =
     (case h args (world s) of
        (r, w') \<Rightarrow> (r, s\<lparr>world := w', invoked := invoked s @ [(name, args)]\<rparr>))"

definition call_handler ::
  "(string \<rightharpoonup> 'w handler) \<Rightarrow> string \<Rightarrow> json \<Rightarrow> 'w exec \<Rightarrow> (js_error + js_value) \<times> 'w exec" where
  "call_handler H name args s =
     (case H name of
        Some h \<Rightarrow> apply_handler h name args s
      | None \<Rightarrow>
          if name \<in> set object_prototype then (inherited (\<lambda>key. H key \<noteq> None) name args, s)
          else (Inr Undefined, s))"

definition call_taken ::
  "(string \<rightharpoonup> 'w handler) \<Rightarrow> string \<Rightarrow> string \<Rightarrow> json \<Rightarrow> 'w exec \<Rightarrow>
   (js_error + js_value) \<times> 'w exec" where
  "call_taken H text name args s =
     (case H name of
        Some h \<Rightarrow> apply_handler h name args s
      | None \<Rightarrow>
          if name \<in> set object_prototype then (detached name args, s)
          else (Inr (Str text), s))"

section \<open>Tool handlers\<close>

definition oshibka :: string where
  "oshibka = [CHR 0xD0, CHR 0x9E, CHR 0xD1, CHR 0x88, CHR 0xD0, CHR 0xB8, CHR 0xD0, CHR 0xB1,
     CHR 0xD0, CHR 0xBA, CHR 0xD0, CHR 0xB0, CHR 0x3A, CHR 0x20]"

definition ne_naiden :: string where
  "ne_naiden = [CHR 0x22, CHR 0x20, CHR 0xD0, CHR 0xBD, CHR 0xD0, CHR 0xB5, CHR 0x20, CHR 0xD0,
     CHR 0xBD, CHR 0xD0, CHR 0xB0, CHR 0xD0, CHR 0xB9, CHR 0xD0, CHR 0xB4, CHR 0xD0, CHR 0xB5,
     CHR 0xD0, CHR 0xBD]"

text \<open>The two texts for a name without handler. Both end in the Russian for "not
  found" (\<open>ne_naiden\<close>, with the closing quote before it); 03-agent-loop.ts puts
  the Russian for "Error:" and a space (\<open>oshibka\<close>) in front.\<close>

definition tool_not_found :: "string \<Rightarrow> string" where
  "tool_not_found name = ''Tool '' @ [CHR 0x22] @ name @ ne_naiden"

definition tool_not_found03 :: "string \<Rightarrow> string" where
  "tool_not_found03 name = oshibka @ ''tool '' @ [CHR 0x22] @ name @ ne_naiden"

text \<open>\<^verbatim>\<open>e.stderr || e.message\<close>\<close>

definition stderr_or_message :: "exn \<Rightarrow> string" where
  "stderr_or_message e =
     (case e_stderr e of None \<Rightarrow> e_message e | Some t \<Rightarrow> if t = [] then e_message e else t)"

text \<open>\<^verbatim>\<open>run_bash\<close> and \<^verbatim>\<open>read_file\<close> of 04-real-tools.ts.\<close>

definition run_bash04 :: "'w sys \<Rightarrow> 'w handler" where
  "run_bash04 sys args w =
     (case get_prop args ''command'' of
        Inl e \<Rightarrow> (Inl e, w)
      | Inr command \<Rightarrow>
          (case execSync sys command 5000 w of
             (Inr out, w') \<Rightarrow> (Inr (Str (trim out)), w')
           | (Inl e, w') \<Rightarrow> (Inr (Str (oshibka @ e_message e)), w')))"

definition read_file :: "'w sys \<Rightarrow> 'w handler" where
  "read_file sys args w =
     (case get_prop args ''path'' of
        Inl e \<Rightarrow> (Inl e, w)
      | Inr path \<Rightarrow>
          (case readFileSync sys path w of
             (Inr text, w') \<Rightarrow> (Inr (Str text), w')
           | (Inl e, w') \<Rightarrow> (Inr (Str (oshibka @ e_message e)), w')))"

definition toolHandlers04 :: "'w sys \<Rightarrow> string \<rightharpoonup> 'w handler" where
  "toolHandlers04 sys = map_of [(''run_bash'', run_bash04 sys), (''read_file'', read_file sys)]"

text \<open>The handlers of 07-adaptive-agent.ts; \<^verbatim>\<open>read_file\<close> is the one above. \<^verbatim>\<open>think\<close> and
  \<^verbatim>\<open>request_replan\<close> take no parameter. In \<^verbatim>\<open>write_file\<close> the text of the result is
  computed inside the \<^verbatim>\<open>try\<close> block, after the file is written, so a type error of
  that computation becomes an error text as well.\<close>

definition think :: "'w handler" where
  "think args w = (Inr (Str ''OK''), w)"

definition run_bash07 :: "'w sys \<Rightarrow> 'w handler" where
  "run_bash07 sys args w =
     (case get_prop args ''command'' of
        Inl e \<Rightarrow> (Inl e, w)
      | Inr command \<Rightarrow>
          (case execSync sys command 10000 w of
             (Inr out, w') \<Rightarrow> (Inr (Str (trim out)), w')
           | (Inl e, w') \<Rightarrow> (Inr (Str (oshibka @ stderr_or_message e)), w')))"

definition file_written :: "string \<Rightarrow> string \<Rightarrow> string" where
  "file_written path len =
     [CHR 0xE2, CHR 0x9C, CHR 0x85, CHR 0x20, CHR 0xD0, CHR 0xA4, CHR 0xD0, CHR 0xB0, CHR 0xD0,
      CHR 0xB9, CHR 0xD0, CHR 0xBB, CHR 0x20] @ path @
     [CHR 0x20, CHR 0xD0, CHR 0xB7, CHR 0xD0, CHR 0xB0, CHR 0xD0, CHR 0xBF, CHR 0xD0, CHR 0xB8,
      CHR 0xD1, CHR 0x81, CHR 0xD0, CHR 0xB0, CHR 0xD0, CHR 0xBD, CHR 0x20, CHR 0x28] @ len @
     [CHR 0x20, CHR 0xD0, CHR 0xB1, CHR 0xD0, CHR 0xB0, CHR 0xD0, CHR 0xB9, CHR 0xD1, CHR 0x82,
      CHR 0x29]"

definition written_text :: "json option \<Rightarrow> json option \<Rightarrow> fault + string" where
  "written_text path content =
     (case template path of
        Inl e \<Rightarrow> Inl NoPrimitive
      | Inr p \<Rightarrow>
          (case js_length content of
             Inl f \<Rightarrow> Inl f
           | Inr len \<Rightarrow>
               (case template len of
                  Inl e \<Rightarrow> Inl NoPrimitive
                | Inr l \<Rightarrow> Inr (file_written p l))))"

definition write_file :: "'w sys \<Rightarrow> 'w handler" where
  "write_file sys args w =
     (case get_prop args ''path'' of
        Inl e \<Rightarrow> (Inl e, w)
      | Inr path \<Rightarrow>
          (case get_prop args ''content'' of
             Inl e \<Rightarrow> (Inl e, w)
           | Inr content \<Rightarrow>
               (case writeFileSync sys path content w of
                  (Inl e, w') \<Rightarrow> (Inr (Str (oshibka @ e_message e)), w')
                | (Inr u, w') \<Rightarrow>
                    (case written_text path content of
                       Inl f \<Rightarrow> (Inr (Str (oshibka @ fault_message sys f)), w')
                     | Inr text \<Rightarrow> (Inr (Str text), w')))))"

definition request_replan :: "'w handler" where
  "request_replan args w = (Inr (Str ''REPLAN_REQUESTED''), w)"

definition toolHandlers07 :: "'w sys \<Rightarrow> string \<rightharpoonup> 'w handler" where
  "toolHandlers07 sys =
     map_of [(''think'', think), (''run_bash'', run_bash07 sys), (''read_file'', read_file sys),
             (''write_file'', write_file sys), (''request_replan'', request_replan)]"

text \<open>
  The handlers of 03-agent-loop.ts. \<^verbatim>\<open>get_weather\<close> indexes an object literal of two
  cities with the city converted to a key, so for the names of \<^verbatim>\<open>Object.prototype\<close>
  it returns the inherited member instead of a text. \<^verbatim>\<open>get_time\<close> reads the clock
  before it builds its text.
\<close>

definition weather_data :: "(string \<times> string) list" where
  "weather_data =
     [([CHR 0xD0, CHR 0x9C, CHR 0xD0, CHR 0xBE, CHR 0xD1, CHR 0x81, CHR 0xD0, CHR 0xBA, CHR 0xD0,
        CHR 0xB2, CHR 0xD0, CHR 0xB0],
       [CHR 0xE2, CHR 0x88, CHR 0x92, CHR 0x35, CHR 0xC2, CHR 0xB0, CHR 0x43, CHR 0x2C, CHR 0x20,
        CHR 0xD1, CHR 0x81, CHR 0xD0, CHR 0xBD, CHR 0xD0, CHR 0xB5, CHR 0xD0, CHR 0xB3]),
      ([CHR 0xD0, CHR 0x90, CHR 0xD0, CHR 0xBD, CHR 0xD0, CHR 0xB0, CHR 0xD0, CHR 0xBF, CHR 0xD0,
        CHR 0xB0],
       [CHR 0x2B, CHR 0x38, CHR 0xC2, CHR 0xB0, CHR 0x43, CHR 0x2C, CHR 0x20, CHR 0xD0, CHR 0xBE,
        CHR 0xD0, CHR 0xB1, CHR 0xD0, CHR 0xBB, CHR 0xD0, CHR 0xB0, CHR 0xD1, CHR 0x87, CHR 0xD0,
        CHR 0xBD, CHR 0xD0, CHR 0xBE])]"

definition no_data :: string where
  "no_data = [CHR 0xD0, CHR 0x9D, CHR 0xD0, CHR 0xB5, CHR 0xD1, CHR 0x82, CHR 0x20, CHR 0xD0,
     CHR 0xB4, CHR 0xD0, CHR 0xB0, CHR 0xD0, CHR 0xBD, CHR 0xD0, CHR 0xBD, CHR 0xD1,
     CHR 0x8B, CHR 0xD1, CHR 0x85, CHR 0x20, CHR 0xD0, CHR 0xB4, CHR 0xD0, CHR 0xBB,
     CHR 0xD1, CHR 0x8F, CHR 0x20]"

definition get_weather :: "'w handler" where
  "get_weather args w =
     (case get_prop args ''city'' of
        Inl e \<Rightarrow> (Inl e, w)
      | Inr city \<Rightarrow>
          (case template city of
             Inl e \<Rightarrow> (Inl e, w)
           | Inr key \<Rightarrow>
               (case map_of weather_data key of
                  Some t \<Rightarrow> (Inr (Str t), w)
                | None \<Rightarrow>
                    if key \<in> set object_prototype then (Inr (Member key), w)
                    else (Inr (Str (no_data @ key)), w))))"

definition now_in :: string where
  "now_in = [CHR 0xD0, CHR 0xA1, CHR 0xD0, CHR 0xB5, CHR 0xD0, CHR 0xB9, CHR 0xD1, CHR 0x87,
     CHR 0xD0, CHR 0xB0, CHR 0xD1, CHR 0x81, CHR 0x20, CHR 0xD0, CHR 0xB2, CHR 0x20]"

definition get_time :: "'w sys \<Rightarrow> 'w handler" where
  "get_time sys args w =
     (case get_prop args ''city'' of
        Inl e \<Rightarrow> (Inl e, w)
      | Inr city \<Rightarrow>
          (case toLocaleTimeString sys w of
             (now, w') \<Rightarrow>
               (case template city of
                  Inl e \<Rightarrow> (Inl e, w')
                | Inr c \<Rightarrow> (Inr (Str (now_in @ c @ '': '' @ now)), w'))))"

definition toolHandlers03 :: "'w sys \<Rightarrow> string \<rightharpoonup> 'w handler" where
  "toolHandlers03 sys = map_of [(''get_weather'', get_weather), (''get_time'', get_time sys)]"

section \<open>The tool loops of 03-agent-loop.ts, 04-real-tools.ts and 06-planning.ts\<close>

text \<open>
  These files repeat one \<^verbatim>\<open>while\<close> loop. They differ in the iteration ceiling, in the
  tools offered and in what the \<^verbatim>\<open>for\<close> loop does between \<^verbatim>\<open>JSON.parse\<close> and
  \<^verbatim>\<open>messages.push\<close>: \<open>respond\<close> is that part, from the name and the parsed arguments of a
  request to the content that is pushed, or to the exception that ends the run.
\<close>

record 'w loop =
  limit :: nat
  toolset :: "string list"
  respond :: "string \<Rightarrow> json \<Rightarrow> 'w exec \<Rightarrow> (js_error + js_value) \<times> 'w exec"

text \<open>How a run of a loop ends: by the \<^verbatim>\<open>return\<close> inside the loop (with
  \<^verbatim>\<open>message.content\<close>), by leaving the \<^verbatim>\<open>while\<close>, or by an exception.\<close>

datatype outcome = Returned "string option" | LimitReached | Threw js_error

text \<open>The \<^verbatim>\<open>for\<close> loop over \<^verbatim>\<open>message.tool_calls\<close>.\<close>

fun run_tool_calls ::
  "'w sys \<Rightarrow> 'w loop \<Rightarrow> tool_call list \<Rightarrow> 'w exec \<Rightarrow> js_error option \<times> 'w exec" where
  "run_tool_calls sys cfg [] s = (None, s)"
| "run_tool_calls sys cfg (toolCall # rest) s =
     (case JSON_parse sys (tc_arguments toolCall) of
        None \<Rightarrow> (Some SyntaxError, s)
      | Some args \<Rightarrow>
          (case respond cfg (tc_name toolCall) args s of
             (Inl e, s1) \<Rightarrow> (Some e, s1)
           | (Inr result, s1) \<Rightarrow>
               run_tool_calls sys cfg rest (push (Tool (tc_id toolCall) result) s1)))"

text \<open>The \<^verbatim>\<open>while\<close> loop; the result carries the final value of \<^verbatim>\<open>iteration\<close>.\<close>

function tool_loop ::
  "'w sys \<Rightarrow> 'w loop \<Rightarrow> nat \<Rightarrow> 'w exec \<Rightarrow> outcome \<times> nat \<times> 'w exec" where
  "tool_loop sys cfg iteration s =
     (if iteration < limit cfg then
        (case create sys (messages s) (toolset cfg) (world s) of
           (Inl e, w) \<Rightarrow> (Threw e, Suc iteration, s\<lparr>world := w\<rparr>)
         | (Inr message, w) \<Rightarrow>
             (if r_tool_calls message = [] then
                (Returned (r_content message), Suc iteration,
                 push (Assistant message) (s\<lparr>world := w\<rparr>))
              else
                (case run_tool_calls sys cfg (r_tool_calls message)
                        (push (Assistant message) (s\<lparr>world := w\<rparr>)) of
                   (Some e, s2) \<Rightarrow> (Threw e, Suc iteration, s2)
                 | (None, s2) \<Rightarrow> tool_loop sys cfg (Suc iteration) s2)))
      else (LimitReached, iteration, s))"
  by pat_completeness auto
termination
  by (relation "measure (\<lambda>(sys, cfg, iteration, s). limit cfg - iteration)") auto

declare tool_loop.simps [simp del]

definition start :: "prompt \<Rightarrow> string \<Rightarrow> 'w \<Rightarrow> 'w exec" where
  "start p task w = \<lparr>messages = [System p, User task], world = w, invoked = []\<rparr>"

text \<open>
  04-real-tools.ts and 06-planning.ts compute the result as
  \<^verbatim>\<open>toolHandlers[name]?.(args) ?? `Tool "${name}" ...`\<close> and print its first \<open>n\<close>
  characters with \<^verbatim>\<open>result.slice(0, n)\<close> before they push it.
\<close>

definition call_or_text ::
  "(string \<rightharpoonup> 'w handler) \<Rightarrow> nat \<Rightarrow> string \<Rightarrow> json \<Rightarrow> 'w exec \<Rightarrow>
   (js_error + js_value) \<times> 'w exec" where
  "call_or_text H n name args s =
     (case call_handler H name args s of
        (Inl e, s1) \<Rightarrow> (Inl e, s1)
      | (Inr r, s1) \<Rightarrow>
          (case sliced n (defaulted r (tool_not_found name)) of
             Some e \<Rightarrow> (Inl e, s1)
           | None \<Rightarrow> (Inr (defaulted r (tool_not_found name)), s1)))"

text \<open>04-real-tools.ts: \<^verbatim>\<open>agentLoop\<close> prints \<^verbatim>\<open>JSON.stringify(args)\<close>, which does not throw,
  and returns nothing on either way out.\<close>

definition loop04 :: "'w sys \<Rightarrow> 'w loop" where
  "loop04 sys =
     \<lparr>limit = 10, toolset = [''run_bash'', ''read_file''],
      respond = call_or_text (toolHandlers04 sys) 200\<rparr>"

definition agentLoop04 :: "'w sys \<Rightarrow> string \<Rightarrow> 'w \<Rightarrow> outcome \<times> nat \<times> 'w exec" where
  "agentLoop04 sys userMessage w =
     tool_loop sys (loop04 sys) 0 (start AssistantPrompt04 userMessage w)"

definition returned04 :: "outcome \<Rightarrow> js_error + json option" where
  "returned04 out = (case out of Threw e \<Rightarrow> Inl e | _ \<Rightarrow> Inr None)"

text \<open>
  03-agent-loop.ts takes \<^verbatim>\<open>handler = toolHandlers[name]\<close> and computes the result as
  \<^verbatim>\<open>handler ? handler(args) : `... tool "${name}" ...`\<close>; it prints \<^verbatim>\<open>`${result}`\<close>
  before it pushes the result. \<^verbatim>\<open>agentLoop\<close> returns \<^verbatim>\<open>message.content\<close> from inside
  the loop and nothing (\<^verbatim>\<open>undefined\<close>, here \<open>None\<close>) after it.
\<close>

definition answer03 ::
  "'w sys \<Rightarrow> string \<Rightarrow> json \<Rightarrow> 'w exec \<Rightarrow> (js_error + js_value) \<times> 'w exec" where
  "answer03 sys name args s =
     (case call_taken (toolHandlers03 sys) (tool_not_found03 name) name args s of
        (Inl e, s1) \<Rightarrow> (Inl e, s1)
      | (Inr result, s1) \<Rightarrow>
          (case shown result of Some e \<Rightarrow> (Inl e, s1) | None \<Rightarrow> (Inr result, s1)))"

definition loop03 :: "'w sys \<Rightarrow> 'w loop" where
  "loop03 sys =
     \<lparr>limit = 10, toolset = [''get_weather'', ''get_time''], respond = answer03 sys\<rparr>"

definition agentLoop03 :: "'w sys \<Rightarrow> string \<Rightarrow> 'w \<Rightarrow> outcome \<times> nat \<times> 'w exec" where
  "agentLoop03 sys userMessage w =
     tool_loop sys (loop03 sys) 0 (start AssistantPrompt03 userMessage w)"


section \<open>Registration of skills: 05-skills.ts\<close>

text \<open>
  \<^verbatim>\<open>createAgent\<close> collects the tools of the skills with \<^verbatim>\<open>flatMap\<close> and their handlers
  with \<^verbatim>\<open>Object.assign\<close>, which copies the tables from left to right into one object.
  A tool descriptor is kept as its name. The record holds what the function that
  \<^verbatim>\<open>createAgent\<close> returns works with: the ceiling of its loop, the tools and the
  handlers, the text for a name without handler, and that it computes nothing from
  the arguments before the handler runs.
\<close>

record 'w loop_config =
  max_iterations :: nat
  tools :: "string list"
  handlers :: "string \<rightharpoonup> 'w handler"
  not_found :: "string \<Rightarrow> string"
  preview :: "string \<Rightarrow> json \<Rightarrow> js_error option"

definition no_preview :: "string \<Rightarrow> json \<Rightarrow> js_error option" where
  "no_preview name args = None"

record 'w skill =
  sk_name :: string
  sk_description :: string
  sk_tools :: "string list"
  sk_handlers :: "string \<rightharpoonup> 'w handler"

definition allTools :: "'w skill list \<Rightarrow> string list" where
  "allTools skills = concat (map sk_tools skills)"

definition allHandlers :: "'w skill list \<Rightarrow> string \<rightharpoonup> 'w handler" where
  "allHandlers skills = foldl (++) Map.empty (map sk_handlers skills)"

definition createAgent :: "'w skill list \<Rightarrow> 'w loop_config" where
  "createAgent skills =
     \<lparr>max_iterations = 10, tools = allTools skills, handlers = allHandlers skills,
      not_found = tool_not_found, preview = no_preview\<rparr>"

section \<open>Plans: 06-planning.ts and 07-adaptive-agent.ts\<close>

text \<open>\<^verbatim>\<open>text.replace(/```json\n?/g, "")\<close> and \<^verbatim>\<open>text.replace(/```\n?/g, "")\<close>: every match of
  the marker with an optional line feed after it is removed, from left to right.\<close>

function remove_all :: "string \<Rightarrow> string \<Rightarrow> string" where
  "remove_all marker [] = []"
| "remove_all marker (c # cs) =
     (if marker \<noteq> [] \<and> take (length marker) (c # cs) = marker then
        (case drop (length marker) (c # cs) of
           [] \<Rightarrow> []
         | d # ds \<Rightarrow> if d = CHR 0x0A then remove_all marker ds else remove_all marker (d # ds))
      else c # remove_all marker cs)"
  by pat_completeness auto
termination
proof (relation "measure (\<lambda>(marker, s). length s)")
  show "wf (measure (\<lambda>(marker, s). length s))" by simp
next
  fix marker :: string and c d :: char and cs ds :: string
  assume "marker \<noteq> [] \<and> take (length marker) (c # cs) = marker"
    and "drop (length marker) (c # cs) = d # ds"
  then have "length (d # ds) < length (c # cs)"
    by (metis diff_less length_drop length_greater_0_conv list.discI)
  then show "((marker, ds), (marker, c # cs)) \<in> measure (\<lambda>(marker, s). length s)"
    and "((marker, d # ds), (marker, c # cs)) \<in> measure (\<lambda>(marker, s). length s)"
    by simp_all
next
  fix marker :: string and c :: char and cs :: string
  show "((marker, cs), (marker, c # cs)) \<in> measure (\<lambda>(marker, s). length s)" by simp
qed

definition cleanJson :: "string \<Rightarrow> string" where
  "cleanJson text = trim (remove_all ''```'' (remove_all ''```json'' text))"

text \<open>What printing \<^verbatim>\<open>`${v.key}`\<close> throws: \<open>v\<close> is \<^verbatim>\<open>null\<close>, or the property cannot be
  converted to a string.\<close>

definition printed :: "json \<Rightarrow> string \<Rightarrow> js_error option" where
  "printed v key =
     (case get_prop v key of
        Inl e \<Rightarrow> Some e
      | Inr x \<Rightarrow> (case template x of Inl e \<Rightarrow> Some e | Inr t \<Rightarrow> None))"

fun first_error :: "js_error option list \<Rightarrow> js_error option" where
  "first_error [] = None"
| "first_error (None # es) = first_error es"
| "first_error (Some e # es) = Some e"

text \<open>
  What printing a plan throws. Both files print \<^verbatim>\<open>plan.goal\<close> and then, for each
  element \<^verbatim>\<open>s\<close> of \<^verbatim>\<open>plan.steps\<close>, the properties \<^verbatim>\<open>s.id\<close>, \<^verbatim>\<open>s.tool\<close>, \<^verbatim>\<open>s.action\<close> and
  \<^verbatim>\<open>s.reason\<close>; \<^verbatim>\<open>plan.steps.forEach\<close> needs an array. (06-planning.ts also prints
  \<^verbatim>\<open>plan.steps.length\<close>, which throws in no other case.)
\<close>

definition print_step :: "json \<Rightarrow> js_error option" where
  "print_step s =
     first_error [printed s ''id'', printed s ''tool'', printed s ''action'', printed s ''reason'']"

definition printPlan :: "json \<Rightarrow> js_error option" where
  "printPlan plan =
     first_error
       (printed plan ''goal'' #
        (case get_prop plan ''steps'' of
           Inr (Some (JArr steps)) \<Rightarrow> map print_step steps
         | _ \<Rightarrow> [Some TypeError]))"

text \<open>
  What computing \<^verbatim>\<open>argsPreview\<close> throws, in 06-planning.ts and in 07-adaptive-agent.ts:
  for \<^verbatim>\<open>write_file\<close> it is \<^verbatim>\<open>`{path: "${args.path}", content: [${args.content.length} chars]}`\<close>,
  for other names \<^verbatim>\<open>JSON.stringify(args)\<close>, which does not throw.
\<close>

definition args_preview :: "string \<Rightarrow> json \<Rightarrow> js_error option" where
  "args_preview name args =
     (if name = ''write_file'' then
        (case printed args ''path'' of
           Some e \<Rightarrow> Some e
         | None \<Rightarrow>
             (case get_prop args ''content'' of
                Inl e \<Rightarrow> Some e
              | Inr content \<Rightarrow>
                  (case js_length content of
                     Inl f \<Rightarrow> Some TypeError
                   | Inr len \<Rightarrow>
                       (case template len of Inl e \<Rightarrow> Some e | Inr l \<Rightarrow> None))))
      else None)"

text \<open>06-planning.ts, \<^verbatim>\<open>planThenExecute\<close>. Its \<^verbatim>\<open>think\<close> handler destructures its argument;
  its loop computes \<^verbatim>\<open>argsPreview\<close> for every request.\<close>

definition think06 :: "'w handler" where
  "think06 args w =
     (case get_prop args ''thought'' of
        Inl e \<Rightarrow> (Inl e, w)
      | Inr thought \<Rightarrow> (Inr (Str ''OK''), w))"

definition toolHandlers06 :: "'w sys \<Rightarrow> string \<rightharpoonup> 'w handler" where
  "toolHandlers06 sys =
     map_of [(''think'', think06), (''run_bash'', run_bash07 sys), (''read_file'', read_file sys),
             (''write_file'', write_file sys)]"

definition answer06 ::
  "'w sys \<Rightarrow> string \<Rightarrow> json \<Rightarrow> 'w exec \<Rightarrow> (js_error + js_value) \<times> 'w exec" where
  "answer06 sys name args s =
     (case args_preview name args of
        Some e \<Rightarrow> (Inl e, s)
      | None \<Rightarrow> call_or_text (toolHandlers06 sys) 120 name args s)"

definition loop06 :: "'w sys \<Rightarrow> 'w loop" where
  "loop06 sys =
     \<lparr>limit = 15, toolset = [''think'', ''run_bash'', ''read_file'', ''write_file''],
      respond = answer06 sys\<rparr>"

datatype 'w plan_result =
    PlanParseFailed 'w
  | PlanCrashed js_error 'w
  | Executed "outcome \<times> nat \<times> 'w exec"

definition planThenExecute :: "'w sys \<Rightarrow> string \<Rightarrow> 'w \<Rightarrow> 'w plan_result" where
  "planThenExecute sys userMessage w =
     (case create sys [System PlanningPrompt06, User userMessage] [] w of
        (Inl e, w1) \<Rightarrow> PlanCrashed e w1
      | (Inr planResponse, w1) \<Rightarrow>
          (case JSON_parse sys
                  (cleanJson (case r_content planResponse of None \<Rightarrow> [] | Some t \<Rightarrow> t)) of
             None \<Rightarrow> PlanParseFailed w1
           | Some plan \<Rightarrow>
               (case printPlan plan of
                  Some e \<Rightarrow> PlanCrashed e w1
                | None \<Rightarrow>
                    Executed (tool_loop sys (loop06 sys) 0
                                (start (ExecutionPrompt06 plan) userMessage w1)))))"

text \<open>07-adaptive-agent.ts, \<^verbatim>\<open>createPlan\<close>. The context of a replan is the previous plan
  with the completed steps and the discoveries of the revision request.\<close>

fun truthy :: "json \<Rightarrow> bool" where
  "truthy JNull = False"
| "truthy (JBool b) = b"
| "truthy (JNum n) = (n \<noteq> 0)"
| "truthy (JStr s) = (s \<noteq> [])"
| "truthy (JArr xs) = True"
| "truthy (JObj kvs) = True"

text \<open>\<^verbatim>\<open>x?.join(sep) || fallback\<close>: only an array has a function \<^verbatim>\<open>join\<close>.\<close>

fun joined :: "string \<Rightarrow> string \<Rightarrow> json option \<Rightarrow> js_error + string" where
  "joined sep fallback None = Inr fallback"
| "joined sep fallback (Some JNull) = Inr fallback"
| "joined sep fallback (Some (JArr xs)) =
     (case array_join sep xs of
        Inl e \<Rightarrow> Inl e
      | Inr text \<Rightarrow> Inr (if text = [] then fallback else text))"
| "joined sep fallback (Some j) = Inl TypeError"

definition planner_prompt :: "(json \<times> json option \<times> json option) option \<Rightarrow> js_error + prompt" where
  "planner_prompt context =
     (case context of
        None \<Rightarrow> Inr (PlannerPrompt07 None)
      | Some (previousPlan, completedSteps, discoveries) \<Rightarrow>
          if truthy previousPlan then
            (case joined '', '' [CHR 0xD0, CHR 0xBD, CHR 0xD0, CHR 0xB8, CHR 0xD1, CHR 0x87, CHR 0xD0, CHR 0xB5, CHR 0xD0,
               CHR 0xB3, CHR 0xD0, CHR 0xBE] completedSteps of
               Inl e \<Rightarrow> Inl e
             | Inr done \<Rightarrow>
                 (case joined ''; '' [CHR 0xD0, CHR 0xBD, CHR 0xD0, CHR 0xB5, CHR 0xD1, CHR 0x82] discoveries of
                    Inl e \<Rightarrow> Inl e
                  | Inr new \<Rightarrow> Inr (PlannerPrompt07 (Some (previousPlan, done, new)))))
          else Inr (PlannerPrompt07 None))"

definition createPlan ::
  "'w sys \<Rightarrow> string \<Rightarrow> (json \<times> json option \<times> json option) option \<Rightarrow> 'w \<Rightarrow> (js_error + json) \<times> 'w" where
  "createPlan sys task context w =
     (case planner_prompt context of
        Inl e \<Rightarrow> (Inl e, w)
      | Inr systemPrompt \<Rightarrow>
          (case create sys [System systemPrompt, User task] [] w of
             (Inl e, w1) \<Rightarrow> (Inl e, w1)
           | (Inr response, w1) \<Rightarrow>
               (case JSON_parse sys
                       (cleanJson (case r_content response of None \<Rightarrow> [] | Some t \<Rightarrow> t)) of
                  None \<Rightarrow> (Inl SyntaxError, w1)
                | Some plan \<Rightarrow> (Inr plan, w1))))"

text \<open>07-adaptive-agent.ts, \<^verbatim>\<open>executeWithReact\<close>.\<close>

record replanContext =
  reason :: "json option"
  completedSteps :: "json option"
  discoveries :: "json option"

datatype ExecutionResult = completed | replan_requested replanContext

text \<open>\<^verbatim>\<open>args.key\<close> where \<^verbatim>\<open>args\<close> is known not to be \<^verbatim>\<open>null\<close>.\<close>

definition property :: "json \<Rightarrow> string \<Rightarrow> json option" where
  "property v key = (case get_prop v key of Inl e \<Rightarrow> None | Inr x \<Rightarrow> x)"

text \<open>
  How the \<^verbatim>\<open>if\<close> chain on the tool name ends for one tool call: by an exception, by
  the \<^verbatim>\<open>return\<close> of the \<^verbatim>\<open>request_replan\<close> branch, or by reaching the statement after
  it. The first two branches print a property of the arguments; the last branch
  computes \<^verbatim>\<open>argsPreview\<close>, calls the handler and prints the first 120 characters of
  the result.
\<close>

datatype branch = Throw js_error | Return replanContext | Fall

definition react_branch :: "'w sys \<Rightarrow> tool_call \<Rightarrow> json \<Rightarrow> 'w exec \<Rightarrow> branch \<times> 'w exec" where
  "react_branch sys toolCall args s =
     (if tc_name toolCall = ''think'' then
        (case printed args ''thought'' of Some e \<Rightarrow> (Throw e, s) | None \<Rightarrow> (Fall, s))
      else if tc_name toolCall = ''request_replan'' then
        (case printed args ''reason'' of
           Some e \<Rightarrow> (Throw e, s)
         | None \<Rightarrow>
             (Return \<lparr>reason = property args ''reason'',
                      completedSteps = property args ''completed_steps'',
                      discoveries = property args ''discoveries''\<rparr>,
              push (Tool (tc_id toolCall) (Str ''REPLAN_REQUESTED'')) s))
      else
        (case args_preview (tc_name toolCall) args of
           Some e \<Rightarrow> (Throw e, s)
         | None \<Rightarrow>
             (case call_or_text (toolHandlers07 sys) 120 (tc_name toolCall) args s of
                (Inl e, s1) \<Rightarrow> (Throw e, s1)
              | (Inr result, s1) \<Rightarrow> (Fall, s1))))"

text \<open>The \<^verbatim>\<open>for\<close> loop: after the chain, \<^verbatim>\<open>messages.push\<close> with
  \<^verbatim>\<open>toolHandlers[name]?.(args) ?? "OK"\<close> as content.\<close>

fun react_tool_calls ::
  "'w sys \<Rightarrow> tool_call list \<Rightarrow> 'w exec \<Rightarrow> (js_error + replanContext option) \<times> 'w exec" where
  "react_tool_calls sys [] s = (Inr None, s)"
| "react_tool_calls sys (toolCall # rest) s =
     (case JSON_parse sys (tc_arguments toolCall) of
        None \<Rightarrow> (Inl SyntaxError, s)
      | Some args \<Rightarrow>
          (case react_branch sys toolCall args s of
             (Throw e, s1) \<Rightarrow> (Inl e, s1)
           | (Return ctx, s1) \<Rightarrow> (Inr (Some ctx), s1)
           | (Fall, s1) \<Rightarrow>
               (case call_handler (toolHandlers07 sys) (tc_name toolCall) args s1 of
                  (Inl e, s2) \<Rightarrow> (Inl e, s2)
                | (Inr r, s2) \<Rightarrow>
                    react_tool_calls sys rest
                      (push (Tool (tc_id toolCall) (defaulted r ''OK'')) s2))))"

definition executionTools :: "string list" where
  "executionTools = [''think'', ''run_bash'', ''read_file'', ''write_file'', ''request_replan'']"

text \<open>The \<^verbatim>\<open>while\<close> loop, with the ceiling (20 in the source) as a parameter.\<close>

function executeWithReact_loop ::
  "'w sys \<Rightarrow> nat \<Rightarrow> nat \<Rightarrow> 'w exec \<Rightarrow> (js_error + ExecutionResult) \<times> nat \<times> 'w exec" where
  "executeWithReact_loop sys ceiling iteration s =
     (if iteration < ceiling then
        (case create sys (messages s) executionTools (world s) of
           (Inl e, w) \<Rightarrow> (Inl e, Suc iteration, s\<lparr>world := w\<rparr>)
         | (Inr message, w) \<Rightarrow>
             (if r_tool_calls message = [] then
                (Inr completed, Suc iteration, push (Assistant message) (s\<lparr>world := w\<rparr>))
              else
                (case react_tool_calls sys (r_tool_calls message)
                        (push (Assistant message) (s\<lparr>world := w\<rparr>)) of
                   (Inl e, s2) \<Rightarrow> (Inl e, Suc iteration, s2)
                 | (Inr (Some ctx), s2) \<Rightarrow> (Inr (replan_requested ctx), Suc iteration, s2)
                 | (Inr None, s2) \<Rightarrow> executeWithReact_loop sys ceiling (Suc iteration) s2)))
      else (Inr completed, iteration, s))"
  by pat_completeness auto
termination
  by (relation "measure (\<lambda>(sys, ceiling, iteration, s). ceiling - iteration)") auto

declare executeWithReact_loop.simps [simp del]

definition executeWithReact ::
  "'w sys \<Rightarrow> string \<Rightarrow> json \<Rightarrow> 'w \<Rightarrow> (js_error + ExecutionResult) \<times> nat \<times> 'w exec" where
  "executeWithReact sys task plan w =
     executeWithReact_loop sys 20 0 (start (ExecutorPrompt07 plan) task w)"

text \<open>
  07-adaptive-agent.ts, \<^verbatim>\<open>adaptiveAgent\<close>. What it does is kept as a list of events:
  \<open>Planned context plan\<close> when a call of \<^verbatim>\<open>createPlan\<close> with that context has returned
  that plan, \<open>PlanShown\<close> when \<^verbatim>\<open>printPlan\<close> has printed it, \<open>Execution v\<close> for the line
  before each call of \<^verbatim>\<open>executeWithReact\<close> (plan version \<open>v\<close>), \<open>Replan k\<close> for the line
  before each call of \<^verbatim>\<open>createPlan\<close> with a context, \<open>TaskDone\<close> and \<open>ReplanLimit\<close> for
  the two final lines.
\<close>

datatype event =
    Planned "(json \<times> json option \<times> json option) option" json
  | PlanShown json
  | Execution nat
  | Replan nat
  | TaskDone
  | ReplanLimit

datatype ending = Done | Aborted | Crashed js_error | LeftLoop

function adaptiveAgent_loop ::
  "'w sys \<Rightarrow> nat \<Rightarrow> string \<Rightarrow> json \<Rightarrow> nat \<Rightarrow> event list \<Rightarrow> 'w \<Rightarrow> ending \<times> nat \<times> event list \<times> 'w" where
  "adaptiveAgent_loop sys MAX_REPLANS task plan replanCount console w =
     (if replanCount \<le> MAX_REPLANS then
        (case executeWithReact sys task plan w of
           (Inl e, n, s) \<Rightarrow>
             (Crashed e, replanCount, console @ [Execution (replanCount + 1)], world s)
         | (Inr completed, n, s) \<Rightarrow>
             (Done, replanCount, console @ [Execution (replanCount + 1), TaskDone], world s)
         | (Inr (replan_requested ctx), n, s) \<Rightarrow>
             (if Suc replanCount > MAX_REPLANS then
                (Aborted, Suc replanCount,
                 console @ [Execution (replanCount + 1), ReplanLimit], world s)
              else
                (case createPlan sys task
                        (Some (plan, completedSteps ctx, discoveries ctx)) (world s) of
                   (Inl e, w1) \<Rightarrow>
                     (Crashed e, Suc replanCount,
                      console @ [Execution (replanCount + 1), Replan (Suc replanCount)], w1)
                 | (Inr plan', w1) \<Rightarrow>
                     (case printPlan plan' of
                        Some e \<Rightarrow>
                          (Crashed e, Suc replanCount,
                           console @ [Execution (replanCount + 1), Replan (Suc replanCount),
                                      Planned (Some (plan, completedSteps ctx, discoveries ctx)) plan'],
                           w1)
                      | None \<Rightarrow>
                          adaptiveAgent_loop sys MAX_REPLANS task plan' (Suc replanCount)
                            (console @ [Execution (replanCount + 1), Replan (Suc replanCount),
                                        Planned (Some (plan, completedSteps ctx, discoveries ctx)) plan',
                                        PlanShown plan']) w1))))
      else (LeftLoop, replanCount, console, w))"
  by pat_completeness auto
termination
  by (relation "measure (\<lambda>(sys, MAX_REPLANS, task, plan, replanCount, console, w).
        Suc MAX_REPLANS - replanCount)") auto

declare adaptiveAgent_loop.simps [simp del]

definition adaptiveAgent_with ::
  "'w sys \<Rightarrow> nat \<Rightarrow> string \<Rightarrow> 'w \<Rightarrow> ending \<times> nat \<times> event list \<times> 'w" where
  "adaptiveAgent_with sys MAX_REPLANS task w =
     (case createPlan sys task None w of
        (Inl e, w1) \<Rightarrow> (Crashed e, 0, [], w1)
      | (Inr plan, w1) \<Rightarrow>
          (case printPlan plan of
             Some e \<Rightarrow> (Crashed e, 0, [Planned None plan], w1)
           | None \<Rightarrow>
               adaptiveAgent_loop sys MAX_REPLANS task plan 0
                 [Planned None plan, PlanShown plan] w1))"

definition adaptiveAgent :: "'w sys \<Rightarrow> string \<Rightarrow> 'w \<Rightarrow> ending \<times> nat \<times> event list \<times> 'w" where
  "adaptiveAgent sys task w = adaptiveAgent_with sys 3 task w"

section \<open>08-interactive-agent.ts\<close>

text \<open>
  \<^verbatim>\<open>ask\<close> returns the trimmed answer. The table of this file has seven handlers, under
  the names of the seven tools; most of them talk to the user, and what they do is a
  parameter \<open>H\<close> of the model, restricted to these names. Before a handler runs the
  loop prints \<^verbatim>\<open>args.thought\<close> for \<^verbatim>\<open>think\<close>, and for other names at most
  \<^verbatim>\<open>JSON.stringify(args)\<close>, which does not throw. It takes
  \<^verbatim>\<open>handler = toolHandlers[name]\<close>, calls it if it is truthy, and prints
  \<^verbatim>\<open>result.slice(0, 120)\<close> unless the name is \<^verbatim>\<open>think\<close>, \<^verbatim>\<open>write_file\<close> or starts with
  \<^verbatim>\<open>ask_user\<close>.
\<close>

definition ask :: "'w sys \<Rightarrow> string \<Rightarrow> 'w \<Rightarrow> string \<times> 'w" where
  "ask sys q w = (case question sys q w of (answer, w') \<Rightarrow> (trim answer, w'))"

definition follow_question :: string where
  "follow_question =
     [CHR 0x0A, CHR 0x3E, CHR 0x20, CHR 0x28, CHR 0x45, CHR 0x6E, CHR 0x74, CHR 0x65, CHR 0x72,
     CHR 0x20, CHR 0xD1, CHR 0x87, CHR 0xD1, CHR 0x82, CHR 0xD0, CHR 0xBE, CHR 0xD0, CHR 0xB1,
     CHR 0xD1, CHR 0x8B, CHR 0x20, CHR 0xD0, CHR 0xB7, CHR 0xD0, CHR 0xB0, CHR 0xD0, CHR 0xB2,
     CHR 0xD0, CHR 0xB5, CHR 0xD1, CHR 0x80, CHR 0xD1, CHR 0x88, CHR 0xD0, CHR 0xB8, CHR 0xD1,
     CHR 0x82, CHR 0xD1, CHR 0x8C, CHR 0x2C, CHR 0x20, CHR 0xD0, CHR 0xB8, CHR 0xD0, CHR 0xBB,
     CHR 0xD0, CHR 0xB8, CHR 0x20, CHR 0xD0, CHR 0xB2, CHR 0xD0, CHR 0xB2, CHR 0xD0, CHR 0xB5,
     CHR 0xD0, CHR 0xB4, CHR 0xD0, CHR 0xB8, CHR 0xD1, CHR 0x82, CHR 0xD0, CHR 0xB5, CHR 0x20,
     CHR 0xD1, CHR 0x81, CHR 0xD0, CHR 0xBE, CHR 0xD0, CHR 0xBE, CHR 0xD0, CHR 0xB1, CHR 0xD1,
     CHR 0x89, CHR 0xD0, CHR 0xB5, CHR 0xD0, CHR 0xBD, CHR 0xD0, CHR 0xB8, CHR 0xD0, CHR 0xB5,
     CHR 0x29, CHR 0x3A, CHR 0x20]"

definition tools08 :: "string list" where
  "tools08 = [''think'', ''run_bash'', ''read_file'', ''write_file'', ''ask_user_choice'',
     ''ask_user_input'', ''ask_user_confirm'']"

definition toolHandlers08 :: "(string \<rightharpoonup> 'w handler) \<Rightarrow> string \<rightharpoonup> 'w handler" where
  "toolHandlers08 H = H |` set tools08"

definition preview08 :: "string \<Rightarrow> json \<Rightarrow> js_error option" where
  "preview08 name args = (if name = ''think'' then printed args ''thought'' else None)"

definition result_printed08 :: "string \<Rightarrow> bool" where
  "result_printed08 name \<longleftrightarrow>
     take 8 name \<noteq> ''ask_user'' \<and> name \<noteq> ''write_file'' \<and> name \<noteq> ''think''"

definition answer08 ::
  "(string \<rightharpoonup> 'w handler) \<Rightarrow> string \<Rightarrow> json \<Rightarrow> 'w exec \<Rightarrow> (js_error + js_value) \<times> 'w exec" where
  "answer08 H name args s =
     (case preview08 name args of
        Some e \<Rightarrow> (Inl e, s)
      | None \<Rightarrow>
          (case call_taken (toolHandlers08 H) (tool_not_found name) name args s of
             (Inl e, s1) \<Rightarrow> (Inl e, s1)
           | (Inr result, s1) \<Rightarrow>
               if result_printed08 name then
                 (case sliced 120 result of Some e \<Rightarrow> (Inl e, s1) | None \<Rightarrow> (Inr result, s1))
               else (Inr result, s1)))"

definition loop08 :: "(string \<rightharpoonup> 'w handler) \<Rightarrow> 'w loop" where
  "loop08 H = \<lparr>limit = 30, toolset = tools08, respond = answer08 H\<rparr>"

function interactiveAgent_loop ::
  "'w sys \<Rightarrow> (string \<rightharpoonup> 'w handler) \<Rightarrow> nat \<Rightarrow> 'w exec \<Rightarrow> outcome \<times> nat \<times> 'w exec" where
  "interactiveAgent_loop sys H iteration s =
     (if iteration < 30 then
        (case create sys (messages s) tools08 (world s) of
           (Inl e, w) \<Rightarrow> (Threw e, Suc iteration, s\<lparr>world := w\<rparr>)
         | (Inr message, w) \<Rightarrow>
             (if r_tool_calls message = [] then
                (case ask sys follow_question w of
                   (follow, w2) \<Rightarrow>
                     if follow = [] then
                       (Returned (r_content message), Suc iteration,
                        push (Assistant message) (s\<lparr>world := w2\<rparr>))
                     else
                       interactiveAgent_loop sys H (Suc iteration)
                         (push (User follow) (push (Assistant message) (s\<lparr>world := w2\<rparr>))))
              else
                (case run_tool_calls sys (loop08 H) (r_tool_calls message)
                        (push (Assistant message) (s\<lparr>world := w\<rparr>)) of
                   (Some e, s2) \<Rightarrow> (Threw e, Suc iteration, s2)
                 | (None, s2) \<Rightarrow> interactiveAgent_loop sys H (Suc iteration) s2)))
      else (LimitReached, iteration, s))"
  by pat_completeness auto
termination
  by (relation "measure (\<lambda>(sys, H, iteration, s). 30 - iteration)") auto

declare interactiveAgent_loop.simps [simp del]

definition interactiveAgent ::
  "'w sys \<Rightarrow> (string \<rightharpoonup> 'w handler) \<Rightarrow> string \<Rightarrow> string option \<Rightarrow> 'w \<Rightarrow> outcome \<times> nat \<times> 'w exec" where
  "interactiveAgent sys H task systemPrompt w =
     interactiveAgent_loop sys H 0
       (start (case systemPrompt of
                 None \<Rightarrow> WizardPrompt08
               | Some p \<Rightarrow> if p = [] then WizardPrompt08 else CustomPrompt p) task w)"

section \<open>Notions used to state the properties\<close>

text \<open>The arguments of a request as the loop parses them, and the requests for which
  the literal of a table has a handler.\<close>

definition parsed :: "'w sys \<Rightarrow> tool_call \<Rightarrow> json" where
  "parsed sys tc = (case JSON_parse sys (tc_arguments tc) of Some args \<Rightarrow> args | None \<Rightarrow> JNull)"

definition registered :: "(string \<rightharpoonup> 'w handler) \<Rightarrow> tool_call list \<Rightarrow> tool_call list" where
  "registered H calls = filter (\<lambda>tc. H (tc_name tc) \<noteq> None) calls"

text \<open>
  An ordinary request: its name is none of the names of \<^verbatim>\<open>Object.prototype\<close>, and its
  payload parses to a value other than \<^verbatim>\<open>null\<close>. For \<^verbatim>\<open>executeWithReact\<close>, a plain request
  is an ordinary one other than \<^verbatim>\<open>request_replan\<close> whose printed line can be computed:
  the thought of \<^verbatim>\<open>think\<close> can be converted to a string, and \<^verbatim>\<open>write_file\<close> has a path that
  can be converted and a content with a length that can be converted.
\<close>

definition ordinary :: "'w sys \<Rightarrow> tool_call \<Rightarrow> bool" where
  "ordinary sys tc \<longleftrightarrow>
     tc_name tc \<notin> set object_prototype \<and>
     (case JSON_parse sys (tc_arguments tc) of None \<Rightarrow> False | Some args \<Rightarrow> args \<noteq> JNull)"

definition plain07 :: "'w sys \<Rightarrow> tool_call \<Rightarrow> bool" where
  "plain07 sys tc \<longleftrightarrow>
     ordinary sys tc \<and> tc_name tc \<noteq> ''request_replan'' \<and>
     (if tc_name tc = ''think'' then printed (parsed sys tc) ''thought'' = None
      else args_preview (tc_name tc) (parsed sys tc) = None)"

text \<open>The context that a revision request carries in its arguments.\<close>

definition replan_context :: "json \<Rightarrow> replanContext" where
  "replan_context args =
     \<lparr>reason = property args ''reason'', completedSteps = property args ''completed_steps'',
      discoveries = property args ''discoveries''\<rparr>"

text \<open>
  Reading a transcript from its start, \<open>pending_after\<close> keeps the requests of the latest
  assistant turn that have no result yet: a result must carry the identifier of the
  first pending request, and any other turn may only follow when nothing is pending.
  \<open>None\<close> means that the transcript breaks this order. \<open>result_tags\<close> and
  \<open>request_ids\<close> list the tags of the results and the identifiers of the requests in
  the order of the transcript, and \<open>tags_match\<close> says that the tag of each result
  is the identifier of exactly one request of the assistant turn before it.
\<close>

fun pending_after :: "tool_call list \<Rightarrow> message list \<Rightarrow> tool_call list option" where
  "pending_after pending [] = Some pending"
| "pending_after pending (Tool tag c # ms) =
     (case pending of
        [] \<Rightarrow> None
      | tc # tcs \<Rightarrow> if tag = tc_id tc then pending_after tcs ms else None)"
| "pending_after pending (Assistant r # ms) =
     (if pending = [] then pending_after (r_tool_calls r) ms else None)"
| "pending_after pending (System p # ms) = (if pending = [] then pending_after [] ms else None)"
| "pending_after pending (User u # ms) = (if pending = [] then pending_after [] ms else None)"

fun result_tags :: "message list \<Rightarrow> string list" where
  "result_tags [] = []"
| "result_tags (Tool tag c # ms) = tag # result_tags ms"
| "result_tags (m # ms) = result_tags ms"

fun request_ids :: "message list \<Rightarrow> string list" where
  "request_ids [] = []"
| "request_ids (Assistant r # ms) = map tc_id (r_tool_calls r) @ request_ids ms"
| "request_ids (m # ms) = request_ids ms"

fun tags_match :: "tool_call list \<Rightarrow> message list \<Rightarrow> bool" where
  "tags_match turn [] = True"
| "tags_match turn (Assistant r # ms) = tags_match (r_tool_calls r) ms"
| "tags_match turn (Tool tag c # ms) =
     (length (filter (\<lambda>tc. tc_id tc = tag) turn) = 1 \<and> tags_match turn ms)"
| "tags_match turn (m # ms) = tags_match turn ms"

text \<open>The number of assistant turns of a transcript: one for each decision request
  that was answered.\<close>

fun assistant_turns :: "message list \<Rightarrow> nat" where
  "assistant_turns [] = 0"
| "assistant_turns (Assistant r # ms) = Suc (assistant_turns ms)"
| "assistant_turns (m # ms) = assistant_turns ms"

text \<open>
  A request that a loop answers: whatever the state, the \<^verbatim>\<open>for\<close> loop processes it
  without an exception (and, in \<^verbatim>\<open>executeWithReact\<close>, without returning). A service
  always acts when it answers every decision request with at least one request and
  the loop answers all of them.
\<close>

definition answers :: "'w sys \<Rightarrow> 'w loop \<Rightarrow> tool_call \<Rightarrow> bool" where
  "answers sys cfg tc \<longleftrightarrow> (\<forall>s. \<exists>s'. run_tool_calls sys cfg [tc] s = (None, s'))"




text \<open>
  For \<^verbatim>\<open>adaptiveAgent\<close>: the numbers of the replans and the plan versions of the
  executions that the events show, in order; the calls of \<^verbatim>\<open>createPlan\<close> with a
  context, each with the plan it returned; and \<open>chained\<close>, which says that the
  context of each such call carries the plan that was current before it. A service
  always revises when every execution ends in a revision request and the planner
  answers the call of \<^verbatim>\<open>createPlan\<close> that follows with a plan that can be printed.
\<close>

fun replans :: "event list \<Rightarrow> nat list" where
  "replans [] = []"
| "replans (Replan k # es) = k # replans es"
| "replans (e # es) = replans es"

fun executions :: "event list \<Rightarrow> nat list" where
  "executions [] = []"
| "executions (Execution v # es) = v # executions es"
| "executions (e # es) = executions es"

fun revisions :: "event list \<Rightarrow> ((json \<times> json option \<times> json option) \<times> json) list" where
  "revisions [] = []"
| "revisions (Planned (Some context) plan # es) = (context, plan) # revisions es"
| "revisions (e # es) = revisions es"

fun chained :: "json \<Rightarrow> ((json \<times> json option \<times> json option) \<times> json) list \<Rightarrow> bool" where
  "chained plan [] = True"
| "chained plan ((context, plan') # rest) = (fst context = plan \<and> chained plan' rest)"

definition always_revises :: "'w sys \<Rightarrow> string \<Rightarrow> bool" where
  "always_revises sys task \<longleftrightarrow>
     (\<forall>plan w. \<exists>ctx n s.
        executeWithReact sys task plan w = (Inr (replan_requested ctx), n, s) \<and>
        (\<exists>plan' w'. createPlan sys task (Some (plan, completedSteps ctx, discoveries ctx)) (world s)
                       = (Inr plan', w') \<and> printPlan plan' = None))"

text \<open>
  The Plan shape as the specification words it: a goal that is a string, and steps
  that are a non-empty sequence of objects with an id, an action, a tool name and a
  reason. The code has no such check; the definition only serves to state that.
\<close>

definition spec_step_shape :: "json \<Rightarrow> bool" where
  "spec_step_shape j =
     (case j of
        JObj kvs \<Rightarrow>
          (case (map_of kvs ''id'', map_of kvs ''action'', map_of kvs ''tool'',
                 map_of kvs ''reason'') of
             (Some i, Some (JStr a), Some (JStr t), Some (JStr r)) \<Rightarrow> True
           | _ \<Rightarrow> False)
      | _ \<Rightarrow> False)"

definition spec_plan_shape :: "json \<Rightarrow> bool" where
  "spec_plan_shape j =
     (case j of
        JObj kvs \<Rightarrow>
          (case (map_of kvs ''goal'', map_of kvs ''steps'') of
             (Some (JStr g), Some (JArr steps)) \<Rightarrow> steps \<noteq> [] \<and> list_all spec_step_shape steps
           | _ \<Rightarrow> False)
      | _ \<Rightarrow> False)"

text \<open>The text of a reply, \<^verbatim>\<open>message.content ?? ""\<close>.\<close>

definition content_text :: "reply \<Rightarrow> string" where
  "content_text r = (case r_content r of None \<Rightarrow> [] | Some t \<Rightarrow> t)"

text \<open>A text that begins with the word of the specification for an error, the
  Russian for "Error" followed by a colon.\<close>

definition error_text :: "string \<Rightarrow> bool" where
  "error_text t \<longleftrightarrow>
     take 13 t = [CHR 0xD0, CHR 0x9E, CHR 0xD1, CHR 0x88, CHR 0xD0, CHR 0xB8, CHR 0xD0, CHR 0xB1,
                  CHR 0xD0, CHR 0xBA, CHR 0xD0, CHR 0xB0, CHR 0x3A]"

text \<open>
  For \<^verbatim>\<open>interactiveAgent\<close>: a service that never requests a tool, a user whose answer
  is never empty once trimmed, and the number of user turns of a transcript.
\<close>

definition replies_in_text :: "'w sys \<Rightarrow> bool" where
  "replies_in_text sys \<longleftrightarrow>
     (\<forall>ms w. \<exists>m w'. create sys ms tools08 w = (Inr m, w') \<and> r_tool_calls m = [])"

definition never_empty :: "'w sys \<Rightarrow> bool" where
  "never_empty sys \<longleftrightarrow> (\<forall>q w. fst (ask sys q w) \<noteq> [])"

fun user_turns :: "message list \<Rightarrow> nat" where
  "user_turns [] = 0"
| "user_turns (User u # ms) = Suc (user_turns ms)"
| "user_turns (m # ms) = user_turns ms"

section \<open>Sample systems\<close>

text \<open>
  Concrete systems on which the properties are evaluated. The world is a counter of
  the decision requests answered so far. \<open>sample_parse\<close> is \<^verbatim>\<open>JSON.parse\<close> on the
  texts that the samples use; \<open>sample_sys\<close> has no files and no shell.
\<close>

definition sample_parse :: "string \<Rightarrow> json option" where
  \<open>sample_parse =
     map_of
       [(''{}'', JObj []),
        (''{"path":"notes.txt"}'', JObj [(''path'', JStr ''notes.txt'')]),
        (''{"command":"ls"}'', JObj [(''command'', JStr ''ls'')]),
        (''{"command":"test -e m || { touch m; false; }"}'',
         JObj [(''command'', JStr ''test -e m || { touch m; false; }'')]),
        (''{"reason":"r","completed_steps":[],"discoveries":[]}'',
         JObj [(''reason'', JStr ''r''), (''completed_steps'', JArr []),
               (''discoveries'', JArr [])]),
        (''{"goal":"g","steps":[]}'', JObj [(''goal'', JStr ''g''), (''steps'', JArr [])])]\<close>

definition sample_messages :: "fault \<Rightarrow> string" where
  "sample_messages f =
     (case f of
        LengthOfUndefined \<Rightarrow> ''Cannot read properties of undefined''
      | LengthOfNull \<Rightarrow> ''Cannot read properties of null''
      | NoPrimitive \<Rightarrow> ''Cannot convert object to primitive value'')"

definition sample_sys ::
  "(message list \<Rightarrow> string list \<Rightarrow> nat \<Rightarrow> (js_error + reply) \<times> nat) \<Rightarrow> nat sys" where
  "sample_sys service =
     \<lparr>create = service, JSON_parse = sample_parse,
      execSync = (\<lambda>command timeout w.
        (Inl \<lparr>e_message = ''Command failed: ls'', e_stderr = Some ''ls: not found''\<rparr>, w)),
      readFileSync = (\<lambda>path w.
        (Inl \<lparr>e_message = ''ENOENT: no such file or directory'', e_stderr = None\<rparr>, w)),
      writeFileSync = (\<lambda>path content w. (Inr (), w)),
      toLocaleTimeString = (\<lambda>w. (''12:00:00'', w)),
      question = (\<lambda>q w. ([], w)),
      fault_message = sample_messages\<rparr>"

text \<open>Two skills that both bring a tool named \<^verbatim>\<open>read_file\<close>.\<close>

definition first_skill :: "nat skill" where
  "first_skill =
     \<lparr>sk_name = ''files'', sk_description = ''reads files'', sk_tools = [''read_file''],
      sk_handlers = map_of [(''read_file'', (\<lambda>args w. (Inr (Str ''first''), w)))]\<rparr>"

definition second_skill :: "nat skill" where
  "second_skill =
     \<lparr>sk_name = ''notes'', sk_description = ''reads notes'', sk_tools = [''read_file''],
      sk_handlers = map_of [(''read_file'', (\<lambda>args w. (Inr (Str ''second''), w)))]\<rparr>"


definition finishing :: "message list \<Rightarrow> string list \<Rightarrow> nat \<Rightarrow> (js_error + reply) \<times> nat" where
  "finishing ms offered w = (Inr \<lparr>r_content = Some ''done'', r_tool_calls = []\<rparr>, Suc w)"

definition once ::
  "tool_call list \<Rightarrow> message list \<Rightarrow> string list \<Rightarrow> nat \<Rightarrow> (js_error + reply) \<times> nat" where
  "once calls ms offered w =
     (if w = 0 then (Inr \<lparr>r_content = None, r_tool_calls = calls\<rparr>, Suc w)
      else finishing ms offered w)"

definition insisting ::
  "tool_call list \<Rightarrow> message list \<Rightarrow> string list \<Rightarrow> nat \<Rightarrow> (js_error + reply) \<times> nat" where
  "insisting calls ms offered w = (Inr \<lparr>r_content = None, r_tool_calls = calls\<rparr>, Suc w)"

definition fenced_plan :: string where
  \<open>fenced_plan = ''```json'' @ [CHR 0x0A] @ ''{"goal":"g","steps":[]}'' @ [CHR 0x0A] @ ''```''\<close>

definition revision_request :: tool_call where
  \<open>revision_request =
     \<lparr>tc_id = ''call_r'', tc_name = ''request_replan'',
      tc_arguments = ''{"reason":"r","completed_steps":[],"discoveries":[]}''\<rparr>\<close>

definition revising :: "message list \<Rightarrow> string list \<Rightarrow> nat \<Rightarrow> (js_error + reply) \<times> nat" where
  "revising ms offered w =
     (if offered = [] then (Inr \<lparr>r_content = Some fenced_plan, r_tool_calls = []\<rparr>, Suc w)
      else (Inr \<lparr>r_content = None, r_tool_calls = [revision_request]\<rparr>, Suc w))"

text \<open>A service like \<open>revising\<close> whose planner sends a plan only when it is asked
  without a context, and the text \<^verbatim>\<open>done\<close> when it is asked to revise.\<close>

definition revising_once :: "message list \<Rightarrow> string list \<Rightarrow> nat \<Rightarrow> (js_error + reply) \<times> nat" where
  "revising_once ms offered w =
     (if offered = [] then
        (case ms of
           System (PlannerPrompt07 None) # rest \<Rightarrow>
             (Inr \<lparr>r_content = Some fenced_plan, r_tool_calls = []\<rparr>, Suc w)
         | _ \<Rightarrow> (Inr \<lparr>r_content = Some ''done'', r_tool_calls = []\<rparr>, Suc w))
      else (Inr \<lparr>r_content = None, r_tool_calls = [revision_request]\<rparr>, Suc w))"

text \<open>Sample requests: for the two tools of 04-real-tools.ts, for a name that no table
  has, for two names that every table inherits, for \<^verbatim>\<open>write_file\<close> without a
  content, and a second request under the identifier of the first.\<close>

definition read_notes :: tool_call where
  \<open>read_notes =
     \<lparr>tc_id = ''call_1'', tc_name = ''read_file'', tc_arguments = ''{"path":"notes.txt"}''\<rparr>\<close>

definition list_files :: tool_call where
  \<open>list_files = \<lparr>tc_id = ''call_2'', tc_name = ''run_bash'', tc_arguments = ''{"command":"ls"}''\<rparr>\<close>

definition unknown_tool :: tool_call where
  "unknown_tool = \<lparr>tc_id = ''call_3'', tc_name = ''list_dir'', tc_arguments = ''{}''\<rparr>"

definition constructor_request :: tool_call where
  "constructor_request = \<lparr>tc_id = ''call_4'', tc_name = ''constructor'', tc_arguments = ''{}''\<rparr>"

definition proto_request :: tool_call where
  "proto_request = \<lparr>tc_id = ''call_5'', tc_name = ''__proto__'', tc_arguments = ''{}''\<rparr>"

definition toString_request :: tool_call where
  "toString_request = \<lparr>tc_id = ''call_6'', tc_name = ''toString'', tc_arguments = ''{}''\<rparr>"

definition empty_write :: tool_call where
  "empty_write = \<lparr>tc_id = ''call_7'', tc_name = ''write_file'', tc_arguments = ''{}''\<rparr>"

definition list_again :: tool_call where
  \<open>list_again = \<lparr>tc_id = ''call_1'', tc_name = ''run_bash'', tc_arguments = ''{"command":"ls"}''\<rparr>\<close>

text \<open>The sample system with a user who always types \<^verbatim>\<open>more\<close> between two spaces.\<close>

definition chatty_sys :: "nat sys" where
  "chatty_sys = (sample_sys finishing)\<lparr>question := (\<lambda>q w. ('' more '', w))\<rparr>"

text \<open>The sample system with a file system that refuses every write.\<close>

definition readonly_sys :: "nat sys" where
  "readonly_sys =
     (sample_sys finishing)\<lparr>writeFileSync := (\<lambda>path content w.
        (Inl \<lparr>e_message = ''EACCES: permission denied'', e_stderr = None\<rparr>, w))\<rparr>"


text \<open>
  A system with a shell in which one file can be made. Its world is the counter of
  decision requests together with whether the file \<^verbatim>\<open>m\<close> exists. The only command is
  \<^verbatim>\<open>test -e m || { touch m; false; }\<close>: it fails when the file is missing, and makes
  it; it succeeds without output when the file exists. The service requests that
  command once.
\<close>

definition make_marker :: tool_call where
  \<open>make_marker =
     \<lparr>tc_id = ''call_m'', tc_name = ''run_bash'',
      tc_arguments = ''{"command":"test -e m || { touch m; false; }"}''\<rparr>\<close>

definition marker_sys :: "(nat \<times> bool) sys" where
  "marker_sys =
     \<lparr>create = (\<lambda>ms offered (n, m).
        (case once [make_marker] ms offered n of (r, n') \<Rightarrow> (r, (n', m)))),
      JSON_parse = sample_parse,
      execSync = (\<lambda>command timeout (n, m).
        if m then (Inr [], (n, m))
        else (Inl \<lparr>e_message = ''Command failed'', e_stderr = None\<rparr>, (n, True))),
      readFileSync = (\<lambda>path w.
        (Inl \<lparr>e_message = ''ENOENT: no such file or directory'', e_stderr = None\<rparr>, w)),
      writeFileSync = (\<lambda>path content w. (Inr (), w)),
      toLocaleTimeString = (\<lambda>w. (''12:00:00'', w)),
      question = (\<lambda>q w. ([], w)),
      fault_message = sample_messages\<rparr>"

section \<open>Calls of handlers and inherited members\<close>

lemma push_simps [simp]:
  "messages (push m s) = messages s @ [m]"
  "world (push m s) = world s"
  "invoked (push m s) = invoked s"
  by (simp_all add: push_def)

lemma get_prop_property: "args \<noteq> JNull \<Longrightarrow> get_prop args k = Inr (property args k)"
  by (cases args) (simp_all add: property_def)

lemma printed_not_null: "printed args k = None \<Longrightarrow> args \<noteq> JNull"
  by (auto simp: printed_def)

lemma apply_handler_messages: "apply_handler h name args s = (r, s1) \<Longrightarrow> messages s1 = messages s"
  by (auto simp: apply_handler_def split: prod.splits)

lemma call_handler_messages: "call_handler H name args s = (r, s1) \<Longrightarrow> messages s1 = messages s"
  by (auto simp: call_handler_def apply_handler_messages split: option.splits if_splits)

lemma call_taken_messages: "call_taken H text name args s = (r, s1) \<Longrightarrow> messages s1 = messages s"
  by (auto simp: call_taken_def apply_handler_messages split: option.splits if_splits)

lemma call_or_text_messages:
  "call_or_text H n name args s = (r, s1) \<Longrightarrow> messages s1 = messages s"
  by (auto simp: call_or_text_def dest: call_handler_messages
           split: prod.splits sum.splits option.splits)

lemma call_handler_own:
  "H name = Some h \<Longrightarrow> h args (world s) = (r, w') \<Longrightarrow>
   call_handler H name args s = (r, s\<lparr>world := w', invoked := invoked s @ [(name, args)]\<rparr>)"
  by (simp add: call_handler_def apply_handler_def)

lemma call_handler_absent:
  "H name = None \<Longrightarrow> name \<notin> set object_prototype \<Longrightarrow>
   call_handler H name args s = (Inr Undefined, s)"
  by (simp add: call_handler_def)

lemma call_or_text_own:
  "H name = Some h \<Longrightarrow> h args (world s) = (Inr (Str t), w') \<Longrightarrow>
   call_or_text H n name args s =
     (Inr (Str t), s\<lparr>world := w', invoked := invoked s @ [(name, args)]\<rparr>)"
  by (simp add: call_or_text_def call_handler_own defaulted_def)

lemma call_or_text_absent:
  "H name = None \<Longrightarrow> name \<notin> set object_prototype \<Longrightarrow>
   call_or_text H n name args s = (Inr (Str (tool_not_found name)), s)"
  by (simp add: call_or_text_def call_handler_absent defaulted_def)

text \<open>The member \<^verbatim>\<open>constructor\<close> returns an object as it is, and an object has no function
  \<^verbatim>\<open>slice\<close>: the loops that print a slice of the result throw.\<close>

lemma call_or_text_constructor:
  "H ''constructor'' = None \<Longrightarrow>
   call_or_text H n ''constructor'' (JObj kvs) s = (Inl TypeError, s)"
  by (simp add: call_or_text_def call_handler_def object_prototype_def inherited_def
      defaulted_def)

section \<open>Handlers return texts\<close>

lemma run_bash04_text: "args \<noteq> JNull \<Longrightarrow> \<exists>t w'. run_bash04 sys args w = (Inr (Str t), w')"
  by (cases "execSync sys (property args ''command'') 5000 w")
     (auto simp: run_bash04_def get_prop_property split: sum.splits)

lemma run_bash07_text: "args \<noteq> JNull \<Longrightarrow> \<exists>t w'. run_bash07 sys args w = (Inr (Str t), w')"
  by (cases "execSync sys (property args ''command'') 10000 w")
     (auto simp: run_bash07_def get_prop_property split: sum.splits)

lemma read_file_text: "args \<noteq> JNull \<Longrightarrow> \<exists>t w'. read_file sys args w = (Inr (Str t), w')"
  by (cases "readFileSync sys (property args ''path'') w")
     (auto simp: read_file_def get_prop_property split: sum.splits)

lemma write_file_text: "args \<noteq> JNull \<Longrightarrow> \<exists>t w'. write_file sys args w = (Inr (Str t), w')"
  by (cases "writeFileSync sys (property args ''path'') (property args ''content'') w")
     (auto simp: write_file_def get_prop_property split: sum.splits)

lemma think_text: "\<exists>t w'. think args w = (Inr (Str t), w')"
  by (simp add: think_def)

lemma request_replan_text: "\<exists>t w'. request_replan args w = (Inr (Str t), w')"
  by (simp add: request_replan_def)

lemma toolHandlers04_text:
  assumes "toolHandlers04 sys name = Some h" "args \<noteq> JNull"
  shows "\<exists>t w'. h args w = (Inr (Str t), w')"
proof -
  from assms(1) have "(name, h) \<in> set [(''run_bash'', run_bash04 sys), (''read_file'', read_file sys)]"
    unfolding toolHandlers04_def by (rule map_of_SomeD)
  then have "h = run_bash04 sys \<or> h = read_file sys" by auto
  then show ?thesis
    using run_bash04_text[OF assms(2)] read_file_text[OF assms(2)] by (elim disjE) simp_all
qed

lemma toolHandlers07_text:
  assumes "toolHandlers07 sys name = Some h" "args \<noteq> JNull"
  shows "\<exists>t w'. h args w = (Inr (Str t), w')"
proof -
  from assms(1) have "(name, h) \<in> set [(''think'', think), (''run_bash'', run_bash07 sys),
      (''read_file'', read_file sys), (''write_file'', write_file sys),
      (''request_replan'', request_replan)]"
    unfolding toolHandlers07_def by (rule map_of_SomeD)
  then have "h = think \<or> h = run_bash07 sys \<or> h = read_file sys \<or> h = write_file sys \<or>
      h = request_replan" by auto
  then show ?thesis
    using think_text run_bash07_text[OF assms(2)] read_file_text[OF assms(2)]
      write_file_text[OF assms(2)] request_replan_text
    by (elim disjE) simp_all
qed

section \<open>One turn of the tool loop\<close>

lemma run_tool_calls_append:
  "run_tool_calls sys cfg (pre @ rest) s =
     (case run_tool_calls sys cfg pre s of
        (None, s1) \<Rightarrow> run_tool_calls sys cfg rest s1
      | (Some e, s1) \<Rightarrow> (Some e, s1))"
proof (induction pre arbitrary: s)
  case Nil
  then show ?case by simp
next
  case (Cons tc pre)
  then show ?case by (simp split: option.splits prod.splits sum.splits)
qed


lemma run_tool_calls_quiet:
  assumes q: "\<forall>name args s r s1. respond cfg name args s = (r, s1) \<longrightarrow> messages s1 = messages s"
    and "run_tool_calls sys cfg calls s = (r, s')"
  shows "\<exists>contents. length contents \<le> length calls \<and>
           messages s' = messages s @ map2 Tool (map tc_id calls) contents \<and>
           (r = None \<longrightarrow> length contents = length calls)"
  using assms(2)
proof (induction calls arbitrary: s)
  case Nil
  then show ?case by simp
next
  case (Cons tc calls)
  show ?case
  proof (cases "JSON_parse sys (tc_arguments tc)")
    case None
    with Cons.prems have "s' = s" "r = Some SyntaxError" by simp_all
    then have "length ([] :: js_value list) \<le> length (tc # calls) \<and>
        messages s' = messages s @ map2 Tool (map tc_id (tc # calls)) [] \<and>
        (r = None \<longrightarrow> length ([] :: js_value list) = length (tc # calls))" by simp
    then show ?thesis by blast
  next
    case (Some args)
    obtain res s1 where a: "respond cfg (tc_name tc) args s = (res, s1)"
      by (cases "respond cfg (tc_name tc) args s")
    with q have m1: "messages s1 = messages s" by blast
    show ?thesis
    proof (cases res)
      case (Inl e)
      with Some a Cons.prems have "s' = s1" "r = Some e" by simp_all
      with m1 have "length ([] :: js_value list) \<le> length (tc # calls) \<and>
          messages s' = messages s @ map2 Tool (map tc_id (tc # calls)) [] \<and>
          (r = None \<longrightarrow> length ([] :: js_value list) = length (tc # calls))" by simp
      then show ?thesis by blast
    next
      case (Inr v)
      let ?s2 = "push (Tool (tc_id tc) v) s1"
      have "run_tool_calls sys cfg calls ?s2 = (r, s')"
        using Cons.prems Some a Inr by simp
      from Cons.IH[OF this] obtain contents where
        c: "length contents \<le> length calls"
           "messages s' = messages ?s2 @ map2 Tool (map tc_id calls) contents"
           "r = None \<longrightarrow> length contents = length calls" by blast
      have "length (v # contents) \<le> length (tc # calls) \<and>
          messages s' = messages s @ map2 Tool (map tc_id (tc # calls)) (v # contents) \<and>
          (r = None \<longrightarrow> length (v # contents) = length (tc # calls))"
        using c m1 by simp
      then show ?thesis by blast
    qed
  qed
qed

section \<open>Ordinary requests in \<^verbatim>\<open>agentLoop\<close> of 04-real-tools.ts\<close>

lemma loop04_simps [simp]:
  "respond (loop04 sys) = call_or_text (toolHandlers04 sys) 200" "limit (loop04 sys) = 10"
  "toolset (loop04 sys) = [''run_bash'', ''read_file'']"
  by (simp_all add: loop04_def)

lemma ordinary_parsed:
  assumes "ordinary sys tc"
  shows "JSON_parse sys (tc_arguments tc) = Some (parsed sys tc)" "parsed sys tc \<noteq> JNull"
    "tc_name tc \<notin> set object_prototype"
  using assms by (auto simp: ordinary_def parsed_def split: option.splits)

lemma ordinary04_step:
  assumes "ordinary sys tc"
  shows "\<exists>t s1. run_tool_calls sys (loop04 sys) (tc # rest) s =
             run_tool_calls sys (loop04 sys) rest (push (Tool (tc_id tc) (Str t)) s1) \<and>
           messages s1 = messages s \<and>
           invoked s1 = invoked s @
             map (\<lambda>tc. (tc_name tc, parsed sys tc)) (registered (toolHandlers04 sys) [tc])"
proof (cases "toolHandlers04 sys (tc_name tc)")
  case None
  have "run_tool_calls sys (loop04 sys) (tc # rest) s =
          run_tool_calls sys (loop04 sys) rest
            (push (Tool (tc_id tc) (Str (tool_not_found (tc_name tc)))) s)"
    using ordinary_parsed[OF assms] None by (simp add: call_or_text_absent)
  moreover have "invoked s = invoked s @
      map (\<lambda>tc. (tc_name tc, parsed sys tc)) (registered (toolHandlers04 sys) [tc])"
    using None by (simp add: registered_def)
  ultimately show ?thesis by blast
next
  case (Some h)
  from toolHandlers04_text[OF Some ordinary_parsed(2)[OF assms], of "world s"]
  obtain t w' where h: "h (parsed sys tc) (world s) = (Inr (Str t), w')" by blast
  let ?s1 = "s\<lparr>world := w', invoked := invoked s @ [(tc_name tc, parsed sys tc)]\<rparr>"
  have "run_tool_calls sys (loop04 sys) (tc # rest) s =
          run_tool_calls sys (loop04 sys) rest (push (Tool (tc_id tc) (Str t)) ?s1)"
    using ordinary_parsed(1)[OF assms] Some h
      call_or_text_own[of "toolHandlers04 sys" "tc_name tc" h "parsed sys tc" s t w' 200]
    by simp
  moreover have "messages ?s1 = messages s" by simp
  moreover have "invoked ?s1 = invoked s @
      map (\<lambda>tc. (tc_name tc, parsed sys tc)) (registered (toolHandlers04 sys) [tc])"
    using Some by (simp add: registered_def)
  ultimately show ?thesis by blast
qed

lemma ordinary04_turn:
  assumes "\<forall>tc\<in>set calls. ordinary sys tc"
  shows "\<exists>s' texts. run_tool_calls sys (loop04 sys) calls s = (None, s') \<and>
           length texts = length calls \<and>
           messages s' = messages s @ map2 Tool (map tc_id calls) (map Str texts) \<and>
           invoked s' = invoked s @
             map (\<lambda>tc. (tc_name tc, parsed sys tc)) (registered (toolHandlers04 sys) calls)"
  using assms
proof (induction calls arbitrary: s)
  case Nil
  have "run_tool_calls sys (loop04 sys) [] s = (None, s) \<and>
      length ([] :: string list) = length ([] :: tool_call list) \<and>
      messages s = messages s @ map2 Tool (map tc_id []) (map Str []) \<and>
      invoked s = invoked s @
        map (\<lambda>tc. (tc_name tc, parsed sys tc)) (registered (toolHandlers04 sys) [])"
    by (simp add: registered_def)
  then show ?case by blast
next
  case (Cons tc calls)
  then have o: "ordinary sys tc" and rest: "\<forall>tc\<in>set calls. ordinary sys tc" by simp_all
  from ordinary04_step[OF o, of calls s] obtain t s1 where
    st: "run_tool_calls sys (loop04 sys) (tc # calls) s =
           run_tool_calls sys (loop04 sys) calls (push (Tool (tc_id tc) (Str t)) s1)"
        "messages s1 = messages s"
        "invoked s1 = invoked s @
           map (\<lambda>tc. (tc_name tc, parsed sys tc)) (registered (toolHandlers04 sys) [tc])"
    by blast
  from Cons.IH[OF rest, of "push (Tool (tc_id tc) (Str t)) s1"] obtain s' texts where
    ih: "run_tool_calls sys (loop04 sys) calls (push (Tool (tc_id tc) (Str t)) s1) = (None, s')"
        "length texts = length calls"
        "messages s' = messages (push (Tool (tc_id tc) (Str t)) s1) @
           map2 Tool (map tc_id calls) (map Str texts)"
        "invoked s' = invoked (push (Tool (tc_id tc) (Str t)) s1) @
           map (\<lambda>tc. (tc_name tc, parsed sys tc)) (registered (toolHandlers04 sys) calls)"
    by blast
  have "run_tool_calls sys (loop04 sys) (tc # calls) s = (None, s')" using st(1) ih(1) by simp
  moreover have "length (t # texts) = length (tc # calls)" using ih(2) by simp
  moreover have "messages s' = messages s @
      map2 Tool (map tc_id (tc # calls)) (map Str (t # texts))"
    using ih(3) st(2) by simp
  moreover have "invoked s' = invoked s @
      map (\<lambda>tc. (tc_name tc, parsed sys tc)) (registered (toolHandlers04 sys) (tc # calls))"
    using ih(4) st(3) by (simp add: registered_def)
  ultimately show ?case by blast
qed

section \<open>One turn of \<^verbatim>\<open>executeWithReact\<close>\<close>

lemma react_tool_calls_append:
  "react_tool_calls sys (pre @ rest) s =
     (case react_tool_calls sys pre s of
        (Inr None, s1) \<Rightarrow> react_tool_calls sys rest s1
      | (Inr (Some ctx), s1) \<Rightarrow> (Inr (Some ctx), s1)
      | (Inl e, s1) \<Rightarrow> (Inl e, s1))"
proof (induction pre arbitrary: s)
  case Nil
  then show ?case by simp
next
  case (Cons tc pre)
  then show ?case by (simp split: option.splits prod.splits sum.splits branch.splits)
qed


lemma react_branch_messages:
  assumes "react_branch sys tc args s = (b, s1)"
  shows "messages s1 = messages s @
           (case b of Return ctx \<Rightarrow> [Tool (tc_id tc) (Str ''REPLAN_REQUESTED'')] | _ \<Rightarrow> [])"
proof (cases "tc_name tc = ''think'' \<or> tc_name tc = ''request_replan''")
  case True
  with assms show ?thesis
    by (auto simp: react_branch_def split: if_splits option.splits)
next
  case False
  show ?thesis
  proof (cases "args_preview (tc_name tc) args")
    case (Some e)
    with False assms show ?thesis by (auto simp: react_branch_def)
  next
    case None
    obtain r s2 where c: "call_or_text (toolHandlers07 sys) 120 (tc_name tc) args s = (r, s2)"
      by (cases "call_or_text (toolHandlers07 sys) 120 (tc_name tc) args s")
    then have "messages s2 = messages s" by (rule call_or_text_messages)
    with False None c assms show ?thesis
      by (cases r) (auto simp: react_branch_def)
  qed
qed

lemma react_tool_calls_quiet:
  assumes "react_tool_calls sys calls s = (r, s')"
  shows "\<exists>contents. length contents \<le> length calls \<and>
           messages s' = messages s @ map2 Tool (map tc_id calls) contents \<and>
           (r = Inr None \<longrightarrow> length contents = length calls)"
  using assms
proof (induction calls arbitrary: s)
  case Nil
  then show ?case by simp
next
  case (Cons tc calls)
  let ?none = "[] :: js_value list"
  show ?case
  proof (cases "JSON_parse sys (tc_arguments tc)")
    case None
    with Cons.prems have "s' = s" "r = Inl SyntaxError" by simp_all
    then have "length ?none \<le> length (tc # calls) \<and>
        messages s' = messages s @ map2 Tool (map tc_id (tc # calls)) ?none \<and>
        (r = Inr None \<longrightarrow> length ?none = length (tc # calls))" by simp
    then show ?thesis by blast
  next
    case (Some args)
    obtain b s1 where br: "react_branch sys tc args s = (b, s1)"
      by (cases "react_branch sys tc args s")
    note m1 = react_branch_messages[OF br]
    show ?thesis
    proof (cases b)
      case (Throw e)
      with Some br Cons.prems have "s' = s1" "r = Inl e" by simp_all
      with m1 Throw have "length ?none \<le> length (tc # calls) \<and>
          messages s' = messages s @ map2 Tool (map tc_id (tc # calls)) ?none \<and>
          (r = Inr None \<longrightarrow> length ?none = length (tc # calls))" by simp
      then show ?thesis by blast
    next
      case (Return ctx)
      with Some br Cons.prems have "s' = s1" "r = Inr (Some ctx)" by simp_all
      with m1 Return have "length [Str ''REPLAN_REQUESTED''] \<le> length (tc # calls) \<and>
          messages s' = messages s @
            map2 Tool (map tc_id (tc # calls)) [Str ''REPLAN_REQUESTED''] \<and>
          (r = Inr None \<longrightarrow> length [Str ''REPLAN_REQUESTED''] = length (tc # calls))" by simp
      then show ?thesis by blast
    next
      case Fall
      obtain res s2 where c: "call_handler (toolHandlers07 sys) (tc_name tc) args s1 = (res, s2)"
        by (cases "call_handler (toolHandlers07 sys) (tc_name tc) args s1")
      then have m2: "messages s2 = messages s" using m1 Fall by (simp add: call_handler_messages)
      show ?thesis
      proof (cases res)
        case (Inl e)
        with Some br Fall c Cons.prems have "s' = s2" "r = Inl e" by simp_all
        with m2 have "length ?none \<le> length (tc # calls) \<and>
            messages s' = messages s @ map2 Tool (map tc_id (tc # calls)) ?none \<and>
            (r = Inr None \<longrightarrow> length ?none = length (tc # calls))" by simp
        then show ?thesis by blast
      next
        case (Inr v)
        let ?s3 = "push (Tool (tc_id tc) (defaulted v ''OK'')) s2"
        have "react_tool_calls sys calls ?s3 = (r, s')"
          using Cons.prems Some br Fall c Inr by simp
        from Cons.IH[OF this] obtain contents where
          k: "length contents \<le> length calls"
             "messages s' = messages ?s3 @ map2 Tool (map tc_id calls) contents"
             "r = Inr None \<longrightarrow> length contents = length calls" by blast
        have "length (defaulted v ''OK'' # contents) \<le> length (tc # calls) \<and>
            messages s' = messages s @
              map2 Tool (map tc_id (tc # calls)) (defaulted v ''OK'' # contents) \<and>
            (r = Inr None \<longrightarrow> length (defaulted v ''OK'' # contents) = length (tc # calls))"
          using k m2 by simp
        then show ?thesis by blast
      qed
    qed
  qed
qed

lemma toolHandlers07_think: "toolHandlers07 sys ''think'' = Some think"
  by (simp add: toolHandlers07_def)

lemma react_plain_step:
  assumes "plain07 sys tc"
  shows "\<exists>t s1. react_tool_calls sys (tc # rest) s =
             react_tool_calls sys rest (push (Tool (tc_id tc) (Str t)) s1) \<and>
           messages s1 = messages s"
proof -
  let ?args = "parsed sys tc"
  let ?H = "toolHandlers07 sys"
  from assms have o: "ordinary sys tc" and nr: "tc_name tc \<noteq> ''request_replan''"
    and line: "if tc_name tc = ''think'' then printed ?args ''thought'' = None
               else args_preview (tc_name tc) ?args = None"
    by (simp_all add: plain07_def)
  note p = ordinary_parsed[OF o]
  show ?thesis
  proof (cases "tc_name tc = ''think''")
    case True
    with line have b: "react_branch sys tc ?args s = (Fall, s)"
      by (simp add: react_branch_def)
    have c: "call_handler ?H (tc_name tc) ?args s =
        (Inr (Str ''OK''), s\<lparr>world := world s, invoked := invoked s @ [(tc_name tc, ?args)]\<rparr>)"
      using True call_handler_own[of ?H "tc_name tc" think ?args s "Inr (Str ''OK'')" "world s"]
      by (simp add: toolHandlers07_think think_def)
    let ?s1 = "s\<lparr>world := world s, invoked := invoked s @ [(tc_name tc, ?args)]\<rparr>"
    have "react_tool_calls sys (tc # rest) s =
        react_tool_calls sys rest (push (Tool (tc_id tc) (Str ''OK'')) ?s1)"
      using p(1) b c by (simp add: defaulted_def)
    moreover have "messages ?s1 = messages s" by simp
    ultimately show ?thesis by blast
  next
    case False
    with line have pre: "args_preview (tc_name tc) ?args = None" by simp
    show ?thesis
    proof (cases "?H (tc_name tc)")
      case None
      have b: "react_branch sys tc ?args s = (Fall, s)"
        using False nr pre None p(3) by (simp add: react_branch_def call_or_text_absent)
      have "react_tool_calls sys (tc # rest) s =
          react_tool_calls sys rest (push (Tool (tc_id tc) (Str ''OK'')) s)"
        using p(1) b None p(3) by (simp add: call_handler_absent defaulted_def)
      then show ?thesis by blast
    next
      case (Some h)
      from toolHandlers07_text[OF Some p(2), of "world s"] obtain t1 w1 where
        h1: "h ?args (world s) = (Inr (Str t1), w1)" by blast
      from toolHandlers07_text[OF Some p(2), of w1] obtain t2 w2 where
        h2: "h ?args w1 = (Inr (Str t2), w2)" by blast
      let ?s1 = "s\<lparr>world := w1, invoked := invoked s @ [(tc_name tc, ?args)]\<rparr>"
      let ?s2 = "?s1\<lparr>world := w2, invoked := invoked ?s1 @ [(tc_name tc, ?args)]\<rparr>"
      have c1: "call_or_text ?H 120 (tc_name tc) ?args s = (Inr (Str t1), ?s1)"
        using Some h1 call_or_text_own[of ?H "tc_name tc" h ?args s t1 w1 120] by simp
      have b: "react_branch sys tc ?args s = (Fall, ?s1)"
        using False nr pre c1 by (simp add: react_branch_def)
      have c2: "call_handler ?H (tc_name tc) ?args ?s1 = (Inr (Str t2), ?s2)"
        using Some h2 call_handler_own[of ?H "tc_name tc" h ?args ?s1 "Inr (Str t2)" w2] by simp
      have "react_tool_calls sys (tc # rest) s =
          react_tool_calls sys rest (push (Tool (tc_id tc) (Str t2)) ?s2)"
        using p(1) b c2 by (simp add: defaulted_def)
      moreover have "messages ?s2 = messages s" by simp
      ultimately show ?thesis by blast
    qed
  qed
qed

lemma react_plain_calls:
  assumes "\<forall>tc\<in>set pre. plain07 sys tc"
  shows "\<exists>texts s1. length texts = length pre \<and>
           react_tool_calls sys (pre @ rest) s = react_tool_calls sys rest s1 \<and>
           messages s1 = messages s @ map2 Tool (map tc_id pre) (map Str texts)"
  using assms
proof (induction pre arbitrary: s)
  case Nil
  have "length ([] :: string list) = length ([] :: tool_call list)" by simp
  moreover have "react_tool_calls sys ([] @ rest) s = react_tool_calls sys rest s" by simp
  moreover have "messages s = messages s @ map2 Tool (map tc_id []) (map Str [])" by simp
  ultimately show ?case by blast
next
  case (Cons tc pre)
  then have "plain07 sys tc" and rest: "\<forall>tc\<in>set pre. plain07 sys tc" by simp_all
  from react_plain_step[OF this(1), of "pre @ rest" s] obtain t s1 where
    st: "react_tool_calls sys (tc # pre @ rest) s =
           react_tool_calls sys (pre @ rest) (push (Tool (tc_id tc) (Str t)) s1)"
        "messages s1 = messages s" by blast
  from Cons.IH[OF rest, of "push (Tool (tc_id tc) (Str t)) s1"] obtain texts s2 where
    ih: "length texts = length pre"
        "react_tool_calls sys (pre @ rest) (push (Tool (tc_id tc) (Str t)) s1) =
           react_tool_calls sys rest s2"
        "messages s2 = messages (push (Tool (tc_id tc) (Str t)) s1) @
           map2 Tool (map tc_id pre) (map Str texts)" by blast
  have "length (t # texts) = length (tc # pre)" using ih(1) by simp
  moreover have "react_tool_calls sys ((tc # pre) @ rest) s = react_tool_calls sys rest s2"
    using st(1) ih(2) by simp
  moreover have "messages s2 = messages s @
      map2 Tool (map tc_id (tc # pre)) (map Str (t # texts))"
    using ih(3) st(2) by simp
  ultimately show ?case by blast
qed

lemma react_replan_step:
  assumes "tc_name tc = ''request_replan''" "JSON_parse sys (tc_arguments tc) = Some args"
    "printed args ''reason'' = None"
  shows "react_tool_calls sys (tc # post) s =
           (Inr (Some (replan_context args)),
            push (Tool (tc_id tc) (Str ''REPLAN_REQUESTED'')) s)"
  using assms by (simp add: react_branch_def replan_context_def)

lemma call_handler_invoked:
  assumes "call_handler H name args s = (r, s1)"
  shows "invoked s1 = invoked s \<or> invoked s1 = invoked s @ [(name, args)]"
  using assms
  by (auto simp: call_handler_def apply_handler_def split: option.splits prod.splits if_splits)

lemma call_or_text_invoked:
  assumes "call_or_text H n name args s = (r, s1)"
  shows "invoked s1 = invoked s \<or> invoked s1 = invoked s @ [(name, args)]"
proof -
  obtain r0 s0 where c: "call_handler H name args s = (r0, s0)"
    by (cases "call_handler H name args s")
  from call_handler_invoked[OF c] c assms show ?thesis
    by (auto simp: call_or_text_def split: sum.splits option.splits)
qed

lemma react_never_invokes_replan:
  assumes "react_tool_calls sys calls s = (r, s')"
    "''request_replan'' \<notin> fst ` set (invoked s)"
  shows "''request_replan'' \<notin> fst ` set (invoked s')"
  using assms
proof (induction calls arbitrary: s)
  case Nil
  then show ?case by simp
next
  case (Cons tc calls)
  show ?case
  proof (cases "JSON_parse sys (tc_arguments tc)")
    case None
    with Cons.prems show ?thesis by simp
  next
    case (Some args)
    obtain b s1 where br: "react_branch sys tc args s = (b, s1)"
      by (cases "react_branch sys tc args s")
    have inv1: "''request_replan'' \<notin> fst ` set (invoked s1)"
    proof (cases "tc_name tc = ''think'' \<or> tc_name tc = ''request_replan''")
      case True
      with br Cons.prems(2) show ?thesis
        by (auto simp: react_branch_def split: if_splits option.splits)
    next
      case False
      show ?thesis
      proof (cases "args_preview (tc_name tc) args")
        case (Some e)
        with False br Cons.prems(2) show ?thesis by (auto simp: react_branch_def)
      next
        case None
        obtain r0 s0 where c: "call_or_text (toolHandlers07 sys) 120 (tc_name tc) args s = (r0, s0)"
          by (cases "call_or_text (toolHandlers07 sys) 120 (tc_name tc) args s")
        from call_or_text_invoked[OF c] False Cons.prems(2)
        have "''request_replan'' \<notin> fst ` set (invoked s0)" by auto
        with False None c br show ?thesis
          by (cases r0) (auto simp: react_branch_def)
      qed
    qed
    show ?thesis
    proof (cases b)
      case (Throw e)
      with Some br Cons.prems(1) inv1 show ?thesis by simp
    next
      case (Return ctx)
      with Some br Cons.prems(1) inv1 show ?thesis by simp
    next
      case Fall
      have ne: "tc_name tc \<noteq> ''request_replan''"
        using br Fall by (auto simp: react_branch_def split: if_splits option.splits)
      obtain res s2 where c: "call_handler (toolHandlers07 sys) (tc_name tc) args s1 = (res, s2)"
        by (cases "call_handler (toolHandlers07 sys) (tc_name tc) args s1")
      from call_handler_invoked[OF c] inv1 ne
      have inv2: "''request_replan'' \<notin> fst ` set (invoked s2)" by auto
      show ?thesis
      proof (cases res)
        case (Inl e)
        with Some br Fall c Cons.prems(1) inv2 show ?thesis by simp
      next
        case (Inr v)
        let ?s3 = "push (Tool (tc_id tc) (defaulted v ''OK'')) s2"
        have "react_tool_calls sys calls ?s3 = (r, s')"
          using Some br Fall c Inr Cons.prems(1) by simp
        moreover have "''request_replan'' \<notin> fst ` set (invoked ?s3)" using inv2 by simp
        ultimately show ?thesis by (rule Cons.IH)
      qed
    qed
  qed
qed

text \<open>
  For a request other than \<^verbatim>\<open>think\<close> and \<^verbatim>\<open>request_replan\<close> whose tool is registered,
  \<^verbatim>\<open>executeWithReact\<close> applies the handler twice: the text of the first application
  is only printed, the value of the second one, computed in the world the first one
  left, becomes the result.
\<close>

lemma react_applies_handler_twice:
  assumes "JSON_parse sys (tc_arguments tc) = Some args"
    "tc_name tc \<noteq> ''think''" "tc_name tc \<noteq> ''request_replan''"
    "args_preview (tc_name tc) args = None"
    "toolHandlers07 sys (tc_name tc) = Some h"
    "h args (world s) = (Inr (Str t1), w1)" "h args w1 = (Inr r2, w2)"
  shows "react_tool_calls sys (tc # rest) s =
           react_tool_calls sys rest
             \<lparr>messages = messages s @ [Tool (tc_id tc) (defaulted r2 ''OK'')], world = w2,
              invoked = invoked s @ [(tc_name tc, args), (tc_name tc, args)]\<rparr>"
proof -
  let ?H = "toolHandlers07 sys"
  let ?s1 = "s\<lparr>world := w1, invoked := invoked s @ [(tc_name tc, args)]\<rparr>"
  let ?s2 = "?s1\<lparr>world := w2, invoked := invoked ?s1 @ [(tc_name tc, args)]\<rparr>"
  have c1: "call_or_text ?H 120 (tc_name tc) args s = (Inr (Str t1), ?s1)"
    using assms(5,6) call_or_text_own[of ?H "tc_name tc" h args s t1 w1 120] by simp
  have c2: "call_handler ?H (tc_name tc) args ?s1 = (Inr r2, ?s2)"
    using assms(5,7) call_handler_own[of ?H "tc_name tc" h args ?s1 "Inr r2" w2] by simp
  have b: "react_branch sys tc args s = (Fall, ?s1)"
    using assms(2,3,4) c1 by (simp add: react_branch_def)
  have e1: "react_tool_calls sys (tc # rest) s =
          react_tool_calls sys rest (push (Tool (tc_id tc) (defaulted r2 ''OK'')) ?s2)"
    using assms(1) b c2 by simp
  have e2: "push (Tool (tc_id tc) (defaulted r2 ''OK'')) ?s2 =
      \<lparr>messages = messages s @ [Tool (tc_id tc) (defaulted r2 ''OK'')], world = w2,
       invoked = invoked s @ [(tc_name tc, args), (tc_name tc, args)]\<rparr>"
    by (cases s) (simp add: push_def)
  show ?thesis by (simp only: e1 e2)
qed

section \<open>Transcripts\<close>

lemma pending_after_append:
  "pending_after p (ms @ ms') =
     (case pending_after p ms of None \<Rightarrow> None | Some q \<Rightarrow> pending_after q ms')"
proof (induction ms arbitrary: p)
  case Nil
  then show ?case by simp
next
  case (Cons m ms)
  then show ?case by (cases m) (auto split: list.splits)
qed

lemma pending_after_tags:
  "pending_after p ms = Some q \<Longrightarrow>
   result_tags ms @ map tc_id q = map tc_id p @ request_ids ms"
proof (induction ms arbitrary: p)
  case Nil
  then show ?case by simp
next
  case (Cons m ms)
  then show ?case by (cases m) (auto split: list.splits if_splits)
qed

lemma pending_after_results:
  "length contents \<le> length p \<Longrightarrow>
   pending_after p (map2 Tool (map tc_id p) contents) = Some (drop (length contents) p)"
proof (induction p arbitrary: contents)
  case Nil
  then show ?case by simp
next
  case (Cons tc p)
  then show ?case by (cases contents) simp_all
qed

lemma filter_id_one:
  assumes "distinct (map tc_id turn)" "tc \<in> set turn"
  shows "length (filter (\<lambda>x. tc_id x = tc_id tc) turn) = 1"
  using assms
proof (induction turn)
  case Nil
  then show ?case by simp
next
  case (Cons a turn)
  show ?case
  proof (cases "tc_id a = tc_id tc")
    case True
    with Cons.prems have "filter (\<lambda>x. tc_id x = tc_id tc) turn = []"
      by (auto simp: filter_empty_conv image_iff)
    with True show ?thesis by simp
  next
    case False
    with Cons show ?thesis by auto
  qed
qed

lemma pending_after_match:
  assumes "pending_after p ms = Some q" "distinct (map tc_id turn)" "set p \<subseteq> set turn"
    "distinct (request_ids ms)"
  shows "tags_match turn ms"
  using assms
proof (induction ms arbitrary: p turn)
  case Nil
  then show ?case by simp
next
  case (Cons m ms)
  show ?case
  proof (cases m)
    case (Tool tag c)
    with Cons.prems(1) obtain tc tcs where p: "p = tc # tcs" "tag = tc_id tc"
      "pending_after tcs ms = Some q"
      by (auto split: list.splits if_splits)
    have "tc \<in> set turn" using p(1) Cons.prems(3) by auto
    then have "length (filter (\<lambda>x. tc_id x = tag) turn) = 1"
      using filter_id_one[OF Cons.prems(2)] p(2) by simp
    moreover have "tags_match turn ms"
      using Cons.IH[OF p(3) Cons.prems(2)] p(1) Cons.prems(3,4) Tool by auto
    ultimately show ?thesis using Tool by simp
  next
    case (Assistant r)
    with Cons.prems(1) have q: "pending_after (r_tool_calls r) ms = Some q"
      by (auto split: if_splits)
    have "distinct (map tc_id (r_tool_calls r))" "distinct (request_ids ms)"
      using Cons.prems(4) Assistant by auto
    then show ?thesis using Cons.IH[OF q] Assistant by simp
  next
    case (System x)
    with Cons.prems(1) have q: "pending_after [] ms = Some q" by (auto split: if_splits)
    show ?thesis using Cons.IH[OF q Cons.prems(2)] Cons.prems(4) System by simp
  next
    case (User x)
    with Cons.prems(1) have q: "pending_after [] ms = Some q" by (auto split: if_splits)
    show ?thesis using Cons.IH[OF q Cons.prems(2)] Cons.prems(4) User by simp
  qed
qed

lemma results_pending:
  assumes "pending_after [] ms = Some calls" "length contents \<le> length calls"
  shows "pending_after [] (ms @ map2 Tool (map tc_id calls) contents) =
           Some (drop (length contents) calls)"
  using assms by (simp add: pending_after_append pending_after_results)

lemma assistant_turns_append [simp]:
  "assistant_turns (ms @ ms') = assistant_turns ms + assistant_turns ms'"
proof (induction ms)
  case Nil
  then show ?case by simp
next
  case (Cons m ms)
  then show ?case by (cases m) simp_all
qed

lemma assistant_turns_results [simp]: "assistant_turns (map2 Tool tags contents) = 0"
proof (induction tags arbitrary: contents)
  case Nil
  then show ?case by simp
next
  case (Cons t tags)
  then show ?case by (cases contents) simp_all
qed

section \<open>The tool loop\<close>

lemma tool_loop_pending:
  assumes q: "\<forall>name args s r s1. respond cfg name args s = (r, s1) \<longrightarrow> messages s1 = messages s"
    and "pending_after [] (messages s) = Some []" "tool_loop sys cfg i s = (out, n, s')"
  shows "\<exists>q. pending_after [] (messages s') = Some q \<and> ((\<forall>e. out \<noteq> Threw e) \<longrightarrow> q = [])"
  using assms(2,3)
proof (induction "limit cfg - i" arbitrary: i s)
  case 0
  then have "\<not> i < limit cfg" by simp
  with "0.prems" show ?case by (simp add: tool_loop.simps)
next
  case (Suc k)
  then have lt: "i < limit cfg" by simp
  have k: "k = limit cfg - Suc i" using Suc.hyps(2) by simp
  obtain res w where cr: "create sys (messages s) (toolset cfg) (world s) = (res, w)"
    by (cases "create sys (messages s) (toolset cfg) (world s)")
  show ?case
  proof (cases res)
    case (Inl e)
    with lt cr Suc.prems show ?thesis by (auto simp: tool_loop.simps)
  next
    case (Inr message)
    let ?s1 = "push (Assistant message) (s\<lparr>world := w\<rparr>)"
    have p1: "pending_after [] (messages ?s1) = Some (r_tool_calls message)"
      using Suc.prems(1) by (simp add: pending_after_append)
    show ?thesis
    proof (cases "r_tool_calls message = []")
      case True
      with lt cr Inr Suc.prems(2) p1 show ?thesis
        by (auto simp: tool_loop.simps)
    next
      case False
      obtain r s2 where rt: "run_tool_calls sys cfg (r_tool_calls message) ?s1 = (r, s2)"
        by (cases "run_tool_calls sys cfg (r_tool_calls message) ?s1")
      from run_tool_calls_quiet[OF q rt] obtain contents where
        c: "length contents \<le> length (r_tool_calls message)"
           "messages s2 = messages ?s1 @ map2 Tool (map tc_id (r_tool_calls message)) contents"
           "r = None \<longrightarrow> length contents = length (r_tool_calls message)" by blast
      have p2: "pending_after [] (messages s2) =
          Some (drop (length contents) (r_tool_calls message))"
        unfolding c(2) using p1 c(1) by (rule results_pending)
      show ?thesis
      proof (cases r)
        case (Some e)
        with lt cr Inr False rt Suc.prems(2) p2 show ?thesis
          by (auto simp: tool_loop.simps)
      next
        case None
        with c(3) p2 have q0: "pending_after [] (messages s2) = Some []" by simp
        have "tool_loop sys cfg (Suc i) s2 = (out, n, s')"
          using Suc.prems(2) lt cr Inr False rt None by (simp add: tool_loop.simps)
        from Suc.hyps(1)[OF k q0 this] show ?thesis .
      qed
    qed
  qed
qed


lemma tool_loop_final:
  assumes "iteration < limit cfg"
    "create sys (messages s) (toolset cfg) (world s) = (Inr m, w)" "r_tool_calls m = []"
  shows "tool_loop sys cfg iteration s =
           (Returned (r_content m), Suc iteration, push (Assistant m) (s\<lparr>world := w\<rparr>))"
  using assms by (simp add: tool_loop.simps)

lemma tool_loop_continues:
  assumes "i < limit cfg" "create sys (messages s) (toolset cfg) (world s) = (Inr m, w)"
    "r_tool_calls m \<noteq> []"
    "run_tool_calls sys cfg (r_tool_calls m) (push (Assistant m) (s\<lparr>world := w\<rparr>)) = (None, s2)"
  shows "tool_loop sys cfg i s = tool_loop sys cfg (Suc i) s2"
  using assms by (simp add: tool_loop.simps)

lemma loop03_simps [simp]:
  "respond (loop03 sys) = answer03 sys" "limit (loop03 sys) = 10"
  "toolset (loop03 sys) = [''get_weather'', ''get_time'']"
  by (simp_all add: loop03_def)

lemma loop06_simps [simp]:
  "respond (loop06 sys) = answer06 sys" "limit (loop06 sys) = 15"
  "toolset (loop06 sys) = [''think'', ''run_bash'', ''read_file'', ''write_file'']"
  by (simp_all add: loop06_def)

lemma answer03_messages: "answer03 sys name args s = (r, s1) \<Longrightarrow> messages s1 = messages s"
  by (auto simp: answer03_def dest: call_taken_messages
           split: prod.splits sum.splits option.splits)

lemma answer06_messages: "answer06 sys name args s = (r, s1) \<Longrightarrow> messages s1 = messages s"
  by (auto simp: answer06_def dest: call_or_text_messages split: option.splits)

section \<open>The loop of \<^verbatim>\<open>executeWithReact\<close>\<close>

lemma executeWithReact_pending:
  assumes "pending_after [] (messages s) = Some []"
    "executeWithReact_loop sys ceiling i s = (r, n, s')"
  shows "\<exists>q. pending_after [] (messages s') = Some q \<and> (r = Inr completed \<longrightarrow> q = [])"
  using assms
proof (induction "ceiling - i" arbitrary: i s)
  case 0
  then have "\<not> i < ceiling" by simp
  with "0.prems" show ?case by (simp add: executeWithReact_loop.simps)
next
  case (Suc k)
  then have lt: "i < ceiling" by simp
  have k: "k = ceiling - Suc i" using Suc.hyps(2) by simp
  obtain res w where cr: "create sys (messages s) executionTools (world s) = (res, w)"
    by (cases "create sys (messages s) executionTools (world s)")
  show ?case
  proof (cases res)
    case (Inl e)
    with lt cr Suc.prems show ?thesis by (auto simp: executeWithReact_loop.simps)
  next
    case (Inr message)
    let ?s1 = "push (Assistant message) (s\<lparr>world := w\<rparr>)"
    have p1: "pending_after [] (messages ?s1) = Some (r_tool_calls message)"
      using Suc.prems(1) by (simp add: pending_after_append)
    show ?thesis
    proof (cases "r_tool_calls message = []")
      case True
      with lt cr Inr Suc.prems(2) p1 show ?thesis
        by (auto simp: executeWithReact_loop.simps)
    next
      case False
      obtain t s2 where rt: "react_tool_calls sys (r_tool_calls message) ?s1 = (t, s2)"
        by (cases "react_tool_calls sys (r_tool_calls message) ?s1")
      from react_tool_calls_quiet[OF rt] obtain contents where
        c: "length contents \<le> length (r_tool_calls message)"
           "messages s2 = messages ?s1 @ map2 Tool (map tc_id (r_tool_calls message)) contents"
           "t = Inr None \<longrightarrow> length contents = length (r_tool_calls message)" by blast
      have p2: "pending_after [] (messages s2) =
          Some (drop (length contents) (r_tool_calls message))"
        unfolding c(2) using p1 c(1) by (rule results_pending)
      show ?thesis
      proof (cases t)
        case (Inl e)
        with lt cr Inr False rt Suc.prems(2) p2 show ?thesis
          by (auto simp: executeWithReact_loop.simps)
      next
        case (Inr ctx)
        note t = this
        show ?thesis
        proof (cases ctx)
          case (Some x)
          with t lt cr \<open>res = Inr message\<close> False rt Suc.prems(2) p2 show ?thesis
            by (auto simp: executeWithReact_loop.simps)
        next
          case None
          with t c(3) p2 have q0: "pending_after [] (messages s2) = Some []" by simp
          have "executeWithReact_loop sys ceiling (Suc i) s2 = (r, n, s')"
            using Suc.prems(2) lt cr \<open>res = Inr message\<close> False rt t None
            by (simp add: executeWithReact_loop.simps)
          from Suc.hyps(1)[OF k q0 this] show ?thesis .
        qed
      qed
    qed
  qed
qed


lemma executeWithReact_final:
  assumes "i < ceiling" "create sys (messages s) executionTools (world s) = (Inr m, w)"
    "r_tool_calls m = []"
  shows "executeWithReact_loop sys ceiling i s =
           (Inr completed, Suc i, push (Assistant m) (s\<lparr>world := w\<rparr>))"
  using assms by (simp add: executeWithReact_loop.simps)


lemma ordinary_answers04: "ordinary sys tc \<Longrightarrow> answers sys (loop04 sys) tc"
  unfolding answers_def
proof
  fix s
  assume "ordinary sys tc"
  from ordinary04_step[OF this, of "[]" s]
  show "\<exists>s'. run_tool_calls sys (loop04 sys) [tc] s = (None, s')" by auto
qed

section \<open>Registration of skills (C4)\<close>

lemma allHandlers_snoc:
  "allHandlers (skills @ [s]) = allHandlers skills ++ sk_handlers s"
  by (simp add: allHandlers_def)

lemma allHandlers_later:
  assumes "\<forall>s\<in>set post. sk_handlers s name = None"
  shows "allHandlers (pre @ post) name = allHandlers pre name"
  using assms
proof (induction post rule: rev_induct)
  case Nil
  then show ?case by simp
next
  case (snoc s post)
  have "allHandlers (pre @ post @ [s]) = allHandlers (pre @ post) ++ sk_handlers s"
    using allHandlers_snoc[of "pre @ post" s] by simp
  with snoc show ?case by (simp add: map_add_def)
qed

text \<open>
  Claim C4, as amended. \<^verbatim>\<open>createAgent\<close> rejects no registration: when two skills
  bring a handler under the same name, the handler of the later skill is the one the
  agent uses, and the tool descriptors of both skills are offered to the service,
  since the tools of all skills are concatenated.
\<close>

theorem createAgent_last_registration_wins:
  assumes "sk_handlers s2 name = Some h2" "\<forall>s\<in>set post. sk_handlers s name = None"
  shows "handlers (createAgent (pre @ s1 # mid @ s2 # post)) name = Some h2 \<and>
         tools (createAgent (pre @ s1 # mid @ s2 # post)) =
           allTools pre @ sk_tools s1 @ allTools mid @ sk_tools s2 @ allTools post"
proof -
  have "allHandlers ((pre @ s1 # mid @ [s2]) @ post) name = allHandlers (pre @ s1 # mid @ [s2]) name"
    using assms(2) by (rule allHandlers_later)
  also have "\<dots> = (allHandlers (pre @ s1 # mid) ++ sk_handlers s2) name"
    using allHandlers_snoc[of "pre @ s1 # mid" s2] by simp
  also have "\<dots> = Some h2" using assms(1) by (simp add: map_add_def)
  finally show ?thesis by (simp add: createAgent_def allTools_def)
qed

text \<open>The two sample skills both register \<^verbatim>\<open>read_file\<close>; the second one answers.\<close>

theorem createAgent_last_registration_wins_witness:
  "sk_handlers second_skill ''read_file'' = Some (\<lambda>args w. (Inr (Str ''second''), w)) \<and>
   list_all (\<lambda>s. sk_handlers s ''read_file'' = None) ([] :: nat skill list) \<and>
   handlers (createAgent [first_skill, second_skill]) ''read_file''
     = Some (\<lambda>args w. (Inr (Str ''second''), w)) \<and>
   tools (createAgent [first_skill, second_skill]) = [''read_file'', ''read_file'']"
proof -
  have h: "sk_handlers second_skill ''read_file'' = Some (\<lambda>args w. (Inr (Str ''second''), w))"
    by (simp add: second_skill_def)
  have n: "\<forall>s\<in>set ([] :: nat skill list). sk_handlers s ''read_file'' = None" by simp
  show ?thesis
    using h createAgent_last_registration_wins[OF h n, of "[]" first_skill "[]"]
    by (simp add: allTools_def first_skill_def second_skill_def)
qed

text \<open>
  Claim C4 as stated fails: \<^verbatim>\<open>createAgent\<close> accepts the two sample skills, the handler
  registered second replaces the first and both descriptors are kept.
\<close>

theorem createAgent_duplicate_counterexample:
  "(case handlers (createAgent [first_skill, second_skill]) ''read_file'' of
      None \<Rightarrow> None | Some h \<Rightarrow> Some (h (JObj []) 0)) = Some (Inr (Str ''second''), 0) \<and>
   (case sk_handlers first_skill ''read_file'' of
      None \<Rightarrow> None | Some h \<Rightarrow> Some (h (JObj []) 0)) = Some (Inr (Str ''first''), 0) \<and>
   tools (createAgent [first_skill, second_skill]) = [''read_file'', ''read_file'']"
  by (simp add: createAgent_def allHandlers_def allTools_def first_skill_def second_skill_def)

section \<open>Facts about the sample systems\<close>

lemma sample_simps [simp]:
  "JSON_parse (sample_sys svc) = sample_parse" "create (sample_sys svc) = svc"
  by (simp_all add: sample_sys_def)

lemma sample_parse_simps:
  \<open>sample_parse ''{}'' = Some (JObj [])\<close>
  \<open>sample_parse ''{"path":"notes.txt"}'' = Some (JObj [(''path'', JStr ''notes.txt'')])\<close>
  \<open>sample_parse ''{"command":"ls"}'' = Some (JObj [(''command'', JStr ''ls'')])\<close>
  \<open>sample_parse ''{"command":"test -e m || { touch m; false; }"}'' =
     Some (JObj [(''command'', JStr ''test -e m || { touch m; false; }'')])\<close>
  \<open>sample_parse ''{"reason":"r","completed_steps":[],"discoveries":[]}'' =
     Some (JObj [(''reason'', JStr ''r''), (''completed_steps'', JArr []), (''discoveries'', JArr [])])\<close>
  \<open>sample_parse ''{"goal":"g","steps":[]}'' = Some (JObj [(''goal'', JStr ''g''), (''steps'', JArr [])])\<close>
  by (simp_all add: sample_parse_def)

lemma sample_calls_ordinary:
  "ordinary (sample_sys svc) read_notes" "ordinary (sample_sys svc) list_files"
  "ordinary (sample_sys svc) unknown_tool"
  by (simp_all add: ordinary_def read_notes_def list_files_def unknown_tool_def
      sample_parse_simps object_prototype_def)

lemma sample_calls_plain:
  "plain07 (sample_sys svc) read_notes" "plain07 (sample_sys svc) list_files"
  "plain07 (sample_sys svc) unknown_tool"
  by (simp_all add: plain07_def ordinary_def parsed_def read_notes_def list_files_def
      unknown_tool_def sample_parse_simps object_prototype_def args_preview_def)

lemma cleanJson_fenced_plan: \<open>cleanJson fenced_plan = ''{"goal":"g","steps":[]}''\<close>
  by (simp add: cleanJson_def fenced_plan_def trim_def strip_front.simps js_whitespace_def)

lemma sample_plan_printed:
  "printPlan (JObj [(''goal'', JStr ''g''), (''steps'', JArr [])]) = None"
  by (simp add: printPlan_def printed_def template_def)

section \<open>Results per request (C1)\<close>

text \<open>
  Claim C1, as amended. In \<^verbatim>\<open>agentLoop\<close> of 04-real-tools.ts, when every request of a
  turn is ordinary (its name is none of \<^verbatim>\<open>Object.prototype\<close>, its payload parses to a
  value other than \<^verbatim>\<open>null\<close>), the turn ends without an exception, one result, a text, is
  appended for each request, in the order of the requests and under the identifier
  of its request, and the handlers of the requests that have one are applied once
  each, in that order. In \<^verbatim>\<open>executeWithReact\<close> one result is appended for each plain
  request, in order, up to and including the first \<^verbatim>\<open>request_replan\<close> whose reason can
  be printed; that request ends the run with the context of its arguments, the
  requests after it get no result, and the handler registered for \<^verbatim>\<open>request_replan\<close>
  is never applied (its result text is written by the loop itself). Nothing is said
  here about how often \<^verbatim>\<open>executeWithReact\<close> applies the handlers of the other tools.
\<close>

theorem one_result_per_request:
  "((\<forall>tc\<in>set calls. ordinary sys tc) \<longrightarrow>
      (\<exists>s' texts. run_tool_calls sys (loop04 sys) calls s = (None, s') \<and>
         length texts = length calls \<and>
         messages s' = messages s @ map2 Tool (map tc_id calls) (map Str texts) \<and>
         invoked s' = invoked s @
           map (\<lambda>tc. (tc_name tc, parsed sys tc)) (registered (toolHandlers04 sys) calls))) \<and>
   ((\<forall>tc\<in>set calls. plain07 sys tc) \<longrightarrow>
      (\<exists>s' texts. react_tool_calls sys calls s = (Inr None, s') \<and>
         length texts = length calls \<and>
         messages s' = messages s @ map2 Tool (map tc_id calls) (map Str texts))) \<and>
   ((\<forall>tc\<in>set calls. plain07 sys tc) \<and> tc_name r = ''request_replan'' \<and>
    JSON_parse sys (tc_arguments r) = Some args \<and> printed args ''reason'' = None \<longrightarrow>
      (\<exists>s' texts. react_tool_calls sys (calls @ r # post) s =
           (Inr (Some (replan_context args)), s') \<and>
         length texts = length calls \<and>
         messages s' = messages s @ map2 Tool (map tc_id calls) (map Str texts) @
                         [Tool (tc_id r) (Str ''REPLAN_REQUESTED'')])) \<and>
   (react_tool_calls sys calls s = (res, s1) \<and> ''request_replan'' \<notin> fst ` set (invoked s) \<longrightarrow>
      ''request_replan'' \<notin> fst ` set (invoked s1))"
proof (intro conjI impI)
  assume "\<forall>tc\<in>set calls. ordinary sys tc"
  from ordinary04_turn[OF this, of s]
  show "\<exists>s' texts. run_tool_calls sys (loop04 sys) calls s = (None, s') \<and>
         length texts = length calls \<and>
         messages s' = messages s @ map2 Tool (map tc_id calls) (map Str texts) \<and>
         invoked s' = invoked s @
           map (\<lambda>tc. (tc_name tc, parsed sys tc)) (registered (toolHandlers04 sys) calls)" .
next
  assume "\<forall>tc\<in>set calls. plain07 sys tc"
  from react_plain_calls[OF this, of "[]" s]
  show "\<exists>s' texts. react_tool_calls sys calls s = (Inr None, s') \<and>
         length texts = length calls \<and>
         messages s' = messages s @ map2 Tool (map tc_id calls) (map Str texts)"
    by auto
next
  assume a: "(\<forall>tc\<in>set calls. plain07 sys tc) \<and> tc_name r = ''request_replan'' \<and>
    JSON_parse sys (tc_arguments r) = Some args \<and> printed args ''reason'' = None"
  then have p: "\<forall>tc\<in>set calls. plain07 sys tc" by simp
  from react_plain_calls[OF p, of "r # post" s] obtain texts s2 where
    c: "length texts = length calls"
       "react_tool_calls sys (calls @ r # post) s = react_tool_calls sys (r # post) s2"
       "messages s2 = messages s @ map2 Tool (map tc_id calls) (map Str texts)" by blast
  from a have "react_tool_calls sys (r # post) s2 =
      (Inr (Some (replan_context args)), push (Tool (tc_id r) (Str ''REPLAN_REQUESTED'')) s2)"
    using react_replan_step[of r sys args post s2] by blast
  with c have "react_tool_calls sys (calls @ r # post) s =
      (Inr (Some (replan_context args)), push (Tool (tc_id r) (Str ''REPLAN_REQUESTED'')) s2) \<and>
      length texts = length calls \<and>
      messages (push (Tool (tc_id r) (Str ''REPLAN_REQUESTED'')) s2) =
        messages s @ map2 Tool (map tc_id calls) (map Str texts) @
          [Tool (tc_id r) (Str ''REPLAN_REQUESTED'')]"
    by simp
  then show "\<exists>s' texts. react_tool_calls sys (calls @ r # post) s =
           (Inr (Some (replan_context args)), s') \<and>
         length texts = length calls \<and>
         messages s' = messages s @ map2 Tool (map tc_id calls) (map Str texts) @
                         [Tool (tc_id r) (Str ''REPLAN_REQUESTED'')]"
    by blast
next
  assume "react_tool_calls sys calls s = (res, s1) \<and> ''request_replan'' \<notin> fst ` set (invoked s)"
  then show "''request_replan'' \<notin> fst ` set (invoked s1)"
    using react_never_invokes_replan by blast
qed

text \<open>A turn with three requests in the sample system, alone and followed by a revision
  request.\<close>

theorem one_result_per_request_witness:
  "list_all (ordinary (sample_sys finishing)) [read_notes, list_files, unknown_tool] \<and>
   list_all (plain07 (sample_sys finishing)) [read_notes, list_files, unknown_tool] \<and>
   tc_name revision_request = ''request_replan'' \<and>
   printed (parsed (sample_sys finishing) revision_request) ''reason'' = None \<and>
   (\<exists>s' texts.
      run_tool_calls (sample_sys finishing) (loop04 (sample_sys finishing))
        [read_notes, list_files, unknown_tool] (start AssistantPrompt04 ''task'' 0) = (None, s') \<and>
      length texts = 3 \<and>
      messages s' = [System AssistantPrompt04, User ''task''] @
        map2 Tool [''call_1'', ''call_2'', ''call_3''] (map Str texts) \<and>
      map fst (invoked s') = [''read_file'', ''run_bash'']) \<and>
   (\<exists>s' texts.
      react_tool_calls (sample_sys finishing)
        ([read_notes, list_files, unknown_tool] @ revision_request # [read_notes])
        (start AssistantPrompt04 ''task'' 0) =
          (Inr (Some \<lparr>reason = Some (JStr ''r''), completedSteps = Some (JArr []),
                      discoveries = Some (JArr [])\<rparr>), s') \<and>
      length texts = 3 \<and>
      messages s' = [System AssistantPrompt04, User ''task''] @
        map2 Tool [''call_1'', ''call_2'', ''call_3''] (map Str texts) @
        [Tool ''call_r'' (Str ''REPLAN_REQUESTED'')])"
proof -
  let ?S = "sample_sys finishing"
  let ?C = "[read_notes, list_files, unknown_tool]"
  let ?s = "start AssistantPrompt04 ''task'' (0::nat)"
  let ?args = "JObj [(''reason'', JStr ''r''), (''completed_steps'', JArr []),
                     (''discoveries'', JArr [])]"
  have o: "\<forall>tc\<in>set ?C. ordinary ?S tc" by (simp add: sample_calls_ordinary)
  have p: "\<forall>tc\<in>set ?C. plain07 ?S tc" by (simp add: sample_calls_plain)
  have n: "tc_name revision_request = ''request_replan''" by (simp add: revision_request_def)
  have j: "JSON_parse ?S (tc_arguments revision_request) = Some ?args"
    by (simp add: revision_request_def sample_parse_simps)
  have pa: "parsed ?S revision_request = ?args" using j by (simp add: parsed_def)
  have pr: "printed ?args ''reason'' = None" by (simp add: printed_def template_def)
  note t = one_result_per_request[of ?C ?S ?s revision_request ?args "[read_notes]"]
  have reg: "registered (toolHandlers04 ?S) ?C = [read_notes, list_files]"
    by (simp add: registered_def toolHandlers04_def read_notes_def list_files_def unknown_tool_def)
  have ctx: "replan_context ?args =
      \<lparr>reason = Some (JStr ''r''), completedSteps = Some (JArr []), discoveries = Some (JArr [])\<rparr>"
    by (simp add: replan_context_def property_def)
  from t o have a: "\<exists>s' texts. run_tool_calls ?S (loop04 ?S) ?C ?s = (None, s') \<and>
         length texts = length ?C \<and>
         messages s' = messages ?s @ map2 Tool (map tc_id ?C) (map Str texts) \<and>
         invoked s' = invoked ?s @
           map (\<lambda>tc. (tc_name tc, parsed ?S tc)) (registered (toolHandlers04 ?S) ?C)"
    by blast
  from t p n j pr have b: "\<exists>s' texts. react_tool_calls ?S (?C @ revision_request # [read_notes]) ?s =
           (Inr (Some (replan_context ?args)), s') \<and>
         length texts = length ?C \<and>
         messages s' = messages ?s @ map2 Tool (map tc_id ?C) (map Str texts) @
                         [Tool (tc_id revision_request) (Str ''REPLAN_REQUESTED'')]"
    by blast
  from a obtain s' texts where x:
    "run_tool_calls ?S (loop04 ?S) ?C ?s = (None, s')" "length texts = length ?C"
    "messages s' = messages ?s @ map2 Tool (map tc_id ?C) (map Str texts)"
    "invoked s' = invoked ?s @
       map (\<lambda>tc. (tc_name tc, parsed ?S tc)) (registered (toolHandlers04 ?S) ?C)"
    by blast
  have x2: "length texts = 3" using x(2) by simp
  have x3: "messages s' = [System AssistantPrompt04, User ''task''] @
        map2 Tool [''call_1'', ''call_2'', ''call_3''] (map Str texts)"
    using x(3) by (simp add: start_def read_notes_def list_files_def unknown_tool_def)
  have x4: "map fst (invoked s') = [''read_file'', ''run_bash'']"
    using x(4) unfolding reg by (simp add: start_def read_notes_def list_files_def)
  have a': "\<exists>s' texts.
      run_tool_calls ?S (loop04 ?S) ?C ?s = (None, s') \<and>
      length texts = 3 \<and>
      messages s' = [System AssistantPrompt04, User ''task''] @
        map2 Tool [''call_1'', ''call_2'', ''call_3''] (map Str texts) \<and>
      map fst (invoked s') = [''read_file'', ''run_bash'']"
    by (intro exI[of _ s'] exI[of _ texts] conjI x(1) x2 x3 x4)
  from b obtain s'' texts' where y:
    "react_tool_calls ?S (?C @ revision_request # [read_notes]) ?s =
           (Inr (Some (replan_context ?args)), s'')"
    "length texts' = length ?C"
    "messages s'' = messages ?s @ map2 Tool (map tc_id ?C) (map Str texts') @
                         [Tool (tc_id revision_request) (Str ''REPLAN_REQUESTED'')]"
    by blast
  have y2: "length texts' = 3" using y(2) by simp
  have y3: "messages s'' = [System AssistantPrompt04, User ''task''] @
        map2 Tool [''call_1'', ''call_2'', ''call_3''] (map Str texts') @
        [Tool ''call_r'' (Str ''REPLAN_REQUESTED'')]"
    using y(3)
    by (simp add: start_def read_notes_def list_files_def unknown_tool_def revision_request_def)
  have b': "\<exists>s' texts.
      react_tool_calls ?S (?C @ revision_request # [read_notes]) ?s =
          (Inr (Some \<lparr>reason = Some (JStr ''r''), completedSteps = Some (JArr []),
                      discoveries = Some (JArr [])\<rparr>), s') \<and>
      length texts = 3 \<and>
      messages s' = [System AssistantPrompt04, User ''task''] @
        map2 Tool [''call_1'', ''call_2'', ''call_3''] (map Str texts) @
        [Tool ''call_r'' (Str ''REPLAN_REQUESTED'')]"
    by (intro exI[of _ s''] exI[of _ texts'] conjI y(1)[unfolded ctx] y2 y3)
  have o': "list_all (ordinary ?S) ?C" using o by (simp add: list_all_iff)
  have p': "list_all (plain07 ?S) ?C" using p by (simp add: list_all_iff)
  have pr': "printed (parsed ?S revision_request) ''reason'' = None" using pr pa by simp
  show ?thesis by (intro conjI o' p' n pr' a' b')
qed

text \<open>
  Claim C1 as stated fails in \<^verbatim>\<open>executeWithReact\<close>: the service requests
  \<^verbatim>\<open>request_replan\<close> and then \<^verbatim>\<open>read_file\<close> in one turn; the run returns with a single
  result, for the first request, and no handler has been applied.
\<close>

theorem revision_leaves_request_unanswered_counterexample:
  "request_ids (messages (snd (snd
     (executeWithReact (sample_sys (once [revision_request, read_notes])) ''task'' (JObj []) 0))))
     = [''call_r'', ''call_1''] \<and>
   result_tags (messages (snd (snd
     (executeWithReact (sample_sys (once [revision_request, read_notes])) ''task'' (JObj []) 0))))
     = [''call_r''] \<and>
   invoked (snd (snd
     (executeWithReact (sample_sys (once [revision_request, read_notes])) ''task'' (JObj []) 0)))
     = []"
  by (simp add: executeWithReact_def start_def executeWithReact_loop.simps once_def
      revision_request_def read_notes_def sample_parse_simps react_branch_def push_def
      printed_def template_def)

section \<open>Requests for a tool that is not registered (C8)\<close>

lemma toolHandlers07_names:
  "toolHandlers07 sys name = None \<Longrightarrow>
   name \<noteq> ''think'' \<and> name \<noteq> ''request_replan'' \<and> name \<noteq> ''write_file''"
  by (auto simp: toolHandlers07_def)

lemma toolHandlers_constructor:
  "toolHandlers04 sys ''constructor'' = None" "toolHandlers07 sys ''constructor'' = None"
  by (simp_all add: toolHandlers04_def toolHandlers07_def)

text \<open>
  Claim C8, on the code. Take a request whose payload parses and whose name the
  literal of the table lacks. When the name is none of \<^verbatim>\<open>Object.prototype\<close>,
  \<^verbatim>\<open>executeWithReact\<close> appends the text \<^verbatim>\<open>OK\<close> as the result and goes on with the next
  request: the text saying that the tool was not found is computed for the printed
  line only. \<^verbatim>\<open>agentLoop\<close> of 04-real-tools.ts appends that text and goes on. When the
  name is \<^verbatim>\<open>constructor\<close>, which every table inherits, and the payload is an object,
  the lookup finds the inherited member, its result has no function \<^verbatim>\<open>slice\<close>, and both
  loops end with a type error before anything is appended.
\<close>

theorem unknown_tool_result:
  "(toolHandlers07 sys (tc_name tc) = None \<and> tc_name tc \<notin> set object_prototype \<and>
    JSON_parse sys (tc_arguments tc) = Some args \<longrightarrow>
      react_tool_calls sys (tc # rest) s =
        react_tool_calls sys rest (push (Tool (tc_id tc) (Str ''OK'')) s)) \<and>
   (toolHandlers04 sys (tc_name tc) = None \<and> tc_name tc \<notin> set object_prototype \<and>
    JSON_parse sys (tc_arguments tc) = Some args \<longrightarrow>
      run_tool_calls sys (loop04 sys) (tc # rest) s =
        run_tool_calls sys (loop04 sys) rest
          (push (Tool (tc_id tc) (Str (tool_not_found (tc_name tc)))) s)) \<and>
   (tc_name tc = ''constructor'' \<and> JSON_parse sys (tc_arguments tc) = Some (JObj kvs) \<longrightarrow>
      react_tool_calls sys (tc # rest) s = (Inl TypeError, s) \<and>
      run_tool_calls sys (loop04 sys) (tc # rest) s = (Some TypeError, s))"
proof (intro conjI impI)
  assume a: "toolHandlers07 sys (tc_name tc) = None \<and> tc_name tc \<notin> set object_prototype \<and>
    JSON_parse sys (tc_arguments tc) = Some args"
  from a toolHandlers07_names[of sys "tc_name tc"] have n:
    "tc_name tc \<noteq> ''think''" "tc_name tc \<noteq> ''request_replan''" "tc_name tc \<noteq> ''write_file''"
    by simp_all
  have "react_branch sys tc args s = (Fall, s)"
    using a n by (simp add: react_branch_def args_preview_def call_or_text_absent)
  with a show "react_tool_calls sys (tc # rest) s =
        react_tool_calls sys rest (push (Tool (tc_id tc) (Str ''OK'')) s)"
    by (simp add: call_handler_absent defaulted_def)
next
  assume a: "toolHandlers04 sys (tc_name tc) = None \<and> tc_name tc \<notin> set object_prototype \<and>
    JSON_parse sys (tc_arguments tc) = Some args"
  then show "run_tool_calls sys (loop04 sys) (tc # rest) s =
        run_tool_calls sys (loop04 sys) rest
          (push (Tool (tc_id tc) (Str (tool_not_found (tc_name tc)))) s)"
    by (simp add: call_or_text_absent)
next
  assume a: "tc_name tc = ''constructor'' \<and> JSON_parse sys (tc_arguments tc) = Some (JObj kvs)"
  have c: "call_or_text (toolHandlers07 sys) 120 ''constructor'' (JObj kvs) s = (Inl TypeError, s)"
    by (rule call_or_text_constructor) (rule toolHandlers_constructor)
  have "react_branch sys tc (JObj kvs) s = (Throw TypeError, s)"
    using a c by (simp add: react_branch_def args_preview_def)
  with a show "react_tool_calls sys (tc # rest) s = (Inl TypeError, s)" by simp
next
  assume a: "tc_name tc = ''constructor'' \<and> JSON_parse sys (tc_arguments tc) = Some (JObj kvs)"
  have c: "call_or_text (toolHandlers04 sys) 200 ''constructor'' (JObj kvs) s = (Inl TypeError, s)"
    by (rule call_or_text_constructor) (rule toolHandlers_constructor)
  with a show "run_tool_calls sys (loop04 sys) (tc # rest) s = (Some TypeError, s)" by simp
qed

text \<open>The requests for \<^verbatim>\<open>list_dir\<close>, which no table has, and for \<^verbatim>\<open>constructor\<close>, in both
  loops.\<close>

theorem unknown_tool_result_witness:
  "toolHandlers07 (sample_sys finishing) (tc_name unknown_tool) = None \<and>
   toolHandlers04 (sample_sys finishing) (tc_name unknown_tool) = None \<and>
   tc_name unknown_tool \<notin> set object_prototype \<and>
   JSON_parse (sample_sys finishing) (tc_arguments unknown_tool) = Some (JObj []) \<and>
   react_tool_calls (sample_sys finishing) [unknown_tool] (start (ExecutorPrompt07 JNull) ''task'' 0) =
     (Inr None, push (Tool ''call_3'' (Str ''OK'')) (start (ExecutorPrompt07 JNull) ''task'' 0)) \<and>
   run_tool_calls (sample_sys finishing) (loop04 (sample_sys finishing)) [unknown_tool]
       (start AssistantPrompt04 ''task'' 0) =
     (None, push (Tool ''call_3'' (Str (tool_not_found ''list_dir'')))
              (start AssistantPrompt04 ''task'' 0)) \<and>
   tc_name constructor_request = ''constructor'' \<and>
   JSON_parse (sample_sys finishing) (tc_arguments constructor_request) = Some (JObj []) \<and>
   react_tool_calls (sample_sys finishing) [constructor_request, unknown_tool]
       (start (ExecutorPrompt07 JNull) ''task'' 0) =
     (Inl TypeError, start (ExecutorPrompt07 JNull) ''task'' 0) \<and>
   run_tool_calls (sample_sys finishing) (loop04 (sample_sys finishing))
       [constructor_request, unknown_tool] (start AssistantPrompt04 ''task'' 0) =
     (Some TypeError, start AssistantPrompt04 ''task'' 0)"
proof -
  let ?S = "sample_sys finishing"
  let ?s7 = "start (ExecutorPrompt07 JNull) ''task'' (0::nat)"
  let ?s4 = "start AssistantPrompt04 ''task'' (0::nat)"
  have h7: "toolHandlers07 ?S (tc_name unknown_tool) = None"
    by (simp add: toolHandlers07_def unknown_tool_def)
  have h4: "toolHandlers04 ?S (tc_name unknown_tool) = None"
    by (simp add: toolHandlers04_def unknown_tool_def)
  have n: "tc_name unknown_tool \<notin> set object_prototype"
    by (simp add: unknown_tool_def object_prototype_def)
  have p: "JSON_parse ?S (tc_arguments unknown_tool) = Some (JObj [])"
    by (simp add: unknown_tool_def sample_parse_simps)
  have cn: "tc_name constructor_request = ''constructor''" by (simp add: constructor_request_def)
  have cp: "JSON_parse ?S (tc_arguments constructor_request) = Some (JObj [])"
    by (simp add: constructor_request_def sample_parse_simps)
  have a: "react_tool_calls ?S [unknown_tool] ?s7 =
      (Inr None, push (Tool ''call_3'' (Str ''OK'')) ?s7)"
    using unknown_tool_result[of ?S unknown_tool "JObj []" "[]" ?s7] h7 n p
    by (simp add: unknown_tool_def)
  have b: "run_tool_calls ?S (loop04 ?S) [unknown_tool] ?s4 =
      (None, push (Tool ''call_3'' (Str (tool_not_found ''list_dir''))) ?s4)"
    using unknown_tool_result[of ?S unknown_tool "JObj []" "[]" ?s4] h4 n p
    by (simp add: unknown_tool_def)
  have c: "react_tool_calls ?S [constructor_request, unknown_tool] ?s7 = (Inl TypeError, ?s7)"
    using unknown_tool_result[of ?S constructor_request "JObj []" "[unknown_tool]" ?s7 "[]"] cn cp
    by blast
  have d: "run_tool_calls ?S (loop04 ?S) [constructor_request, unknown_tool] ?s4 =
      (Some TypeError, ?s4)"
    using unknown_tool_result[of ?S constructor_request "JObj []" "[unknown_tool]" ?s4 "[]"] cn cp
    by blast
  show ?thesis by (intro conjI h7 h4 n p a b cn cp c d)
qed

text \<open>
  Two whole runs on the same reply of the service, a failing \<^verbatim>\<open>run_bash\<close> followed by
  the unknown \<^verbatim>\<open>list_dir\<close>: \<^verbatim>\<open>executeWithReact\<close> applies the \<^verbatim>\<open>run_bash\<close> handler twice
  (once for the printed line, once for the result) and answers \<^verbatim>\<open>list_dir\<close> with
  \<^verbatim>\<open>OK\<close>; \<^verbatim>\<open>agentLoop\<close> of 04-real-tools.ts applies the handler once and answers
  \<^verbatim>\<open>list_dir\<close> with the text for a tool that was not found.
\<close>

text \<open>The name \<^verbatim>\<open>toString\<close> is found in every table as well; the inherited function
  returns a text, which both loops append as the result.\<close>

lemma inherited_toString_result:
  "react_tool_calls (sample_sys svc) [toString_request] s =
     (Inr None, push (Tool ''call_6'' (Str ''[object Object]'')) s)"
  "run_tool_calls (sample_sys svc) (loop04 (sample_sys svc)) [toString_request] s =
     (None, push (Tool ''call_6'' (Str ''[object Object]'')) s)"
  by (simp_all add: toString_request_def sample_parse_simps react_branch_def args_preview_def
      call_or_text_def call_handler_def toolHandlers07_def toolHandlers04_def
      object_prototype_def inherited_def defaulted_def)

lemma sample_list_files:
  "execSync (sample_sys svc) command n w =
     (Inl \<lparr>e_message = ''Command failed: ls'', e_stderr = Some ''ls: not found''\<rparr>, w)"
  by (simp add: sample_sys_def)

lemma executeWithReact_sample_run:
  "executeWithReact (sample_sys (once [list_files, unknown_tool])) ''task'' (JObj []) 0 =
     (Inr completed, 2,
      \<lparr>messages = [System (ExecutorPrompt07 (JObj [])), User ''task'',
         Assistant \<lparr>r_content = None, r_tool_calls = [list_files, unknown_tool]\<rparr>,
         Tool ''call_2'' (Str (oshibka @ ''ls: not found'')),
         Tool ''call_3'' (Str ''OK''),
         Assistant \<lparr>r_content = Some ''done'', r_tool_calls = []\<rparr>],
       world = 2,
       invoked = [(''run_bash'', JObj [(''command'', JStr ''ls'')]),
                  (''run_bash'', JObj [(''command'', JStr ''ls'')])]\<rparr>)"
  by (simp add: executeWithReact_def start_def executeWithReact_loop.simps once_def finishing_def
      list_files_def unknown_tool_def sample_parse_simps react_branch_def push_def
      args_preview_def call_or_text_def call_handler_def apply_handler_def toolHandlers07_def
      run_bash07_def sample_list_files stderr_or_message_def defaulted_def object_prototype_def)

lemma agentLoop04_sample_run:
  "agentLoop04 (sample_sys (once [list_files, unknown_tool])) ''task'' 0 =
     (Returned (Some ''done''), 2,
      \<lparr>messages = [System AssistantPrompt04, User ''task'',
         Assistant \<lparr>r_content = None, r_tool_calls = [list_files, unknown_tool]\<rparr>,
         Tool ''call_2'' (Str (oshibka @ ''Command failed: ls'')),
         Tool ''call_3'' (Str (tool_not_found ''list_dir'')),
         Assistant \<lparr>r_content = Some ''done'', r_tool_calls = []\<rparr>],
       world = 2,
       invoked = [(''run_bash'', JObj [(''command'', JStr ''ls'')])]\<rparr>)"
  by (simp add: agentLoop04_def start_def tool_loop.simps once_def finishing_def
      list_files_def unknown_tool_def sample_parse_simps push_def
      call_or_text_def call_handler_def apply_handler_def toolHandlers04_def run_bash04_def
      sample_list_files defaulted_def object_prototype_def)

section \<open>Handlers whose operation fails (C9)\<close>

lemma trim_Nil: "trim [] = []"
  by (simp add: trim_def strip_front.simps[of _ "[]"] js_whitespace_def)

text \<open>
  Claim C9, on the code. An error text starts with the Russian for "Error" and a
  colon; \<open>oshibka\<close> is that word with the colon and a space. When the system call
  behind a handler fails (the file cannot be read or written, the command fails or
  exceeds its timeout, so the call throws), the handlers \<^verbatim>\<open>read_file\<close>, \<^verbatim>\<open>run_bash\<close> and
  \<^verbatim>\<open>write_file\<close> of 04-real-tools.ts and 07-adaptive-agent.ts return \<open>oshibka\<close>
  followed by the message of the error, and do not throw. In \<^verbatim>\<open>agentLoop\<close> of
  04-real-tools.ts, wherever in a turn of ordinary requests a handler returns such a
  text, that text is appended as the result of its request, the requests after it
  are answered, and the loop goes on with the next iteration, which starts with the
  next decision request. In \<^verbatim>\<open>executeWithReact\<close> the text of the failing application is
  only printed: the handler is applied a second time, in the world that the first
  application left, and what the second application returns is appended.
\<close>

theorem failing_operation_becomes_error_text:
  "error_text (oshibka @ t) \<and>
   (args \<noteq> JNull \<and> readFileSync sys (property args ''path'') w = (Inl e, w') \<longrightarrow>
      read_file sys args w = (Inr (Str (oshibka @ e_message e)), w')) \<and>
   (args \<noteq> JNull \<and> execSync sys (property args ''command'') 5000 w = (Inl e, w') \<longrightarrow>
      run_bash04 sys args w = (Inr (Str (oshibka @ e_message e)), w')) \<and>
   (args \<noteq> JNull \<and> execSync sys (property args ''command'') 10000 w = (Inl e, w') \<longrightarrow>
      run_bash07 sys args w = (Inr (Str (oshibka @ stderr_or_message e)), w')) \<and>
   (args \<noteq> JNull \<and>
    writeFileSync sys (property args ''path'') (property args ''content'') w = (Inl e, w') \<longrightarrow>
      write_file sys args w = (Inr (Str (oshibka @ e_message e)), w')) \<and>
   (i < 10 \<and> create sys (messages s) [''run_bash'', ''read_file''] (world s) = (Inr m, w) \<and>
    r_tool_calls m = pre @ tc # post \<and>
    run_tool_calls sys (loop04 sys) pre (push (Assistant m) (s\<lparr>world := w\<rparr>)) = (None, s1) \<and>
    JSON_parse sys (tc_arguments tc) = Some args \<and> toolHandlers04 sys (tc_name tc) = Some h \<and>
    h args (world s1) = (Inr (Str (oshibka @ t)), w') \<and> (\<forall>x\<in>set post. ordinary sys x) \<longrightarrow>
      (\<exists>s2 texts.
         tool_loop sys (loop04 sys) i s = tool_loop sys (loop04 sys) (Suc i) s2 \<and>
         length texts = length post \<and>
         messages s2 = messages s1 @ Tool (tc_id tc) (Str (oshibka @ t)) #
                         map2 Tool (map tc_id post) (map Str texts))) \<and>
   (JSON_parse sys (tc_arguments tc) = Some args \<and>
    tc_name tc \<noteq> ''think'' \<and> tc_name tc \<noteq> ''request_replan'' \<and>
    args_preview (tc_name tc) args = None \<and> toolHandlers07 sys (tc_name tc) = Some h \<and>
    h args (world s) = (Inr (Str (oshibka @ t)), w1) \<and> h args w1 = (Inr r2, w2) \<longrightarrow>
      react_tool_calls sys (tc # rest) s =
        react_tool_calls sys rest
          \<lparr>messages = messages s @ [Tool (tc_id tc) (defaulted r2 ''OK'')], world = w2,
           invoked = invoked s @ [(tc_name tc, args), (tc_name tc, args)]\<rparr>)"
proof (intro conjI impI)
  show "error_text (oshibka @ t)" by (simp add: error_text_def oshibka_def)
next
  assume "args \<noteq> JNull \<and> readFileSync sys (property args ''path'') w = (Inl e, w')"
  then show "read_file sys args w = (Inr (Str (oshibka @ e_message e)), w')"
    by (simp add: read_file_def get_prop_property)
next
  assume "args \<noteq> JNull \<and> execSync sys (property args ''command'') 5000 w = (Inl e, w')"
  then show "run_bash04 sys args w = (Inr (Str (oshibka @ e_message e)), w')"
    by (simp add: run_bash04_def get_prop_property)
next
  assume "args \<noteq> JNull \<and> execSync sys (property args ''command'') 10000 w = (Inl e, w')"
  then show "run_bash07 sys args w = (Inr (Str (oshibka @ stderr_or_message e)), w')"
    by (simp add: run_bash07_def get_prop_property)
next
  assume "args \<noteq> JNull \<and>
    writeFileSync sys (property args ''path'') (property args ''content'') w = (Inl e, w')"
  then show "write_file sys args w = (Inr (Str (oshibka @ e_message e)), w')"
    by (simp add: write_file_def get_prop_property)
next
  assume a: "i < 10 \<and> create sys (messages s) [''run_bash'', ''read_file''] (world s) = (Inr m, w) \<and>
    r_tool_calls m = pre @ tc # post \<and>
    run_tool_calls sys (loop04 sys) pre (push (Assistant m) (s\<lparr>world := w\<rparr>)) = (None, s1) \<and>
    JSON_parse sys (tc_arguments tc) = Some args \<and> toolHandlers04 sys (tc_name tc) = Some h \<and>
    h args (world s1) = (Inr (Str (oshibka @ t)), w') \<and> (\<forall>x\<in>set post. ordinary sys x)"
  then have a1: "i < limit (loop04 sys)"
    and a2: "create sys (messages s) (toolset (loop04 sys)) (world s) = (Inr m, w)"
    and a3: "r_tool_calls m = pre @ tc # post"
    and a4: "run_tool_calls sys (loop04 sys) pre (push (Assistant m) (s\<lparr>world := w\<rparr>)) = (None, s1)"
    and a5: "JSON_parse sys (tc_arguments tc) = Some args"
    and a6: "toolHandlers04 sys (tc_name tc) = Some h"
    and a7: "h args (world s1) = (Inr (Str (oshibka @ t)), w')"
    and a8: "\<forall>x\<in>set post. ordinary sys x"
    by simp_all
  let ?s0 = "push (Assistant m) (s\<lparr>world := w\<rparr>)"
  let ?s1 = "s1\<lparr>world := w', invoked := invoked s1 @ [(tc_name tc, args)]\<rparr>"
  let ?s1' = "push (Tool (tc_id tc) (Str (oshibka @ t))) ?s1"
  have c: "call_or_text (toolHandlers04 sys) 200 (tc_name tc) args s1 = (Inr (Str (oshibka @ t)), ?s1)"
    using a6 a7 call_or_text_own[of "toolHandlers04 sys" "tc_name tc" h args s1 "oshibka @ t" w' 200]
    by simp
  from ordinary04_turn[OF a8, of ?s1'] obtain s2 texts where
    p: "run_tool_calls sys (loop04 sys) post ?s1' = (None, s2)" "length texts = length post"
       "messages s2 = messages ?s1' @ map2 Tool (map tc_id post) (map Str texts)"
    by blast
  have "run_tool_calls sys (loop04 sys) (tc # post) s1 = (None, s2)"
    using a5 c p(1) by simp
  then have rt: "run_tool_calls sys (loop04 sys) (r_tool_calls m) ?s0 = (None, s2)"
    using a3 a4 run_tool_calls_append[of sys "loop04 sys" pre "tc # post" ?s0] by simp
  have ne: "r_tool_calls m \<noteq> []" using a3 by simp
  have "tool_loop sys (loop04 sys) i s = tool_loop sys (loop04 sys) (Suc i) s2"
    using tool_loop_continues[OF a1 a2 ne rt] .
  moreover have "messages s2 = messages s1 @ Tool (tc_id tc) (Str (oshibka @ t)) #
      map2 Tool (map tc_id post) (map Str texts)"
    using p(3) by simp
  ultimately show "\<exists>s2 texts.
         tool_loop sys (loop04 sys) i s = tool_loop sys (loop04 sys) (Suc i) s2 \<and>
         length texts = length post \<and>
         messages s2 = messages s1 @ Tool (tc_id tc) (Str (oshibka @ t)) #
                         map2 Tool (map tc_id post) (map Str texts)"
    using p(2) by blast
next
  assume a: "JSON_parse sys (tc_arguments tc) = Some args \<and>
    tc_name tc \<noteq> ''think'' \<and> tc_name tc \<noteq> ''request_replan'' \<and>
    args_preview (tc_name tc) args = None \<and> toolHandlers07 sys (tc_name tc) = Some h \<and>
    h args (world s) = (Inr (Str (oshibka @ t)), w1) \<and> h args w1 = (Inr r2, w2)"
  then show "react_tool_calls sys (tc # rest) s =
        react_tool_calls sys rest
          \<lparr>messages = messages s @ [Tool (tc_id tc) (defaulted r2 ''OK'')], world = w2,
           invoked = invoked s @ [(tc_name tc, args), (tc_name tc, args)]\<rparr>"
    using react_applies_handler_twice[of sys tc args h s "oshibka @ t" w1 r2 w2 rest]
    by blast
qed

text \<open>
  In the sample system no file can be read and no command runs, and
  \<open>readonly_sys\<close> refuses to write. A turn of \<^verbatim>\<open>agentLoop\<close> lists files, reads a file
  and requests an unknown tool: the error text of the second request is its
  result and the loop goes on. In \<open>marker_sys\<close> the command of \<open>make_marker\<close> fails
  when it is first applied and succeeds without output when \<^verbatim>\<open>executeWithReact\<close>
  applies it again: the result in the transcript is the empty text.
\<close>

theorem failing_operation_becomes_error_text_witness:
  "error_text (oshibka @ ''ENOENT: no such file or directory'') \<and>
   readFileSync (sample_sys finishing) (Some (JStr ''notes.txt'')) 1 =
     (Inl \<lparr>e_message = ''ENOENT: no such file or directory'', e_stderr = None\<rparr>, 1) \<and>
   read_file (sample_sys finishing) (JObj [(''path'', JStr ''notes.txt'')]) 1 =
     (Inr (Str (oshibka @ ''ENOENT: no such file or directory'')), 1) \<and>
   execSync (sample_sys finishing) (Some (JStr ''ls'')) 5000 1 =
     (Inl \<lparr>e_message = ''Command failed: ls'', e_stderr = Some ''ls: not found''\<rparr>, 1) \<and>
   run_bash04 (sample_sys finishing) (JObj [(''command'', JStr ''ls'')]) 1 =
     (Inr (Str (oshibka @ ''Command failed: ls'')), 1) \<and>
   execSync (sample_sys finishing) (Some (JStr ''ls'')) 10000 1 =
     (Inl \<lparr>e_message = ''Command failed: ls'', e_stderr = Some ''ls: not found''\<rparr>, 1) \<and>
   run_bash07 (sample_sys finishing) (JObj [(''command'', JStr ''ls'')]) 1 =
     (Inr (Str (oshibka @ ''ls: not found'')), 1) \<and>
   writeFileSync readonly_sys (Some (JStr ''notes.txt'')) (Some (JStr ''x'')) 1 =
     (Inl \<lparr>e_message = ''EACCES: permission denied'', e_stderr = None\<rparr>, 1) \<and>
   write_file readonly_sys (JObj [(''path'', JStr ''notes.txt''), (''content'', JStr ''x'')]) 1 =
     (Inr (Str (oshibka @ ''EACCES: permission denied'')), 1) \<and>
   list_all (ordinary (sample_sys (once [list_files, read_notes, unknown_tool]))) [unknown_tool] \<and>
   (\<exists>s2 texts.
      agentLoop04 (sample_sys (once [list_files, read_notes, unknown_tool])) ''task'' 0 =
        tool_loop (sample_sys (once [list_files, read_notes, unknown_tool]))
          (loop04 (sample_sys (once [list_files, read_notes, unknown_tool]))) 1 s2 \<and>
      length texts = 1 \<and>
      messages s2 =
        [System AssistantPrompt04, User ''task'',
         Assistant \<lparr>r_content = None, r_tool_calls = [list_files, read_notes, unknown_tool]\<rparr>,
         Tool ''call_2'' (Str (oshibka @ ''Command failed: ls'')),
         Tool ''call_1'' (Str (oshibka @ ''ENOENT: no such file or directory''))] @
        map2 Tool [''call_3''] (map Str texts)) \<and>
   fst (agentLoop04 (sample_sys (once [list_files, read_notes, unknown_tool])) ''task'' 0) =
     Returned (Some ''done'') \<and>
   run_bash07 marker_sys (JObj [(''command'', JStr ''test -e m || { touch m; false; }'')])
       (1, False) = (Inr (Str (oshibka @ ''Command failed'')), (1, True)) \<and>
   run_bash07 marker_sys (JObj [(''command'', JStr ''test -e m || { touch m; false; }'')])
       (1, True) = (Inr (Str []), (1, True)) \<and>
   react_tool_calls marker_sys [make_marker]
       \<lparr>messages = [], world = (1, False), invoked = []\<rparr> =
     (Inr None,
      \<lparr>messages = [Tool ''call_m'' (Str [])], world = (1, True),
       invoked = [(''run_bash'', JObj [(''command'', JStr ''test -e m || { touch m; false; }'')]),
                  (''run_bash'', JObj [(''command'', JStr ''test -e m || { touch m; false; }'')])]\<rparr>)"
proof -
  let ?S = "sample_sys finishing"
  let ?A = "JObj [(''path'', JStr ''notes.txt'')]"
  let ?B = "JObj [(''command'', JStr ''ls'')]"
  let ?W = "JObj [(''path'', JStr ''notes.txt''), (''content'', JStr ''x'')]"
  let ?M = "JObj [(''command'', JStr ''test -e m || { touch m; false; }'')]"
  let ?eR = "\<lparr>e_message = ''ENOENT: no such file or directory'', e_stderr = None\<rparr>"
  let ?eX = "\<lparr>e_message = ''Command failed: ls'', e_stderr = Some ''ls: not found''\<rparr>"
  let ?eW = "\<lparr>e_message = ''EACCES: permission denied'', e_stderr = None\<rparr>"
  let ?eM = "\<lparr>e_message = ''Command failed'', e_stderr = None\<rparr>"
  let ?T = "sample_sys (once [list_files, read_notes, unknown_tool])"
  let ?m = "\<lparr>r_content = None, r_tool_calls = [list_files, read_notes, unknown_tool]\<rparr>"
  let ?s = "start AssistantPrompt04 ''task'' (0::nat)"
  let ?s1 = "\<lparr>messages = [System AssistantPrompt04, User ''task'', Assistant ?m,
                Tool ''call_2'' (Str (oshibka @ ''Command failed: ls''))],
              world = 1::nat, invoked = [(''run_bash'', ?B)]\<rparr>"
  let ?sm = "\<lparr>messages = [], world = (1::nat, False), invoked = []\<rparr>"
  have c1: "error_text (oshibka @ ''ENOENT: no such file or directory'')"
    by (rule failing_operation_becomes_error_text[THEN conjunct1])
  have r0: "readFileSync ?S (Some (JStr ''notes.txt'')) 1 = (Inl ?eR, 1)"
    by (simp add: sample_sys_def)
  have r1: "read_file ?S ?A 1 = (Inr (Str (oshibka @ ''ENOENT: no such file or directory'')), 1)"
    using failing_operation_becomes_error_text[of _ ?A ?S 1 ?eR 1] r0
    by (simp add: property_def)
  have x0: "execSync ?S (Some (JStr ''ls'')) 5000 1 = (Inl ?eX, 1)"
    by (simp add: sample_sys_def)
  have x1: "run_bash04 ?S ?B 1 = (Inr (Str (oshibka @ ''Command failed: ls'')), 1)"
    using failing_operation_becomes_error_text[of _ ?B ?S 1 ?eX 1] x0
    by (simp add: property_def)
  have y0: "execSync ?S (Some (JStr ''ls'')) 10000 1 = (Inl ?eX, 1)"
    by (simp add: sample_sys_def)
  have y1: "run_bash07 ?S ?B 1 = (Inr (Str (oshibka @ ''ls: not found'')), 1)"
    using failing_operation_becomes_error_text[of _ ?B ?S 1 ?eX 1] y0
    by (simp add: property_def stderr_or_message_def)
  have w0: "writeFileSync readonly_sys (Some (JStr ''notes.txt'')) (Some (JStr ''x'')) 1 =
      (Inl ?eW, 1)"
    by (simp add: readonly_sys_def)
  have w1: "write_file readonly_sys ?W 1 =
      (Inr (Str (oshibka @ ''EACCES: permission denied'')), 1)"
    using failing_operation_becomes_error_text[of _ ?W readonly_sys 1 ?eW 1] w0
    by (simp add: property_def)
  have o: "\<forall>x\<in>set [unknown_tool]. ordinary ?T x" by (simp add: sample_calls_ordinary)
  have o': "list_all (ordinary ?T) [unknown_tool]" using o by (simp add: list_all_iff)
  have cr: "create ?T (messages ?s) [''run_bash'', ''read_file''] (world ?s) = (Inr ?m, 1)"
    by (simp add: once_def start_def)
  have tcs: "r_tool_calls ?m = [list_files] @ read_notes # [unknown_tool]" by simp
  have pre: "run_tool_calls ?T (loop04 ?T) [list_files] (push (Assistant ?m) (?s\<lparr>world := 1\<rparr>)) =
      (None, ?s1)"
    by (simp add: start_def push_def list_files_def sample_parse_simps call_or_text_def
        call_handler_def apply_handler_def toolHandlers04_def run_bash04_def sample_list_files
        defaulted_def)
  have i0: "(0::nat) < 10" by simp
  have pa: "JSON_parse ?T (tc_arguments read_notes) = Some ?A"
    by (simp add: read_notes_def sample_parse_simps)
  have h: "toolHandlers04 ?T (tc_name read_notes) = Some (read_file ?T)"
    by (simp add: toolHandlers04_def read_notes_def)
  have hr: "read_file ?T ?A (world ?s1) =
      (Inr (Str (oshibka @ ''ENOENT: no such file or directory'')), 1)"
    by (simp add: read_file_def sample_sys_def)
  have "\<exists>s2 texts.
      tool_loop ?T (loop04 ?T) 0 ?s = tool_loop ?T (loop04 ?T) (Suc 0) s2 \<and>
      length texts = length [unknown_tool] \<and>
      messages s2 = messages ?s1 @
        Tool (tc_id read_notes) (Str (oshibka @ ''ENOENT: no such file or directory'')) #
        map2 Tool (map tc_id [unknown_tool]) (map Str texts)"
    using failing_operation_becomes_error_text[of "''ENOENT: no such file or directory''" ?A ?T
        1 _ 1 0 ?s ?m "[list_files]" read_notes "[unknown_tool]" ?s1 "read_file ?T",
        THEN conjunct2, THEN conjunct2, THEN conjunct2, THEN conjunct2, THEN conjunct2,
        THEN conjunct1]
      i0 cr tcs pre pa h hr o
    by blast
  then obtain s2 texts where
    t: "tool_loop ?T (loop04 ?T) 0 ?s = tool_loop ?T (loop04 ?T) (Suc 0) s2"
       "length texts = length [unknown_tool]"
       "messages s2 = messages ?s1 @
          Tool (tc_id read_notes) (Str (oshibka @ ''ENOENT: no such file or directory'')) #
          map2 Tool (map tc_id [unknown_tool]) (map Str texts)"
    by blast
  have t1: "agentLoop04 ?T ''task'' 0 = tool_loop ?T (loop04 ?T) 1 s2"
    using t(1) by (simp add: agentLoop04_def)
  have t2: "length texts = 1" using t(2) by simp
  have t3: "messages s2 =
        [System AssistantPrompt04, User ''task'', Assistant ?m,
         Tool ''call_2'' (Str (oshibka @ ''Command failed: ls'')),
         Tool ''call_1'' (Str (oshibka @ ''ENOENT: no such file or directory''))] @
        map2 Tool [''call_3''] (map Str texts)"
    using t(3) by (simp add: read_notes_def unknown_tool_def)
  have turn: "\<exists>s2 texts.
      agentLoop04 ?T ''task'' 0 = tool_loop ?T (loop04 ?T) 1 s2 \<and>
      length texts = 1 \<and>
      messages s2 =
        [System AssistantPrompt04, User ''task'', Assistant ?m,
         Tool ''call_2'' (Str (oshibka @ ''Command failed: ls'')),
         Tool ''call_1'' (Str (oshibka @ ''ENOENT: no such file or directory''))] @
        map2 Tool [''call_3''] (map Str texts)"
    by (intro exI[of _ s2] exI[of _ texts] conjI t1 t2 t3)
  have run: "fst (agentLoop04 ?T ''task'' 0) = Returned (Some ''done'')"
    by (simp add: agentLoop04_def start_def tool_loop.simps once_def finishing_def
        list_files_def read_notes_def unknown_tool_def sample_parse_simps push_def
        call_or_text_def call_handler_def apply_handler_def toolHandlers04_def run_bash04_def
        read_file_def sample_sys_def defaulted_def object_prototype_def)
  have m0: "execSync marker_sys (Some (JStr ''test -e m || { touch m; false; }'')) 10000
      (1, False) = (Inl ?eM, (1, True))"
    by (simp add: marker_sys_def)
  have m1: "run_bash07 marker_sys ?M (1, False) = (Inr (Str (oshibka @ ''Command failed'')), (1, True))"
    using failing_operation_becomes_error_text[of _ ?M marker_sys "(1, False)" ?eM "(1, True)"] m0
    by (simp add: property_def stderr_or_message_def)
  have m2: "run_bash07 marker_sys ?M (1, True) = (Inr (Str []), (1, True))"
    by (simp add: run_bash07_def marker_sys_def trim_Nil)
  have mp: "JSON_parse marker_sys (tc_arguments make_marker) = Some ?M"
    by (simp add: make_marker_def marker_sys_def sample_parse_simps)
  have mn: "tc_name make_marker \<noteq> ''think''" "tc_name make_marker \<noteq> ''request_replan''"
    "args_preview (tc_name make_marker) ?M = None"
    by (simp_all add: make_marker_def args_preview_def)
  have mh: "toolHandlers07 marker_sys (tc_name make_marker) = Some (run_bash07 marker_sys)"
    by (simp add: toolHandlers07_def make_marker_def)
  have "react_tool_calls marker_sys (make_marker # []) ?sm =
      react_tool_calls marker_sys []
        \<lparr>messages = messages ?sm @ [Tool (tc_id make_marker) (defaulted (Str []) ''OK'')],
         world = (1, True),
         invoked = invoked ?sm @ [(tc_name make_marker, ?M), (tc_name make_marker, ?M)]\<rparr>"
    using failing_operation_becomes_error_text[of "''Command failed''" ?M marker_sys _ _ _ _ ?sm
        _ _ make_marker _ _ "run_bash07 marker_sys" "(1, True)" "Str []" "(1, True)" "[]",
        THEN conjunct2, THEN conjunct2, THEN conjunct2, THEN conjunct2, THEN conjunct2,
        THEN conjunct2]
      mp mn mh m1 m2
    by simp
  then have twice: "react_tool_calls marker_sys [make_marker] ?sm =
     (Inr None,
      \<lparr>messages = [Tool ''call_m'' (Str [])], world = (1, True),
       invoked = [(''run_bash'', ?M), (''run_bash'', ?M)]\<rparr>)"
    by (simp add: make_marker_def defaulted_def)
  show ?thesis by (intro conjI c1 r0 r1 x0 x1 y0 y1 w0 w1 o' turn run m1 m2 twice)
qed

text \<open>The whole run of \<^verbatim>\<open>executeWithReact\<close> in \<open>marker_sys\<close>: the command failed, and the
  transcript shows a result without any error.\<close>

lemma executeWithReact_marker_run:
  "executeWithReact marker_sys ''task'' (JObj []) (0, False) =
     (Inr completed, 2,
      \<lparr>messages = [System (ExecutorPrompt07 (JObj [])), User ''task'',
         Assistant \<lparr>r_content = None, r_tool_calls = [make_marker]\<rparr>,
         Tool ''call_m'' (Str []),
         Assistant \<lparr>r_content = Some ''done'', r_tool_calls = []\<rparr>],
       world = (2, True),
       invoked = [(''run_bash'', JObj [(''command'', JStr ''test -e m || { touch m; false; }'')]),
                  (''run_bash'', JObj [(''command'', JStr ''test -e m || { touch m; false; }'')])]\<rparr>)"
  by (simp add: executeWithReact_def start_def executeWithReact_loop.simps once_def finishing_def
      make_marker_def sample_parse_simps react_branch_def push_def args_preview_def
      call_or_text_def call_handler_def apply_handler_def toolHandlers07_def run_bash07_def
      marker_sys_def stderr_or_message_def defaulted_def trim_Nil)

section \<open>The replan ceiling of \<^verbatim>\<open>adaptiveAgent\<close>\<close>

lemma replans_append [simp]: "replans (es @ es') = replans es @ replans es'"
proof (induction es)
  case Nil
  then show ?case by simp
next
  case (Cons e es)
  then show ?case by (cases e) simp_all
qed

lemma executions_append [simp]: "executions (es @ es') = executions es @ executions es'"
proof (induction es)
  case Nil
  then show ?case by simp
next
  case (Cons e es)
  then show ?case by (cases e) simp_all
qed

lemma revisions_Planned [simp]:
  "revisions (Planned c p # es) = (case c of None \<Rightarrow> [] | Some context \<Rightarrow> [(context, p)]) @ revisions es"
  by (cases c) simp_all

lemma revisions_append [simp]: "revisions (es @ es') = revisions es @ revisions es'"
proof (induction es)
  case Nil
  then show ?case by simp
next
  case (Cons e es)
  then show ?case by (cases e) simp_all
qed

lemma adaptiveAgent_loop_aborts:
  assumes "always_revises sys task" "k \<le> M"
  shows "\<exists>console' w' rs. adaptiveAgent_loop sys M task plan k console w =
             (Aborted, Suc M, console', w') \<and>
           replans console' = replans console @ [Suc k..<Suc M] \<and>
           executions console' = executions console @ [Suc k..<Suc (Suc M)] \<and>
           revisions console' = revisions console @ rs \<and> length rs = M - k \<and>
           chained plan rs \<and> last console' = ReplanLimit"
  using assms(2)
proof (induction "M - k" arbitrary: k plan console w)
  case 0
  then have k: "k = M" by simp
  from assms(1) obtain ctx n s where
    ex: "executeWithReact sys task plan w = (Inr (replan_requested ctx), n, s)"
    unfolding always_revises_def by blast
  have "adaptiveAgent_loop sys M task plan k console w =
          (Aborted, Suc M, console @ [Execution (M + 1), ReplanLimit], world s)"
    using k ex by (simp add: adaptiveAgent_loop.simps)
  moreover have "revisions (console @ [Execution (M + 1), ReplanLimit]) = revisions console @ []"
    by simp
  moreover have "length ([] :: ((json \<times> json option \<times> json option) \<times> json) list) = M - k"
    using k by simp
  moreover have "chained plan []" by simp
  moreover have "replans (console @ [Execution (M + 1), ReplanLimit]) =
      replans console @ [Suc k..<Suc M]" using k by simp
  moreover have "executions (console @ [Execution (M + 1), ReplanLimit]) =
      executions console @ [Suc k..<Suc (Suc M)]" using k by simp
  moreover have "last (console @ [Execution (M + 1), ReplanLimit]) = ReplanLimit" by simp
  ultimately show ?case by blast
next
  case (Suc d)
  then have lt: "k < M" by simp
  from assms(1) obtain ctx n s plan' w1 where
    ex: "executeWithReact sys task plan w = (Inr (replan_requested ctx), n, s)"
    and cp: "createPlan sys task (Some (plan, completedSteps ctx, discoveries ctx)) (world s)
               = (Inr plan', w1)"
    and pp: "printPlan plan' = None"
    unfolding always_revises_def by blast
  let ?c = "console @ [Execution (k + 1), Replan (Suc k),
              Planned (Some (plan, completedSteps ctx, discoveries ctx)) plan', PlanShown plan']"
  have d: "d = M - Suc k" using Suc.hyps(2) by simp
  have le: "Suc k \<le> M" using lt by simp
  from Suc.hyps(1)[OF d le, of plan' ?c w1] obtain console' w' rs where
    r: "adaptiveAgent_loop sys M task plan' (Suc k) ?c w1 = (Aborted, Suc M, console', w')"
       "replans console' = replans ?c @ [Suc (Suc k)..<Suc M]"
       "executions console' = executions ?c @ [Suc (Suc k)..<Suc (Suc M)]"
       "revisions console' = revisions ?c @ rs" "length rs = M - Suc k"
       "chained plan' rs" "last console' = ReplanLimit" by blast
  let ?rs = "((plan, completedSteps ctx, discoveries ctx), plan') # rs"
  have "adaptiveAgent_loop sys M task plan k console w = (Aborted, Suc M, console', w')"
    using lt ex cp pp r(1) by (simp add: adaptiveAgent_loop.simps)
  moreover have "replans console' = replans console @ [Suc k..<Suc M]"
    using r(2) lt by (simp add: upt_conv_Cons)
  moreover have "executions console' = executions console @ [Suc k..<Suc (Suc M)]"
    using r(3) lt by (simp add: upt_conv_Cons)
  moreover have "revisions console' = revisions console @ ?rs" using r(4) by simp
  moreover have "length ?rs = M - k" using r(5) lt by simp
  moreover have "chained plan ?rs" using r(6) by simp
  ultimately show ?case using r(7) by blast
qed

section \<open>Facts about the sample services\<close>







lemma revising_execution:
  "executeWithReact (sample_sys revising) task plan w =
     (Inr (replan_requested
        \<lparr>reason = Some (JStr ''r''), completedSteps = Some (JArr []), discoveries = Some (JArr [])\<rparr>),
      1,
      \<lparr>messages = [System (ExecutorPrompt07 plan), User task,
         Assistant \<lparr>r_content = None, r_tool_calls = [revision_request]\<rparr>,
         Tool ''call_r'' (Str ''REPLAN_REQUESTED'')], world = Suc w, invoked = []\<rparr>)"
  by (simp add: executeWithReact_def start_def executeWithReact_loop.simps revising_def
      executionTools_def revision_request_def sample_parse_simps react_branch_def push_def
      printed_def template_def property_def)

lemma revising_once_execution:
  "executeWithReact (sample_sys revising_once) task plan w =
     (Inr (replan_requested
        \<lparr>reason = Some (JStr ''r''), completedSteps = Some (JArr []), discoveries = Some (JArr [])\<rparr>),
      1,
      \<lparr>messages = [System (ExecutorPrompt07 plan), User task,
         Assistant \<lparr>r_content = None, r_tool_calls = [revision_request]\<rparr>,
         Tool ''call_r'' (Str ''REPLAN_REQUESTED'')], world = Suc w, invoked = []\<rparr>)"
  by (simp add: executeWithReact_def start_def executeWithReact_loop.simps revising_once_def
      executionTools_def revision_request_def sample_parse_simps react_branch_def push_def
      printed_def template_def property_def)

lemma revising_createPlan:
  "createPlan (sample_sys revising) task None w =
     (Inr (JObj [(''goal'', JStr ''g''), (''steps'', JArr [])]), Suc w)"
  by (simp add: createPlan_def planner_prompt_def revising_def cleanJson_fenced_plan
      sample_parse_simps)

lemma revising_always_revises: "always_revises (sample_sys revising) task"
  unfolding always_revises_def
proof (intro allI)
  fix plan :: json and w :: nat
  let ?ctx = "\<lparr>reason = Some (JStr ''r''), completedSteps = Some (JArr []),
               discoveries = Some (JArr [])\<rparr>"
  let ?s = "\<lparr>messages = [System (ExecutorPrompt07 plan), User task,
               Assistant \<lparr>r_content = None, r_tool_calls = [revision_request]\<rparr>,
               Tool ''call_r'' (Str ''REPLAN_REQUESTED'')], world = Suc w, invoked = []\<rparr>"
  have ex: "executeWithReact (sample_sys revising) task plan w = (Inr (replan_requested ?ctx), 1, ?s)"
    by (rule revising_execution)
  have cp: "createPlan (sample_sys revising) task
              (Some (plan, completedSteps ?ctx, discoveries ?ctx)) (world ?s)
              = (Inr (JObj [(''goal'', JStr ''g''), (''steps'', JArr [])]), Suc (Suc w))"
    by (simp add: createPlan_def planner_prompt_def revising_def cleanJson_fenced_plan
        sample_parse_simps array_join_def split: sum.splits)
  show "\<exists>ctx n s. executeWithReact (sample_sys revising) task plan w =
          (Inr (replan_requested ctx), n, s) \<and>
        (\<exists>plan' w'. createPlan (sample_sys revising) task
                       (Some (plan, completedSteps ctx, discoveries ctx)) (world s)
                       = (Inr plan', w') \<and> printPlan plan' = None)"
    using ex cp sample_plan_printed by blast
qed

section \<open>Parsing the plan (C5)\<close>

lemma remove_all_skip:
  assumes "marker \<noteq> []" "hd marker \<notin> set body"
  shows "remove_all marker (body @ rest) = body @ remove_all marker rest"
  using assms(2)
proof (induction body)
  case Nil
  then show ?case by simp
next
  case (Cons c cs)
  have "take (length marker) (c # cs @ rest) \<noteq> marker"
  proof
    assume "take (length marker) (c # cs @ rest) = marker"
    then have "hd marker = c" using assms(1) by (cases marker) auto
    with Cons.prems show False by simp
  qed
  with Cons show ?case by simp
qed

lemma cleanJson_json_fence:
  assumes "CHR ''`'' \<notin> set body"
  shows "cleanJson (''```json'' @ [CHR 0x0A] @ body @ [CHR 0x0A] @ ''```'') = trim (body @ [CHR 0x0A])"
proof -
  have 1: "remove_all ''```json'' (''```json'' @ [CHR 0x0A] @ body @ [CHR 0x0A] @ ''```'') =
           remove_all ''```json'' (body @ [CHR 0x0A] @ ''```'')"
    by simp
  have 2: "remove_all ''```json'' (body @ [CHR 0x0A] @ ''```'') = body @ [CHR 0x0A] @ ''```''"
    using assms by (subst remove_all_skip) simp_all
  have 3: "remove_all ''```'' (body @ [CHR 0x0A] @ ''```'') = body @ [CHR 0x0A]"
    using assms by (subst remove_all_skip) simp_all
  show ?thesis unfolding cleanJson_def 1 2 3 ..
qed

lemma cleanJson_plain_fence:
  assumes "CHR ''`'' \<notin> set body"
  shows "cleanJson (''```'' @ [CHR 0x0A] @ body @ [CHR 0x0A] @ ''```'') = trim (body @ [CHR 0x0A])"
proof -
  have 0: "remove_all ''```json'' (body @ [CHR 0x0A] @ ''```'') = body @ [CHR 0x0A] @ ''```''"
    using assms by (subst remove_all_skip) simp_all
  have 1: "remove_all ''```json'' (''```'' @ [CHR 0x0A] @ body @ [CHR 0x0A] @ ''```'') =
           ''```'' @ [CHR 0x0A] @ body @ [CHR 0x0A] @ ''```''"
    using 0 by simp
  have 3: "remove_all ''```'' (body @ [CHR 0x0A] @ ''```'') = body @ [CHR 0x0A]"
    using assms by (subst remove_all_skip) simp_all
  have 2: "remove_all ''```'' (''```'' @ [CHR 0x0A] @ body @ [CHR 0x0A] @ ''```'') = body @ [CHR 0x0A]"
    using 3 by simp
  show ?thesis unfolding cleanJson_def 1 2 ..
qed

lemma cleanJson_done: "cleanJson ''done'' = ''done''"
  by (simp add: cleanJson_def trim_def strip_front.simps js_whitespace_def)

text \<open>
  Claim C5, as amended. Before parsing, \<^verbatim>\<open>createPlan\<close> and \<^verbatim>\<open>planThenExecute\<close> remove
  the code-fence markers from the text of the service and trim it: a text without
  backquotes between an opening fence (with or without the word \<^verbatim>\<open>json\<close>) and a
  closing fence is parsed as that text. When the cleaned text is not valid JSON,
  \<^verbatim>\<open>createPlan\<close> throws the syntax error of the parser to its caller, so that
  \<^verbatim>\<open>adaptiveAgent\<close> ends before any execution, and \<^verbatim>\<open>planThenExecute\<close> reports the
  failure and returns without making a further request. Whatever value the
  cleaned text parses to is returned as the plan: the shape of the value is not
  checked.
\<close>

theorem plan_text_cleaned_and_parsed:
  "(CHR ''`'' \<notin> set body \<longrightarrow>
      cleanJson (''```json'' @ [CHR 0x0A] @ body @ [CHR 0x0A] @ ''```'') = trim (body @ [CHR 0x0A]) \<and>
      cleanJson (''```'' @ [CHR 0x0A] @ body @ [CHR 0x0A] @ ''```'') = trim (body @ [CHR 0x0A])) \<and>
   (create sys [System (PlannerPrompt07 None), User task] [] w = (Inr r, w1) \<and>
    JSON_parse sys (cleanJson (content_text r)) = None \<longrightarrow>
      createPlan sys task None w = (Inl SyntaxError, w1) \<and>
      adaptiveAgent sys task w = (Crashed SyntaxError, 0, [], w1)) \<and>
   (create sys [System PlanningPrompt06, User task] [] w = (Inr r, w1) \<and>
    JSON_parse sys (cleanJson (content_text r)) = None \<longrightarrow>
      planThenExecute sys task w = PlanParseFailed w1) \<and>
   (create sys [System (PlannerPrompt07 None), User task] [] w = (Inr r, w1) \<and>
    JSON_parse sys (cleanJson (content_text r)) = Some plan \<longrightarrow>
      createPlan sys task None w = (Inr plan, w1))"
proof (intro conjI impI)
  assume "CHR ''`'' \<notin> set body"
  then show "cleanJson (''```json'' @ [CHR 0x0A] @ body @ [CHR 0x0A] @ ''```'') = trim (body @ [CHR 0x0A])"
    and "cleanJson (''```'' @ [CHR 0x0A] @ body @ [CHR 0x0A] @ ''```'') = trim (body @ [CHR 0x0A])"
    by (rule cleanJson_json_fence, rule cleanJson_plain_fence)
next
  assume a: "create sys [System (PlannerPrompt07 None), User task] [] w = (Inr r, w1) \<and>
    JSON_parse sys (cleanJson (content_text r)) = None"
  then show c: "createPlan sys task None w = (Inl SyntaxError, w1)"
    by (simp add: createPlan_def planner_prompt_def content_text_def)
  then show "adaptiveAgent sys task w = (Crashed SyntaxError, 0, [], w1)"
    by (simp add: adaptiveAgent_def adaptiveAgent_with_def)
next
  assume "create sys [System PlanningPrompt06, User task] [] w = (Inr r, w1) \<and>
    JSON_parse sys (cleanJson (content_text r)) = None"
  then show "planThenExecute sys task w = PlanParseFailed w1"
    by (simp add: planThenExecute_def content_text_def)
next
  assume "create sys [System (PlannerPrompt07 None), User task] [] w = (Inr r, w1) \<and>
    JSON_parse sys (cleanJson (content_text r)) = Some plan"
  then show "createPlan sys task None w = (Inr plan, w1)"
    by (simp add: createPlan_def planner_prompt_def content_text_def)
qed

text \<open>The fenced plan of the sample planner is cleaned and parsed; the answer
  \<^verbatim>\<open>done\<close> is no JSON and stops both agents before any execution.\<close>

theorem plan_text_cleaned_and_parsed_witness:
  \<open>CHR ''`'' \<notin> set ''{"goal":"g","steps":[]}'' \<and>
   cleanJson fenced_plan = trim (''{"goal":"g","steps":[]}'' @ [CHR 0x0A]) \<and>
   create (sample_sys finishing) [System (PlannerPrompt07 None), User ''task''] [] 0 =
     (Inr \<lparr>r_content = Some ''done'', r_tool_calls = []\<rparr>, 1) \<and>
   JSON_parse (sample_sys finishing) (cleanJson ''done'') = None \<and>
   createPlan (sample_sys finishing) ''task'' None 0 = (Inl SyntaxError, 1) \<and>
   adaptiveAgent (sample_sys finishing) ''task'' 0 = (Crashed SyntaxError, 0, [], 1) \<and>
   planThenExecute (sample_sys finishing) ''task'' 0 = PlanParseFailed 1 \<and>
   createPlan (sample_sys revising) ''task'' None 0 =
     (Inr (JObj [(''goal'', JStr ''g''), (''steps'', JArr [])]), 1)\<close>
proof -
  let ?F = "sample_sys finishing"
  let ?R = "sample_sys revising"
  let ?r = "\<lparr>r_content = Some ''done'', r_tool_calls = []\<rparr>"
  let ?q = "\<lparr>r_content = Some fenced_plan, r_tool_calls = []\<rparr>"
  have b: \<open>CHR ''`'' \<notin> set ''{"goal":"g","steps":[]}''\<close> by simp
  note t = plan_text_cleaned_and_parsed[of \<open>''{"goal":"g","steps":[]}''\<close> ?F "''task''" 0 ?r 1]
  have f: \<open>cleanJson fenced_plan = trim (''{"goal":"g","steps":[]}'' @ [CHR 0x0A])\<close>
    using t b unfolding fenced_plan_def by blast
  have c7: "create ?F [System (PlannerPrompt07 None), User ''task''] [] 0 = (Inr ?r, 1)"
    by (simp add: finishing_def)
  have c6: "create ?F [System PlanningPrompt06, User ''task''] [] 0 = (Inr ?r, 1)"
    by (simp add: finishing_def)
  have n: "JSON_parse ?F (cleanJson ''done'') = None"
    by (simp add: cleanJson_done sample_parse_def)
  then have n': "JSON_parse ?F (cleanJson (content_text ?r)) = None"
    by (simp add: content_text_def)
  have p: "createPlan ?F ''task'' None 0 = (Inl SyntaxError, 1)"
    and a: "adaptiveAgent ?F ''task'' 0 = (Crashed SyntaxError, 0, [], 1)"
    using t c7 n' by blast+
  have e: "planThenExecute ?F ''task'' 0 = PlanParseFailed 1"
    using t c6 n' by blast
  have cr: "create ?R [System (PlannerPrompt07 None), User ''task''] [] 0 = (Inr ?q, 1)"
    by (simp add: revising_def)
  have pr: "JSON_parse ?R (cleanJson (content_text ?q)) =
      Some (JObj [(''goal'', JStr ''g''), (''steps'', JArr [])])"
    by (simp add: content_text_def cleanJson_fenced_plan sample_parse_simps)
  have g: "createPlan ?R ''task'' None 0 =
      (Inr (JObj [(''goal'', JStr ''g''), (''steps'', JArr [])]), 1)"
    using plan_text_cleaned_and_parsed[of "[]" ?R "''task''" 0 ?q 1
        "JObj [(''goal'', JStr ''g''), (''steps'', JArr [])]"] cr pr by blast
  show ?thesis by (intro conjI b f c7 n p a e g)
qed

text \<open>
  Claim C5 as stated fails: the plan of the sample planner has no steps, so it does
  not have the Plan shape, yet \<^verbatim>\<open>createPlan\<close> returns it and \<^verbatim>\<open>adaptiveAgent\<close> executes
  it (four executions, until the replan limit).
\<close>

theorem plan_shape_unchecked_counterexample:
  "createPlan (sample_sys revising) ''task'' None 0 =
     (Inr (JObj [(''goal'', JStr ''g''), (''steps'', JArr [])]), 1) \<and>
   \<not> spec_plan_shape (JObj [(''goal'', JStr ''g''), (''steps'', JArr [])]) \<and>
   executions (fst (snd (snd (adaptiveAgent (sample_sys revising) ''task'' 0)))) = [1, 2, 3, 4]"
proof -
  let ?S = "sample_sys revising"
  let ?plan = "JObj [(''goal'', JStr ''g''), (''steps'', JArr [])]"
  have c: "createPlan ?S ''task'' None 0 = (Inr ?plan, 1)"
    by (simp add: createPlan_def planner_prompt_def revising_def cleanJson_fenced_plan
        sample_parse_simps)
  have p: "printPlan ?plan = None" by (rule sample_plan_printed)
  have s: "\<not> spec_plan_shape ?plan" by (simp add: spec_plan_shape_def)
  let ?c = "[Planned None ?plan, PlanShown ?plan]"
  from adaptiveAgent_loop_aborts[OF revising_always_revises, of 0 3 "''task''" ?plan ?c 1]
  obtain console w' where
    r: "adaptiveAgent_loop ?S 3 ''task'' ?plan 0 ?c 1 = (Aborted, Suc 3, console, w')"
       "executions console = executions ?c @ [Suc 0..<Suc (Suc 3)]" by auto
  have "adaptiveAgent ?S ''task'' 0 = (Aborted, Suc 3, console, w')"
    using c p r(1) by (simp add: adaptiveAgent_def adaptiveAgent_with_def)
  moreover have "executions console = [1, 2, 3, 4]" using r(2) by (simp add: upt_rec)
  ultimately have e: "executions (fst (snd (snd (adaptiveAgent ?S ''task'' 0)))) = [1, 2, 3, 4]"
    by simp
  show ?thesis by (intro conjI c s e)
qed

section \<open>The dialogue of \<^verbatim>\<open>interactiveAgent\<close> (C10)\<close>

lemma user_turns_append [simp]: "user_turns (ms @ ms') = user_turns ms + user_turns ms'"
proof (induction ms)
  case Nil
  then show ?case by simp
next
  case (Cons m ms)
  then show ?case by (cases m) simp_all
qed

lemma interactive_text_step:
  assumes "i < 30" "create sys (messages s) tools08 (world s) = (Inr m, w)" "r_tool_calls m = []"
    "ask sys follow_question w = (follow, w2)"
  shows "follow = [] \<Longrightarrow> interactiveAgent_loop sys H i s =
           (Returned (r_content m), Suc i,
            \<lparr>messages = messages s @ [Assistant m], world = w2, invoked = invoked s\<rparr>)"
    and "follow \<noteq> [] \<Longrightarrow> interactiveAgent_loop sys H i s =
           interactiveAgent_loop sys H (Suc i)
             \<lparr>messages = messages s @ [Assistant m, User follow], world = w2, invoked = invoked s\<rparr>"
proof -
  assume "follow = []"
  with assms show "interactiveAgent_loop sys H i s =
           (Returned (r_content m), Suc i,
            \<lparr>messages = messages s @ [Assistant m], world = w2, invoked = invoked s\<rparr>)"
    by (subst interactiveAgent_loop.simps) (simp add: push_def)
next
  assume "follow \<noteq> []"
  with assms show "interactiveAgent_loop sys H i s =
           interactiveAgent_loop sys H (Suc i)
             \<lparr>messages = messages s @ [Assistant m, User follow], world = w2, invoked = invoked s\<rparr>"
    by (subst interactiveAgent_loop.simps, cases s) (simp add: push_def)
qed

lemma interactive_bounded:
  assumes "interactiveAgent_loop sys H i s = (out, n, s')" "i \<le> 30"
  shows "n \<le> 30"
  using assms
proof (induction "30 - i" arbitrary: i s)
  case 0
  then have "i = 30" by simp
  with "0.prems" show ?case by (simp add: interactiveAgent_loop.simps)
next
  case (Suc k)
  then have lt: "i < 30" by simp
  have k: "k = 30 - Suc i" using Suc.hyps(2) by simp
  have le: "Suc i \<le> 30" using lt by simp
  obtain res w where cr: "create sys (messages s) tools08 (world s) = (res, w)"
    by (cases "create sys (messages s) tools08 (world s)")
  show ?case
  proof (cases res)
    case (Inl e)
    with lt cr Suc.prems(1) show ?thesis by (auto simp: interactiveAgent_loop.simps)
  next
    case (Inr m)
    show ?thesis
    proof (cases "r_tool_calls m = []")
      case True
      obtain follow w2 where a: "ask sys follow_question w = (follow, w2)"
        by (cases "ask sys follow_question w")
      show ?thesis
      proof (cases "follow = []")
        case True
        with lt cr Inr \<open>r_tool_calls m = []\<close> a Suc.prems(1) show ?thesis
          by (auto simp: interactiveAgent_loop.simps)
      next
        case False
        have "interactiveAgent_loop sys H (Suc i)
                (push (User follow) (push (Assistant m) (s\<lparr>world := w2\<rparr>))) = (out, n, s')"
          using lt cr Inr True a False Suc.prems(1) by (simp add: interactiveAgent_loop.simps)
        from Suc.hyps(1)[OF k this le] show ?thesis .
      qed
    next
      case False
      obtain r s2 where rt: "run_tool_calls sys (loop08 H) (r_tool_calls m)
          (push (Assistant m) (s\<lparr>world := w\<rparr>)) = (r, s2)"
        by (cases "run_tool_calls sys (loop08 H) (r_tool_calls m)
          (push (Assistant m) (s\<lparr>world := w\<rparr>))")
      show ?thesis
      proof (cases r)
        case (Some e)
        with lt cr Inr False rt Suc.prems(1) show ?thesis
          by (auto simp: interactiveAgent_loop.simps)
      next
        case None
        have "interactiveAgent_loop sys H (Suc i) s2 = (out, n, s')"
          using lt cr Inr False rt None Suc.prems(1) by (simp add: interactiveAgent_loop.simps)
        from Suc.hyps(1)[OF k this le] show ?thesis .
      qed
    qed
  qed
qed

lemma interactive_never_returns:
  assumes "never_empty sys" "interactiveAgent_loop sys H i s = (out, n, s')"
  shows "out \<noteq> Returned c"
  using assms(2)
proof (induction "30 - i" arbitrary: i s)
  case 0
  then have "\<not> i < 30" by simp
  with "0.prems" show ?case by (simp add: interactiveAgent_loop.simps)
next
  case (Suc k)
  then have lt: "i < 30" by simp
  have k: "k = 30 - Suc i" using Suc.hyps(2) by simp
  obtain res w where cr: "create sys (messages s) tools08 (world s) = (res, w)"
    by (cases "create sys (messages s) tools08 (world s)")
  show ?case
  proof (cases res)
    case (Inl e)
    with lt cr Suc.prems(1) show ?thesis by (auto simp: interactiveAgent_loop.simps)
  next
    case (Inr m)
    show ?thesis
    proof (cases "r_tool_calls m = []")
      case True
      obtain follow w2 where a: "ask sys follow_question w = (follow, w2)"
        by (cases "ask sys follow_question w")
      with assms(1) have ne: "follow \<noteq> []" unfolding never_empty_def by (metis fst_conv)
      have "interactiveAgent_loop sys H (Suc i)
              (push (User follow) (push (Assistant m) (s\<lparr>world := w2\<rparr>))) = (out, n, s')"
        using lt cr Inr True a ne Suc.prems(1) by (simp add: interactiveAgent_loop.simps)
      from Suc.hyps(1)[OF k this] show ?thesis .
    next
      case False
      obtain r s2 where rt: "run_tool_calls sys (loop08 H) (r_tool_calls m)
          (push (Assistant m) (s\<lparr>world := w\<rparr>)) = (r, s2)"
        by (cases "run_tool_calls sys (loop08 H) (r_tool_calls m)
          (push (Assistant m) (s\<lparr>world := w\<rparr>))")
      show ?thesis
      proof (cases r)
        case (Some e)
        with lt cr Inr False rt Suc.prems(1) show ?thesis
          by (auto simp: interactiveAgent_loop.simps)
      next
        case None
        have "interactiveAgent_loop sys H (Suc i) s2 = (out, n, s')"
          using lt cr Inr False rt None Suc.prems(1) by (simp add: interactiveAgent_loop.simps)
        from Suc.hyps(1)[OF k this] show ?thesis .
      qed
    qed
  qed
qed

lemma interactive_dialogue_limit:
  assumes "replies_in_text sys" "never_empty sys" "i \<le> 30"
  shows "\<exists>s'. interactiveAgent_loop sys H i s = (LimitReached, 30, s') \<and>
           assistant_turns (messages s') = assistant_turns (messages s) + (30 - i) \<and>
           user_turns (messages s') = user_turns (messages s) + (30 - i)"
  using assms(3)
proof (induction "30 - i" arbitrary: i s)
  case 0
  then have "i = 30" by simp
  then show ?case by (simp add: interactiveAgent_loop.simps)
next
  case (Suc k)
  then have lt: "i < 30" by simp
  have k: "k = 30 - Suc i" using Suc.hyps(2) by simp
  have le: "Suc i \<le> 30" using lt by simp
  from assms(1) obtain m w where cr: "create sys (messages s) tools08 (world s) = (Inr m, w)"
    and e: "r_tool_calls m = []" unfolding replies_in_text_def by blast
  obtain follow w2 where a: "ask sys follow_question w = (follow, w2)"
    by (cases "ask sys follow_question w")
  with assms(2) have ne: "follow \<noteq> []" unfolding never_empty_def by (metis fst_conv)
  let ?s1 = "\<lparr>messages = messages s @ [Assistant m, User follow], world = w2, invoked = invoked s\<rparr>"
  from Suc.hyps(1)[OF k le, of ?s1] obtain s' where
    r: "interactiveAgent_loop sys H (Suc i) ?s1 = (LimitReached, 30, s')"
       "assistant_turns (messages s') = assistant_turns (messages ?s1) + (30 - Suc i)"
       "user_turns (messages s') = user_turns (messages ?s1) + (30 - Suc i)" by blast
  have "interactiveAgent_loop sys H i s = (LimitReached, 30, s')"
    using interactive_text_step(2)[OF lt cr e a ne, of H] r(1) by simp
  moreover have "assistant_turns (messages s') = assistant_turns (messages s) + (30 - i)"
    using r(2) lt by simp
  moreover have "user_turns (messages s') = user_turns (messages s) + (30 - i)"
    using r(3) lt by simp
  ultimately show ?case by blast
qed

text \<open>
  Claim C10. In \<^verbatim>\<open>interactiveAgent\<close> an assistant turn without requests makes the loop
  ask the user. The follow-up is the answer as \<^verbatim>\<open>ask\<close> returns it, that is trimmed.
  When it is empty the run ends; when it is not, it is appended as a user turn
  after the assistant turn and the loop goes on with the iteration count increased
  by one. So with a user whose follow-up is never empty the run never ends by that
  return; the count never exceeds 30; and with a service that only replies in text
  the run ends at the ceiling after 30 assistant turns and 30 follow-ups (31 user
  turns with the task).
\<close>

theorem follow_up_continues_dialogue:
  "(i < 30 \<and> create sys (messages s) tools08 (world s) = (Inr m, w) \<and> r_tool_calls m = [] \<and>
    ask sys follow_question w = (follow, w2) \<and> follow = [] \<longrightarrow>
      interactiveAgent_loop sys H i s =
        (Returned (r_content m), Suc i,
         \<lparr>messages = messages s @ [Assistant m], world = w2, invoked = invoked s\<rparr>)) \<and>
   (i < 30 \<and> create sys (messages s) tools08 (world s) = (Inr m, w) \<and> r_tool_calls m = [] \<and>
    ask sys follow_question w = (follow, w2) \<and> follow \<noteq> [] \<longrightarrow>
      interactiveAgent_loop sys H i s =
        interactiveAgent_loop sys H (Suc i)
          \<lparr>messages = messages s @ [Assistant m, User follow], world = w2,
           invoked = invoked s\<rparr>) \<and>
   (never_empty sys \<and> interactiveAgent_loop sys H i s = (out, n, s') \<longrightarrow> out \<noteq> Returned c) \<and>
   (interactiveAgent_loop sys H i s = (out, n, s') \<and> i \<le> 30 \<longrightarrow> n \<le> 30) \<and>
   (replies_in_text sys \<and> never_empty sys \<longrightarrow>
      (\<exists>s'. interactiveAgent sys H task systemPrompt w0 = (LimitReached, 30, s') \<and>
         assistant_turns (messages s') = 30 \<and> user_turns (messages s') = 31))"
proof (intro conjI impI)
  assume "i < 30 \<and> create sys (messages s) tools08 (world s) = (Inr m, w) \<and> r_tool_calls m = [] \<and>
    ask sys follow_question w = (follow, w2) \<and> follow = []"
  then show "interactiveAgent_loop sys H i s =
        (Returned (r_content m), Suc i,
         \<lparr>messages = messages s @ [Assistant m], world = w2, invoked = invoked s\<rparr>)"
    using interactive_text_step(1)[of i sys s m w follow w2 H] by blast
next
  assume "i < 30 \<and> create sys (messages s) tools08 (world s) = (Inr m, w) \<and> r_tool_calls m = [] \<and>
    ask sys follow_question w = (follow, w2) \<and> follow \<noteq> []"
  then show "interactiveAgent_loop sys H i s =
        interactiveAgent_loop sys H (Suc i)
          \<lparr>messages = messages s @ [Assistant m, User follow], world = w2,
           invoked = invoked s\<rparr>"
    using interactive_text_step(2)[of i sys s m w follow w2 H] by blast
next
  assume "never_empty sys \<and> interactiveAgent_loop sys H i s = (out, n, s')"
  then show "out \<noteq> Returned c" using interactive_never_returns by blast
next
  assume "interactiveAgent_loop sys H i s = (out, n, s') \<and> i \<le> 30"
  then show "n \<le> 30" using interactive_bounded by blast
next
  assume a: "replies_in_text sys \<and> never_empty sys"
  let ?s0 = "start (case systemPrompt of None \<Rightarrow> WizardPrompt08
               | Some p \<Rightarrow> if p = [] then WizardPrompt08 else CustomPrompt p) task w0"
  from a interactive_dialogue_limit[of sys 0 H ?s0] obtain s' where
    r: "interactiveAgent_loop sys H 0 ?s0 = (LimitReached, 30, s')"
       "assistant_turns (messages s') = assistant_turns (messages ?s0) + (30 - 0)"
       "user_turns (messages s') = user_turns (messages ?s0) + (30 - 0)" by auto
  have "interactiveAgent sys H task systemPrompt w0 = (LimitReached, 30, s')"
    using r(1) by (simp add: interactiveAgent_def)
  moreover have "assistant_turns (messages s') = 30" using r(2) by (simp add: start_def)
  moreover have "user_turns (messages s') = 31" using r(3) by (simp add: start_def)
  ultimately show "\<exists>s'. interactiveAgent sys H task systemPrompt w0 = (LimitReached, 30, s') \<and>
         assistant_turns (messages s') = 30 \<and> user_turns (messages s') = 31"
    by blast
qed

text \<open>The user of \<open>chatty_sys\<close> always answers, so the run reaches the ceiling; the
  user of \<open>sample_sys\<close> only presses Enter, so the run ends after the first reply.\<close>

theorem follow_up_continues_dialogue_witness:
  "never_empty chatty_sys \<and> replies_in_text chatty_sys \<and>
   ask chatty_sys follow_question 1 = (''more'', 1) \<and>
   (\<exists>s'. interactiveAgent chatty_sys Map.empty ''task'' None 0 = (LimitReached, 30, s') \<and>
      assistant_turns (messages s') = 30 \<and> user_turns (messages s') = 31) \<and>
   ask (sample_sys finishing) follow_question 1 = ([], 1) \<and>
   interactiveAgent (sample_sys finishing) Map.empty ''task'' None 0 =
     (Returned (Some ''done''), 1,
      \<lparr>messages = [System WizardPrompt08, User ''task'',
         Assistant \<lparr>r_content = Some ''done'', r_tool_calls = []\<rparr>],
       world = 1, invoked = []\<rparr>)"
proof -
  let ?F = "sample_sys finishing"
  let ?m = "\<lparr>r_content = Some ''done'', r_tool_calls = []\<rparr>"
  let ?s = "start WizardPrompt08 ''task'' (0::nat)"
  have tr: "trim '' more '' = ''more''"
    by (simp add: trim_def strip_front.simps js_whitespace_def)
  have ask_c: "ask chatty_sys q w = (''more'', w)" for q w
    by (simp add: ask_def chatty_sys_def tr)
  have n: "never_empty chatty_sys" unfolding never_empty_def by (simp add: ask_c)
  have r: "replies_in_text chatty_sys" unfolding replies_in_text_def
    by (simp add: chatty_sys_def sample_sys_def finishing_def)
  have a1: "ask chatty_sys follow_question 1 = (''more'', 1)" by (rule ask_c)
  have d: "\<exists>s'. interactiveAgent chatty_sys Map.empty ''task'' None 0 = (LimitReached, 30, s') \<and>
      assistant_turns (messages s') = 30 \<and> user_turns (messages s') = 31"
    using follow_up_continues_dialogue[of 0 chatty_sys ?s ?m 1 "[]" 1 Map.empty _ _ _ _ "''task''"
        None 0, THEN conjunct2, THEN conjunct2, THEN conjunct2, THEN conjunct2, THEN mp]
      conjI[OF r n]
    by blast
  have a2: "ask ?F follow_question 1 = ([], 1)"
    by (simp add: ask_def sample_sys_def trim_Nil)
  have c: "create ?F (messages ?s) tools08 (world ?s) = (Inr ?m, 1)"
    by (simp add: finishing_def start_def)
  have lt: "(0::nat) < 30" by simp
  have em: "r_tool_calls ?m = []" by simp
  have "interactiveAgent_loop ?F Map.empty 0 ?s =
      (Returned (r_content ?m), Suc 0,
       \<lparr>messages = messages ?s @ [Assistant ?m], world = 1, invoked = invoked ?s\<rparr>)"
    by (rule follow_up_continues_dialogue[of 0 ?F ?s ?m 1 "[]" 1 Map.empty, THEN conjunct1,
          THEN mp]) (intro conjI lt c em a2 refl)
  then have e: "interactiveAgent ?F Map.empty ''task'' None 0 =
     (Returned (Some ''done''), 1,
      \<lparr>messages = [System WizardPrompt08, User ''task'', Assistant ?m],
       world = 1, invoked = []\<rparr>)"
    by (simp add: interactiveAgent_def start_def)
  show ?thesis by (intro conjI n r a1 d a2 e)
qed


section \<open>The iteration ceiling (C2)\<close>





text \<open>
  A service that always requests the name \<^verbatim>\<open>__proto__\<close> never finalizes either, but
  \<^verbatim>\<open>agentLoop\<close> of 03-agent-loop.ts does not reach its ceiling: the lookup finds the
  prototype object, which is no function, and the first iteration ends with a type
  error.
\<close>

lemma agentLoop03_inherited_name_run:
  "agentLoop03 (sample_sys (insisting [proto_request])) ''task'' 0 =
     (Threw TypeError, 1,
      \<lparr>messages = [System AssistantPrompt03, User ''task'',
         Assistant \<lparr>r_content = None, r_tool_calls = [proto_request]\<rparr>],
       world = 1, invoked = []\<rparr>)"
  by (simp add: agentLoop03_def start_def tool_loop.simps insisting_def proto_request_def
      sample_parse_simps push_def answer03_def call_taken_def toolHandlers03_def
      object_prototype_def detached_def)

section \<open>The replan ceiling (C3)\<close>

lemma revising_replan:
  "createPlan (sample_sys revising) task (Some (plan, Some (JArr []), Some (JArr []))) w =
     (Inr (JObj [(''goal'', JStr ''g''), (''steps'', JArr [])]), Suc w)"
  by (simp add: createPlan_def planner_prompt_def revising_def cleanJson_fenced_plan
      sample_parse_simps array_join_def split: sum.splits)

lemma revising_once_createPlan:
  "createPlan (sample_sys revising_once) task None w =
     (Inr (JObj [(''goal'', JStr ''g''), (''steps'', JArr [])]), Suc w)"
  by (simp add: createPlan_def planner_prompt_def revising_once_def cleanJson_fenced_plan
      sample_parse_simps)

lemma revising_once_replan:
  "createPlan (sample_sys revising_once) task
     (Some (JObj [(''goal'', JStr ''g''), (''steps'', JArr [])], Some (JArr []), Some (JArr []))) w =
     (Inl SyntaxError, Suc w)"
  by (simp add: createPlan_def planner_prompt_def revising_once_def cleanJson_done
      sample_parse_def array_join_def)

text \<open>
  Claim C3, as amended. Let every execution end in a revision request, let the
  planner answer every call of \<^verbatim>\<open>createPlan\<close> that follows such a request with a text
  that parses to a plan that can be printed, and let the first plan be made and
  printed. Then \<^verbatim>\<open>adaptiveAgent\<close> with replan maximum \<open>M\<close> runs \<open>M + 1\<close> executions and
  announces the replans 1 to \<open>M\<close>; it calls \<^verbatim>\<open>createPlan\<close> with a revision context
  exactly \<open>M\<close> times, each time with the plan that was current as the previous plan
  of the context; and then it stops at the replan limit: it prints the line for
  the limit and returns, without an exception and without asking for a further
  plan. It returns no value.
\<close>

theorem replan_ceiling:
  assumes "always_revises sys task" "createPlan sys task None w = (Inr plan, w1)"
    "printPlan plan = None"
  shows "\<exists>console w'. adaptiveAgent_with sys M task w = (Aborted, Suc M, console, w') \<and>
           replans console = [1..<Suc M] \<and> length (replans console) = M \<and>
           executions console = [1..<Suc (Suc M)] \<and>
           length (revisions console) = M \<and> chained plan (revisions console) \<and>
           last console = ReplanLimit"
proof -
  let ?c = "[Planned None plan, PlanShown plan]"
  from adaptiveAgent_loop_aborts[OF assms(1), of 0 M plan ?c w1]
  obtain console w' rs where
    r: "adaptiveAgent_loop sys M task plan 0 ?c w1 = (Aborted, Suc M, console, w')"
       "replans console = replans ?c @ [Suc 0..<Suc M]"
       "executions console = executions ?c @ [Suc 0..<Suc (Suc M)]"
       "revisions console = revisions ?c @ rs" "length rs = M - 0" "chained plan rs"
       "last console = ReplanLimit" by auto
  have "adaptiveAgent_with sys M task w = (Aborted, Suc M, console, w')"
    using assms(2,3) r(1) by (simp add: adaptiveAgent_with_def)
  moreover have "replans console = [1..<Suc M]" using r(2) by simp
  moreover have "length (replans console) = M" using r(2) by simp
  moreover have "executions console = [1..<Suc (Suc M)]" using r(3) by simp
  moreover have "length (revisions console) = M" using r(4,5) by simp
  moreover have "chained plan (revisions console)" using r(4,6) by simp
  ultimately show ?thesis using r(7) by blast
qed

text \<open>The sample service that always revises, with the maximum 3 of the source, and
  the whole run of \<^verbatim>\<open>adaptiveAgent\<close> with it.\<close>

theorem replan_ceiling_witness:
  "always_revises (sample_sys revising) ''task'' \<and>
   createPlan (sample_sys revising) ''task'' None 0 =
     (Inr (JObj [(''goal'', JStr ''g''), (''steps'', JArr [])]), 1) \<and>
   printPlan (JObj [(''goal'', JStr ''g''), (''steps'', JArr [])]) = None \<and>
   (\<exists>console w'. adaptiveAgent (sample_sys revising) ''task'' 0 = (Aborted, 4, console, w') \<and>
      replans console = [1, 2, 3] \<and> executions console = [1, 2, 3, 4] \<and>
      length (revisions console) = 3 \<and>
      chained (JObj [(''goal'', JStr ''g''), (''steps'', JArr [])]) (revisions console) \<and>
      last console = ReplanLimit) \<and>
   adaptiveAgent (sample_sys revising) ''task'' 0 =
     (Aborted, 4,
      [Planned None (JObj [(''goal'', JStr ''g''), (''steps'', JArr [])]),
       PlanShown (JObj [(''goal'', JStr ''g''), (''steps'', JArr [])]),
       Execution 1, Replan 1,
       Planned (Some (JObj [(''goal'', JStr ''g''), (''steps'', JArr [])],
                      Some (JArr []), Some (JArr [])))
         (JObj [(''goal'', JStr ''g''), (''steps'', JArr [])]),
       PlanShown (JObj [(''goal'', JStr ''g''), (''steps'', JArr [])]),
       Execution 2, Replan 2,
       Planned (Some (JObj [(''goal'', JStr ''g''), (''steps'', JArr [])],
                      Some (JArr []), Some (JArr [])))
         (JObj [(''goal'', JStr ''g''), (''steps'', JArr [])]),
       PlanShown (JObj [(''goal'', JStr ''g''), (''steps'', JArr [])]),
       Execution 3, Replan 3,
       Planned (Some (JObj [(''goal'', JStr ''g''), (''steps'', JArr [])],
                      Some (JArr []), Some (JArr [])))
         (JObj [(''goal'', JStr ''g''), (''steps'', JArr [])]),
       PlanShown (JObj [(''goal'', JStr ''g''), (''steps'', JArr [])]),
       Execution 4, ReplanLimit], 8)"
proof -
  let ?S = "sample_sys revising"
  let ?plan = "JObj [(''goal'', JStr ''g''), (''steps'', JArr [])]"
  note a = revising_always_revises[of "''task''"]
  have c: "createPlan ?S ''task'' None 0 = (Inr ?plan, 1)"
    using revising_createPlan[of "''task''" 0] by simp
  note p = sample_plan_printed
  from replan_ceiling[OF a c p, of 3] obtain console w' where
    r: "adaptiveAgent_with ?S 3 ''task'' 0 = (Aborted, Suc 3, console, w')"
       "replans console = [1..<Suc 3]" "executions console = [1..<Suc (Suc 3)]"
       "length (revisions console) = 3" "chained ?plan (revisions console)"
       "last console = ReplanLimit" by blast
  have r1: "adaptiveAgent ?S ''task'' 0 = (Aborted, 4, console, w')"
    using r(1) by (simp add: adaptiveAgent_def)
  have r2: "replans console = [1, 2, 3]" using r(2) by (simp add: upt_rec)
  have r3: "executions console = [1, 2, 3, 4]" using r(3) by (simp add: upt_rec)
  have e: "\<exists>console w'. adaptiveAgent ?S ''task'' 0 = (Aborted, 4, console, w') \<and>
      replans console = [1, 2, 3] \<and> executions console = [1, 2, 3, 4] \<and>
      length (revisions console) = 3 \<and> chained ?plan (revisions console) \<and>
      last console = ReplanLimit"
    by (intro exI[of _ console] exI[of _ w'] conjI r1 r2 r3 r(4) r(5) r(6))
  have run: "adaptiveAgent ?S ''task'' 0 =
     (Aborted, 4,
      [Planned None ?plan, PlanShown ?plan,
       Execution 1, Replan 1, Planned (Some (?plan, Some (JArr []), Some (JArr []))) ?plan,
       PlanShown ?plan,
       Execution 2, Replan 2, Planned (Some (?plan, Some (JArr []), Some (JArr []))) ?plan,
       PlanShown ?plan,
       Execution 3, Replan 3, Planned (Some (?plan, Some (JArr []), Some (JArr []))) ?plan,
       PlanShown ?plan,
       Execution 4, ReplanLimit], 8)"
    by (simp add: adaptiveAgent_def adaptiveAgent_with_def revising_createPlan p
        adaptiveAgent_loop.simps revising_execution revising_replan)
  show ?thesis by (intro conjI a c p e run)
qed

text \<open>
  Claim C3 as stated fails: with the service \<open>revising_once\<close> every execution ends in
  a revision request, but the planner answers the first call of \<^verbatim>\<open>createPlan\<close> with a
  context by a text that is no JSON. \<^verbatim>\<open>adaptiveAgent\<close> ends with the syntax error of the
  parser after one execution, although the maximum is 3: no revised plan was made
  and the replan limit was not reached.
\<close>

theorem replan_without_plan_counterexample:
  "(\<forall>plan w. \<exists>ctx n s. executeWithReact (sample_sys revising_once) ''task'' plan w =
      (Inr (replan_requested ctx), n, s)) \<and>
   adaptiveAgent (sample_sys revising_once) ''task'' 0 =
     (Crashed SyntaxError, 1,
      [Planned None (JObj [(''goal'', JStr ''g''), (''steps'', JArr [])]),
       PlanShown (JObj [(''goal'', JStr ''g''), (''steps'', JArr [])]),
       Execution 1, Replan 1], 3)"
proof -
  let ?S = "sample_sys revising_once"
  let ?plan = "JObj [(''goal'', JStr ''g''), (''steps'', JArr [])]"
  have a: "\<forall>plan w. \<exists>ctx n s. executeWithReact ?S ''task'' plan w =
      (Inr (replan_requested ctx), n, s)"
    by (simp add: revising_once_execution)
  have b: "adaptiveAgent ?S ''task'' 0 =
     (Crashed SyntaxError, 1,
      [Planned None ?plan, PlanShown ?plan, Execution 1, Replan 1], 3)"
    by (simp add: adaptiveAgent_def adaptiveAgent_with_def revising_once_createPlan
        sample_plan_printed adaptiveAgent_loop.simps revising_once_execution
        revising_once_replan)
  show ?thesis by (intro conjI a b)
qed

section \<open>The revision request (C6)\<close>

text \<open>
  Claim C6, as amended. Take a turn of \<^verbatim>\<open>executeWithReact\<close> in which the requests before
  a \<^verbatim>\<open>request_replan\<close> request have been processed without an exception and without a
  revision request, and let the payload of that request parse to arguments whose
  reason can be printed. Then the loop appends the text \<^verbatim>\<open>REPLAN_REQUESTED\<close> under the
  identifier of the request and returns in the same iteration, with the status
  \<^verbatim>\<open>replan_requested\<close> and the reason, the completed steps and the discoveries of the
  arguments. The transcript ends with that result: the requests after it in the
  turn get no result, and no further decision request is made.
\<close>

theorem revision_request_ends_run:
  assumes "i < ceiling" "create sys (messages s) executionTools (world s) = (Inr m, w)"
    "r_tool_calls m = pre @ tc # post"
    "react_tool_calls sys pre (push (Assistant m) (s\<lparr>world := w\<rparr>)) = (Inr None, s1)"
    "tc_name tc = ''request_replan''" "JSON_parse sys (tc_arguments tc) = Some args"
    "printed args ''reason'' = None"
  shows "\<exists>contents.
           executeWithReact_loop sys ceiling i s =
             (Inr (replan_requested
                \<lparr>reason = property args ''reason'',
                 completedSteps = property args ''completed_steps'',
                 discoveries = property args ''discoveries''\<rparr>),
              Suc i, push (Tool (tc_id tc) (Str ''REPLAN_REQUESTED'')) s1) \<and>
           length contents = length pre \<and>
           messages (push (Tool (tc_id tc) (Str ''REPLAN_REQUESTED'')) s1) =
             messages s @ Assistant m # map2 Tool (map tc_id pre) contents @
               [Tool (tc_id tc) (Str ''REPLAN_REQUESTED'')]"
proof -
  let ?s0 = "push (Assistant m) (s\<lparr>world := w\<rparr>)"
  let ?s2 = "push (Tool (tc_id tc) (Str ''REPLAN_REQUESTED'')) s1"
  have one: "react_tool_calls sys (tc # post) s1 = (Inr (Some (replan_context args)), ?s2)"
    using react_replan_step[OF assms(5,6,7)] .
  have turn: "react_tool_calls sys (r_tool_calls m) ?s0 = (Inr (Some (replan_context args)), ?s2)"
    using assms(3,4) one react_tool_calls_append[of sys pre "tc # post" ?s0] by simp
  have ne: "r_tool_calls m \<noteq> []" using assms(3) by simp
  have run: "executeWithReact_loop sys ceiling i s =
      (Inr (replan_requested (replan_context args)), Suc i, ?s2)"
    using assms(1,2) ne turn by (simp add: executeWithReact_loop.simps)
  from react_tool_calls_quiet[OF assms(4)] obtain contents where
    c: "messages s1 = messages ?s0 @ map2 Tool (map tc_id pre) contents"
       "length contents = length pre" by auto
  have "messages ?s2 = messages s @ Assistant m # map2 Tool (map tc_id pre) contents @
      [Tool (tc_id tc) (Str ''REPLAN_REQUESTED'')]"
    using c(1) by simp
  with run c(2) show ?thesis unfolding replan_context_def by blast
qed

text \<open>A turn that reads a file, requests a revision and then lists files: the run ends
  with two results, and no command was run.\<close>

theorem revision_request_ends_run_witness:
  "(0::nat) < 20 \<and>
   create (sample_sys (once [read_notes, revision_request, list_files]))
     (messages (start (ExecutorPrompt07 (JObj [])) ''task'' (0::nat))) executionTools
     (world (start (ExecutorPrompt07 (JObj [])) ''task'' 0)) =
     (Inr \<lparr>r_content = None, r_tool_calls = [read_notes, revision_request, list_files]\<rparr>, 1) \<and>
   tc_name revision_request = ''request_replan'' \<and>
   JSON_parse (sample_sys (once [read_notes, revision_request, list_files]))
     (tc_arguments revision_request) =
     Some (JObj [(''reason'', JStr ''r''), (''completed_steps'', JArr []),
                 (''discoveries'', JArr [])]) \<and>
   printed (JObj [(''reason'', JStr ''r''), (''completed_steps'', JArr []),
                  (''discoveries'', JArr [])]) ''reason'' = None \<and>
   executeWithReact (sample_sys (once [read_notes, revision_request, list_files])) ''task''
       (JObj []) 0 =
     (Inr (replan_requested
        \<lparr>reason = Some (JStr ''r''), completedSteps = Some (JArr []),
         discoveries = Some (JArr [])\<rparr>), 1,
      \<lparr>messages = [System (ExecutorPrompt07 (JObj [])), User ''task'',
         Assistant \<lparr>r_content = None,
                    r_tool_calls = [read_notes, revision_request, list_files]\<rparr>,
         Tool ''call_1'' (Str (oshibka @ ''ENOENT: no such file or directory'')),
         Tool ''call_r'' (Str ''REPLAN_REQUESTED'')],
       world = 1,
       invoked = [(''read_file'', JObj [(''path'', JStr ''notes.txt'')]),
                  (''read_file'', JObj [(''path'', JStr ''notes.txt'')])]\<rparr>)"
proof -
  let ?S = "sample_sys (once [read_notes, revision_request, list_files])"
  let ?s = "start (ExecutorPrompt07 (JObj [])) ''task'' (0::nat)"
  let ?m = "\<lparr>r_content = None, r_tool_calls = [read_notes, revision_request, list_files]\<rparr>"
  let ?args = "JObj [(''reason'', JStr ''r''), (''completed_steps'', JArr []),
                     (''discoveries'', JArr [])]"
  let ?A = "JObj [(''path'', JStr ''notes.txt'')]"
  let ?s1 = "\<lparr>messages = [System (ExecutorPrompt07 (JObj [])), User ''task'', Assistant ?m,
                Tool ''call_1'' (Str (oshibka @ ''ENOENT: no such file or directory''))],
              world = 1::nat, invoked = [(''read_file'', ?A), (''read_file'', ?A)]\<rparr>"
  have lt: "(0::nat) < 20" by simp
  have cr: "create ?S (messages ?s) executionTools (world ?s) = (Inr ?m, 1)"
    by (simp add: once_def start_def)
  have tcs: "r_tool_calls ?m = [read_notes] @ revision_request # [list_files]" by simp
  have pre: "react_tool_calls ?S [read_notes] (push (Assistant ?m) (?s\<lparr>world := 1\<rparr>)) =
      (Inr None, ?s1)"
    by (simp add: start_def push_def read_notes_def sample_parse_simps react_branch_def
        args_preview_def call_or_text_def call_handler_def apply_handler_def toolHandlers07_def
        read_file_def sample_sys_def defaulted_def)
  have n: "tc_name revision_request = ''request_replan''" by (simp add: revision_request_def)
  have j: "JSON_parse ?S (tc_arguments revision_request) = Some ?args"
    by (simp add: revision_request_def sample_parse_simps)
  have pr: "printed ?args ''reason'' = None" by (simp add: printed_def template_def)
  from revision_request_ends_run[OF lt cr tcs pre n j pr]
  have "executeWithReact_loop ?S 20 0 ?s =
      (Inr (replan_requested
         \<lparr>reason = property ?args ''reason'',
          completedSteps = property ?args ''completed_steps'',
          discoveries = property ?args ''discoveries''\<rparr>),
       Suc 0, push (Tool (tc_id revision_request) (Str ''REPLAN_REQUESTED'')) ?s1)"
    by blast
  then have run: "executeWithReact ?S ''task'' (JObj []) 0 =
     (Inr (replan_requested
        \<lparr>reason = Some (JStr ''r''), completedSteps = Some (JArr []),
         discoveries = Some (JArr [])\<rparr>), 1,
      \<lparr>messages = [System (ExecutorPrompt07 (JObj [])), User ''task'', Assistant ?m,
         Tool ''call_1'' (Str (oshibka @ ''ENOENT: no such file or directory'')),
         Tool ''call_r'' (Str ''REPLAN_REQUESTED'')],
       world = 1, invoked = [(''read_file'', ?A), (''read_file'', ?A)]\<rparr>)"
    by (simp add: executeWithReact_def property_def push_def revision_request_def)
  show ?thesis by (intro conjI lt cr n j pr run)
qed

text \<open>
  Claim C6 as stated fails: the service requests \<^verbatim>\<open>write_file\<close> without a content and
  then a revision in one turn. Computing the printed line of the first request reads
  the length of a content that is not there, so \<^verbatim>\<open>executeWithReact\<close> ends with a type
  error: the revision request, although among the requests of the step, gets no
  result, and the run does not return \<^verbatim>\<open>replan_requested\<close>.
\<close>

theorem revision_after_failing_request_counterexample:
  "tc_name revision_request = ''request_replan'' \<and>
   executeWithReact (sample_sys (once [empty_write, revision_request])) ''task'' (JObj []) 0 =
     (Inl TypeError, 1,
      \<lparr>messages = [System (ExecutorPrompt07 (JObj [])), User ''task'',
         Assistant \<lparr>r_content = None, r_tool_calls = [empty_write, revision_request]\<rparr>],
       world = 1, invoked = []\<rparr>)"
  by (simp add: executeWithReact_def start_def executeWithReact_loop.simps once_def
      empty_write_def revision_request_def sample_parse_simps react_branch_def push_def
      args_preview_def printed_def template_def)

section \<open>Results and requests in a transcript (C7)\<close>

lemma pending_transcript:
  assumes "pending_after [] ms = Some q"
  shows "(q = [] \<longrightarrow> result_tags ms = request_ids ms) \<and>
         (distinct (request_ids ms) \<longrightarrow> distinct (result_tags ms) \<and> tags_match [] ms)"
proof (intro conjI impI)
  assume "q = []"
  with pending_after_tags[OF assms] show "result_tags ms = request_ids ms" by simp
next
  assume d: "distinct (request_ids ms)"
  from pending_after_tags[OF assms] have "result_tags ms @ map tc_id q = request_ids ms" by simp
  with d show "distinct (result_tags ms)" by (metis distinct_append)
next
  assume d: "distinct (request_ids ms)"
  show "tags_match [] ms" by (rule pending_after_match[OF assms _ _ d]) simp_all
qed

lemma loops_quiet:
  assumes "cfg = loop03 sys \<or> cfg = loop04 sys \<or> cfg = loop06 sys"
  shows "\<forall>name args s r s1. respond cfg name args s = (r, s1) \<longrightarrow> messages s1 = messages s"
  using assms
  by (auto dest: answer03_messages answer06_messages call_or_text_messages)

lemma answer08_messages: "answer08 H name args s = (r, s1) \<Longrightarrow> messages s1 = messages s"
  by (auto simp: answer08_def dest: call_taken_messages
           split: prod.splits sum.splits option.splits if_splits)

lemma interactive_pending:
  assumes "pending_after [] (messages s) = Some []"
    "interactiveAgent_loop sys H i s = (out, n, s')"
  shows "\<exists>q. pending_after [] (messages s') = Some q \<and> ((\<forall>e. out \<noteq> Threw e) \<longrightarrow> q = [])"
  using assms
proof (induction "30 - i" arbitrary: i s)
  case 0
  then have "\<not> i < 30" by simp
  with "0.prems" show ?case by (simp add: interactiveAgent_loop.simps)
next
  case (Suc k)
  then have lt: "i < 30" by simp
  have k: "k = 30 - Suc i" using Suc.hyps(2) by simp
  obtain res w where cr: "create sys (messages s) tools08 (world s) = (res, w)"
    by (cases "create sys (messages s) tools08 (world s)")
  show ?case
  proof (cases res)
    case (Inl e)
    with lt cr Suc.prems show ?thesis by (auto simp: interactiveAgent_loop.simps)
  next
    case (Inr m)
    show ?thesis
    proof (cases "r_tool_calls m = []")
      case True
      obtain follow w2 where a: "ask sys follow_question w = (follow, w2)"
        by (cases "ask sys follow_question w")
      show ?thesis
      proof (cases "follow = []")
        case True
        with lt cr Inr \<open>r_tool_calls m = []\<close> a Suc.prems show ?thesis
          by (auto simp: interactiveAgent_loop.simps pending_after_append)
      next
        case False
        let ?s1 = "push (User follow) (push (Assistant m) (s\<lparr>world := w2\<rparr>))"
        have p1: "pending_after [] (messages ?s1) = Some []"
          using Suc.prems(1) True by (simp add: pending_after_append)
        have "interactiveAgent_loop sys H (Suc i) ?s1 = (out, n, s')"
          using lt cr Inr True a False Suc.prems(2) by (simp add: interactiveAgent_loop.simps)
        from Suc.hyps(1)[OF k p1 this] show ?thesis .
      qed
    next
      case False
      let ?s1 = "push (Assistant m) (s\<lparr>world := w\<rparr>)"
      have p1: "pending_after [] (messages ?s1) = Some (r_tool_calls m)"
        using Suc.prems(1) by (simp add: pending_after_append)
      have q: "\<forall>name args s r s1. respond (loop08 H) name args s = (r, s1) \<longrightarrow>
          messages s1 = messages s"
        by (auto simp: loop08_def dest: answer08_messages)
      obtain r s2 where rt: "run_tool_calls sys (loop08 H) (r_tool_calls m) ?s1 = (r, s2)"
        by (cases "run_tool_calls sys (loop08 H) (r_tool_calls m) ?s1")
      from run_tool_calls_quiet[OF q rt] obtain contents where
        c: "length contents \<le> length (r_tool_calls m)"
           "messages s2 = messages ?s1 @ map2 Tool (map tc_id (r_tool_calls m)) contents"
           "r = None \<longrightarrow> length contents = length (r_tool_calls m)" by blast
      have p2: "pending_after [] (messages s2) = Some (drop (length contents) (r_tool_calls m))"
        unfolding c(2) using p1 c(1) by (rule results_pending)
      show ?thesis
      proof (cases r)
        case (Some e)
        with lt cr Inr False rt Suc.prems(2) p2 show ?thesis
          by (auto simp: interactiveAgent_loop.simps)
      next
        case None
        with c(3) p2 have q0: "pending_after [] (messages s2) = Some []" by simp
        have "interactiveAgent_loop sys H (Suc i) s2 = (out, n, s')"
          using lt cr Inr False rt None Suc.prems(2) by (simp add: interactiveAgent_loop.simps)
        from Suc.hyps(1)[OF k q0 this] show ?thesis .
      qed
    qed
  qed
qed

text \<open>
  Claim C7, as amended. Take any run of \<^verbatim>\<open>agentLoop\<close> (03-agent-loop.ts, 04-real-tools.ts),
  of the loop of \<^verbatim>\<open>planThenExecute\<close>, of \<^verbatim>\<open>executeWithReact\<close> or of \<^verbatim>\<open>interactiveAgent\<close> from
  its initial transcript. In the final transcript every result answers the first
  request of the assistant turn before it that was still unanswered, and a new
  assistant turn, that is the reply to the next decision request, only follows when
  every request of the turn before has its result. When the run ends without an
  exception (in \<^verbatim>\<open>executeWithReact\<close>: with the status \<^verbatim>\<open>completed\<close>), nothing is left
  unanswered and the tags of the results are the identifiers of the requests, in
  the same order. If the identifiers that the service gave to its requests are
  pairwise distinct, then no two results share a tag, and the tag of each result is
  the identifier of exactly one request of the assistant turn before it.
\<close>

theorem results_answer_requests:
  "((cfg = loop03 sys \<or> cfg = loop04 sys \<or> cfg = loop06 sys) \<and>
    tool_loop sys cfg 0 (start p task w) = (out, n, s') \<longrightarrow>
      (\<exists>q. pending_after [] (messages s') = Some q \<and> ((\<forall>e. out \<noteq> Threw e) \<longrightarrow> q = [])) \<and>
      ((\<forall>e. out \<noteq> Threw e) \<longrightarrow> result_tags (messages s') = request_ids (messages s')) \<and>
      (distinct (request_ids (messages s')) \<longrightarrow>
         distinct (result_tags (messages s')) \<and> tags_match [] (messages s'))) \<and>
   (executeWithReact_loop sys ceiling 0 (start p task w) = (res, n, s') \<longrightarrow>
      (\<exists>q. pending_after [] (messages s') = Some q \<and> (res = Inr completed \<longrightarrow> q = [])) \<and>
      (res = Inr completed \<longrightarrow> result_tags (messages s') = request_ids (messages s')) \<and>
      (distinct (request_ids (messages s')) \<longrightarrow>
         distinct (result_tags (messages s')) \<and> tags_match [] (messages s'))) \<and>
   (interactiveAgent_loop sys H 0 (start p task w) = (out, n, s') \<longrightarrow>
      (\<exists>q. pending_after [] (messages s') = Some q \<and> ((\<forall>e. out \<noteq> Threw e) \<longrightarrow> q = [])) \<and>
      ((\<forall>e. out \<noteq> Threw e) \<longrightarrow> result_tags (messages s') = request_ids (messages s')) \<and>
      (distinct (request_ids (messages s')) \<longrightarrow>
         distinct (result_tags (messages s')) \<and> tags_match [] (messages s')))"
proof -
  have s0: "pending_after [] (messages (start p task w)) = Some []" by (simp add: start_def)
  have a: "(\<exists>q. pending_after [] (messages s') = Some q \<and> ((\<forall>e. out \<noteq> Threw e) \<longrightarrow> q = [])) \<and>
      ((\<forall>e. out \<noteq> Threw e) \<longrightarrow> result_tags (messages s') = request_ids (messages s')) \<and>
      (distinct (request_ids (messages s')) \<longrightarrow>
         distinct (result_tags (messages s')) \<and> tags_match [] (messages s'))"
    if c: "cfg = loop03 sys \<or> cfg = loop04 sys \<or> cfg = loop06 sys"
      and r: "tool_loop sys cfg 0 (start p task w) = (out, n, s')"
  proof -
    from tool_loop_pending[OF loops_quiet[OF c] s0 r] obtain q where
      q: "pending_after [] (messages s') = Some q" "(\<forall>e. out \<noteq> Threw e) \<longrightarrow> q = []" by blast
    from pending_transcript[OF q(1)] q show ?thesis by blast
  qed
  have b: "(\<exists>q. pending_after [] (messages s') = Some q \<and> (res = Inr completed \<longrightarrow> q = [])) \<and>
      (res = Inr completed \<longrightarrow> result_tags (messages s') = request_ids (messages s')) \<and>
      (distinct (request_ids (messages s')) \<longrightarrow>
         distinct (result_tags (messages s')) \<and> tags_match [] (messages s'))"
    if r: "executeWithReact_loop sys ceiling 0 (start p task w) = (res, n, s')"
  proof -
    from executeWithReact_pending[OF s0 r] obtain q where
      q: "pending_after [] (messages s') = Some q" "res = Inr completed \<longrightarrow> q = []" by blast
    from pending_transcript[OF q(1)] q show ?thesis by blast
  qed
  have c: "(\<exists>q. pending_after [] (messages s') = Some q \<and> ((\<forall>e. out \<noteq> Threw e) \<longrightarrow> q = [])) \<and>
      ((\<forall>e. out \<noteq> Threw e) \<longrightarrow> result_tags (messages s') = request_ids (messages s')) \<and>
      (distinct (request_ids (messages s')) \<longrightarrow>
         distinct (result_tags (messages s')) \<and> tags_match [] (messages s'))"
    if r: "interactiveAgent_loop sys H 0 (start p task w) = (out, n, s')"
  proof -
    from interactive_pending[OF s0 r] obtain q where
      q: "pending_after [] (messages s') = Some q" "(\<forall>e. out \<noteq> Threw e) \<longrightarrow> q = []" by blast
    from pending_transcript[OF q(1)] q show ?thesis by blast
  qed
  from a b c show ?thesis by blast
qed

lemma interactiveAgent_sample_run:
  "interactiveAgent (sample_sys (once [list_files, unknown_tool])) Map.empty ''task'' None 0 =
     (Returned (Some ''done''), 2,
      \<lparr>messages = [System WizardPrompt08, User ''task'',
         Assistant \<lparr>r_content = None, r_tool_calls = [list_files, unknown_tool]\<rparr>,
         Tool ''call_2'' (Str (tool_not_found ''run_bash'')),
         Tool ''call_3'' (Str (tool_not_found ''list_dir'')),
         Assistant \<lparr>r_content = Some ''done'', r_tool_calls = []\<rparr>],
       world = 2, invoked = []\<rparr>)"
  by (simp add: interactiveAgent_def start_def interactiveAgent_loop.simps once_def finishing_def
      list_files_def unknown_tool_def sample_parse_simps push_def loop08_def answer08_def
      preview08_def call_taken_def toolHandlers08_def result_printed08_def
      object_prototype_def ask_def sample_sys_def trim_Nil)

text \<open>The sample runs of \<^verbatim>\<open>agentLoop\<close>, \<^verbatim>\<open>executeWithReact\<close> and \<^verbatim>\<open>interactiveAgent\<close> with two
  requests in one turn.\<close>

theorem results_answer_requests_witness:
  "fst (agentLoop04 (sample_sys (once [list_files, unknown_tool])) ''task'' 0) =
     Returned (Some ''done'') \<and>
   request_ids (messages (snd (snd
     (agentLoop04 (sample_sys (once [list_files, unknown_tool])) ''task'' 0)))) =
     [''call_2'', ''call_3''] \<and>
   pending_after [] (messages (snd (snd
     (agentLoop04 (sample_sys (once [list_files, unknown_tool])) ''task'' 0)))) = Some [] \<and>
   result_tags (messages (snd (snd
     (agentLoop04 (sample_sys (once [list_files, unknown_tool])) ''task'' 0)))) =
     [''call_2'', ''call_3''] \<and>
   tags_match [] (messages (snd (snd
     (agentLoop04 (sample_sys (once [list_files, unknown_tool])) ''task'' 0)))) \<and>
   fst (executeWithReact (sample_sys (once [list_files, unknown_tool])) ''task'' (JObj []) 0) =
     Inr completed \<and>
   request_ids (messages (snd (snd
     (executeWithReact (sample_sys (once [list_files, unknown_tool])) ''task'' (JObj []) 0)))) =
     [''call_2'', ''call_3''] \<and>
   pending_after [] (messages (snd (snd
     (executeWithReact (sample_sys (once [list_files, unknown_tool])) ''task'' (JObj []) 0)))) =
     Some [] \<and>
   result_tags (messages (snd (snd
     (executeWithReact (sample_sys (once [list_files, unknown_tool])) ''task'' (JObj []) 0)))) =
     [''call_2'', ''call_3''] \<and>
   tags_match [] (messages (snd (snd
     (executeWithReact (sample_sys (once [list_files, unknown_tool])) ''task'' (JObj []) 0)))) \<and>
   fst (interactiveAgent (sample_sys (once [list_files, unknown_tool])) Map.empty ''task''
          None 0) = Returned (Some ''done'') \<and>
   request_ids (messages (snd (snd
     (interactiveAgent (sample_sys (once [list_files, unknown_tool])) Map.empty ''task''
        None 0)))) = [''call_2'', ''call_3''] \<and>
   pending_after [] (messages (snd (snd
     (interactiveAgent (sample_sys (once [list_files, unknown_tool])) Map.empty ''task''
        None 0)))) = Some [] \<and>
   result_tags (messages (snd (snd
     (interactiveAgent (sample_sys (once [list_files, unknown_tool])) Map.empty ''task''
        None 0)))) = [''call_2'', ''call_3''] \<and>
   tags_match [] (messages (snd (snd
     (interactiveAgent (sample_sys (once [list_files, unknown_tool])) Map.empty ''task''
        None 0))))"
proof -
  let ?S = "sample_sys (once [list_files, unknown_tool])"
  let ?a = "agentLoop04 ?S ''task'' 0"
  let ?b = "executeWithReact ?S ''task'' (JObj []) 0"
  let ?c = "interactiveAgent ?S Map.empty ''task'' None 0"
  have a0: "fst ?a = Returned (Some ''done'')" unfolding agentLoop04_sample_run by simp
  have a1: "request_ids (messages (snd (snd ?a))) = [''call_2'', ''call_3'']"
    unfolding agentLoop04_sample_run by (simp add: list_files_def unknown_tool_def)
  have al: "tool_loop ?S (loop04 ?S) 0 (start AssistantPrompt04 ''task'' 0) =
      (fst ?a, fst (snd ?a), snd (snd ?a))"
    by (simp add: agentLoop04_def)
  have an: "\<forall>e. fst ?a \<noteq> Threw e" unfolding a0 by simp
  have ad: "distinct (request_ids (messages (snd (snd ?a))))" unfolding a1 by simp
  from results_answer_requests[of "loop04 ?S" ?S AssistantPrompt04 "''task''" 0 "fst ?a"
      "fst (snd ?a)" "snd (snd ?a)", THEN conjunct1] al an ad
  have a2: "pending_after [] (messages (snd (snd ?a))) = Some []"
    and a3': "result_tags (messages (snd (snd ?a))) = request_ids (messages (snd (snd ?a)))"
    and a4: "tags_match [] (messages (snd (snd ?a)))"
    by auto
  have a3: "result_tags (messages (snd (snd ?a))) = [''call_2'', ''call_3'']"
    using a3' a1 by simp
  have b0: "fst ?b = Inr completed" unfolding executeWithReact_sample_run by simp
  have b1: "request_ids (messages (snd (snd ?b))) = [''call_2'', ''call_3'']"
    unfolding executeWithReact_sample_run by (simp add: list_files_def unknown_tool_def)
  have bl: "executeWithReact_loop ?S 20 0 (start (ExecutorPrompt07 (JObj [])) ''task'' 0) =
      (fst ?b, fst (snd ?b), snd (snd ?b))"
    by (simp add: executeWithReact_def)
  have bd: "distinct (request_ids (messages (snd (snd ?b))))" unfolding b1 by simp
  from results_answer_requests[of _ ?S "ExecutorPrompt07 (JObj [])" "''task''" 0 _
      "fst (snd ?b)" "snd (snd ?b)" 20 "fst ?b", THEN conjunct2, THEN conjunct1] bl b0 bd
  have b2: "pending_after [] (messages (snd (snd ?b))) = Some []"
    and b3': "result_tags (messages (snd (snd ?b))) = request_ids (messages (snd (snd ?b)))"
    and b4: "tags_match [] (messages (snd (snd ?b)))"
    by auto
  have b3: "result_tags (messages (snd (snd ?b))) = [''call_2'', ''call_3'']"
    using b3' b1 by simp
  have c0: "fst ?c = Returned (Some ''done'')" unfolding interactiveAgent_sample_run by simp
  have c1: "request_ids (messages (snd (snd ?c))) = [''call_2'', ''call_3'']"
    unfolding interactiveAgent_sample_run by (simp add: list_files_def unknown_tool_def)
  have cl: "interactiveAgent_loop ?S Map.empty 0 (start WizardPrompt08 ''task'' 0) =
      (fst ?c, fst (snd ?c), snd (snd ?c))"
    by (simp add: interactiveAgent_def)
  have cn: "\<forall>e. fst ?c \<noteq> Threw e" unfolding c0 by simp
  have cd: "distinct (request_ids (messages (snd (snd ?c))))" unfolding c1 by simp
  from results_answer_requests[of _ ?S WizardPrompt08 "''task''" 0 "fst ?c"
      "fst (snd ?c)" "snd (snd ?c)" _ _ Map.empty, THEN conjunct2, THEN conjunct2] cl cn cd
  have c2: "pending_after [] (messages (snd (snd ?c))) = Some []"
    and c3': "result_tags (messages (snd (snd ?c))) = request_ids (messages (snd (snd ?c)))"
    and c4: "tags_match [] (messages (snd (snd ?c)))"
    by auto
  have c3: "result_tags (messages (snd (snd ?c))) = [''call_2'', ''call_3'']"
    using c3' c1 by simp
  show ?thesis by (intro conjI a0 a1 a2 a3 a4 b0 b1 b2 b3 b4 c0 c1 c2 c3 c4)
qed

text \<open>
  Claim C7 as stated fails: the service gives the identifier \<^verbatim>\<open>call_1\<close> to both requests
  of one turn. \<^verbatim>\<open>agentLoop\<close> of 04-real-tools.ts copies the identifier of each request
  into its result, so the run ends normally with two results that share a tag, and
  that tag is the identifier of two requests of the turn.
\<close>

theorem shared_identifier_counterexample:
  "fst (agentLoop04 (sample_sys (once [read_notes, list_again])) ''task'' 0) =
     Returned (Some ''done'') \<and>
   request_ids (messages (snd (snd
     (agentLoop04 (sample_sys (once [read_notes, list_again])) ''task'' 0)))) =
     [''call_1'', ''call_1''] \<and>
   result_tags (messages (snd (snd
     (agentLoop04 (sample_sys (once [read_notes, list_again])) ''task'' 0)))) =
     [''call_1'', ''call_1''] \<and>
   \<not> distinct (result_tags (messages (snd (snd
     (agentLoop04 (sample_sys (once [read_notes, list_again])) ''task'' 0))))) \<and>
   \<not> tags_match [] (messages (snd (snd
     (agentLoop04 (sample_sys (once [read_notes, list_again])) ''task'' 0))))"
proof -
  have run: "agentLoop04 (sample_sys (once [read_notes, list_again])) ''task'' 0 =
     (Returned (Some ''done''), 2,
      \<lparr>messages = [System AssistantPrompt04, User ''task'',
         Assistant \<lparr>r_content = None, r_tool_calls = [read_notes, list_again]\<rparr>,
         Tool ''call_1'' (Str (oshibka @ ''ENOENT: no such file or directory'')),
         Tool ''call_1'' (Str (oshibka @ ''Command failed: ls'')),
         Assistant \<lparr>r_content = Some ''done'', r_tool_calls = []\<rparr>],
       world = 2,
       invoked = [(''read_file'', JObj [(''path'', JStr ''notes.txt'')]),
                  (''run_bash'', JObj [(''command'', JStr ''ls'')])]\<rparr>)"
    by (simp add: agentLoop04_def start_def tool_loop.simps once_def finishing_def
        read_notes_def list_again_def sample_parse_simps push_def
        call_or_text_def call_handler_def apply_handler_def toolHandlers04_def run_bash04_def
        read_file_def sample_sys_def defaulted_def)
  show ?thesis unfolding run by (simp add: read_notes_def list_again_def)
qed

end
